(* ===== verification/Prelude.thy ===== *)
theory Prelude
  imports Complex_Main
begin

text \<open>
  The JavaScript value layer shared by every component of the front end.
  A JSON scalar or an object field read by the code is a \<open>jsval\<close>; a plain
  JavaScript object (the extracted-field records, the form records, the tax
  calculation response) is a map \<open>obj\<close> from field names to values, where a
  missing key reads as \<open>undefined\<close> (\<open>js_get\<close>). Object spread
  \<open>{...a, ...b}\<close> is \<open>a ++ b\<close>: the right operand wins on common keys, exactly
  as in the language. \<open>js_truthy\<close> is ECMAScript ToBoolean and \<open>js_or\<close> the
  short-circuit \<open>||\<close> the code uses for every default (\<open>data.wages || 0\<close>).
  Numbers are mathematical reals: the double rounding of JavaScript arithmetic
  is not modelled (see the header of Spec2Isabelle). A failed HTTP call of the
  axios client is an \<open>http_error\<close> carrying the response status (None for a
  network error) and the \<open>detail\<close> field of the response body.
\<close>

named_theorems js_simps "evaluation rules of the JavaScript value layer"

datatype jsval =
    JUndefined
  | JNull
  | JBool bool
  | JNum real
  | JNaN
  | JInf bool  \<comment> \<open>\<open>JInf True\<close> is \<open>Infinity\<close>, \<open>JInf False\<close> is \<open>-Infinity\<close>\<close>
  | JStr string
  | JObject  \<comment> \<open>any object or array value; only its truthiness is observed\<close>

type_synonym obj = "string \<rightharpoonup> jsval"

record http_error =
  status :: "int option"
  detail :: jsval

definition js_get :: "obj \<Rightarrow> string \<Rightarrow> jsval" where
  "js_get m k = (case m k of None \<Rightarrow> JUndefined | Some v \<Rightarrow> v)"

fun js_truthy :: "jsval \<Rightarrow> bool" where
  "js_truthy JUndefined = False"
| "js_truthy JNull = False"
| "js_truthy (JBool b) = b"
| "js_truthy (JNum r) = (r \<noteq> 0)"
| "js_truthy JNaN = False"
| "js_truthy (JInf _) = True"
| "js_truthy (JStr s) = (s \<noteq> [])"
| "js_truthy JObject = True"

definition js_or :: "jsval \<Rightarrow> jsval \<Rightarrow> jsval" where
  "js_or a b = (if js_truthy a then a else b)"

text \<open>Strict equality \<open>===\<close>: \<open>NaN\<close> is unequal to itself; objects compare by
  reference, which the model cannot see, so two object values are never equal.\<close>

fun js_strict_eq :: "jsval \<Rightarrow> jsval \<Rightarrow> bool" where
  "js_strict_eq JNaN _ = False"
| "js_strict_eq _ JNaN = False"
| "js_strict_eq JObject _ = False"
| "js_strict_eq a b = (a = b)"

datatype js_type = TUndefined | TObject | TBoolean | TNumber | TString

fun js_typeof :: "jsval \<Rightarrow> js_type" where
  "js_typeof JUndefined = TUndefined"
| "js_typeof JNull = TObject"
| "js_typeof (JBool _) = TBoolean"
| "js_typeof (JNum _) = TNumber"
| "js_typeof JNaN = TNumber"
| "js_typeof (JInf _) = TNumber"
| "js_typeof (JStr _) = TString"
| "js_typeof JObject = TObject"

text \<open>The message the pages show for a failed call:
  \<open>err.response?.data?.detail || fallback\<close>.\<close>

definition error_text :: "http_error \<Rightarrow> string \<Rightarrow> jsval" where
  "error_text e fallback = js_or (detail e) (JStr fallback)"

text \<open>White space and line terminators as \<open>trim\<close> and \<open>parseFloat\<close> skip
  them; the model knows the ASCII ones (tab, line feed, vertical tab, form feed,
  carriage return, space), not the multi-byte Unicode spaces.\<close>

definition js_is_space :: "char \<Rightarrow> bool" where
  "js_is_space c \<longleftrightarrow> of_char c \<in> {9, 10, 11, 12, 13, 32 :: nat}"

definition is_digit :: "char \<Rightarrow> bool" where
  "is_digit c \<longleftrightarrow> 48 \<le> (of_char c :: nat) \<and> (of_char c :: nat) \<le> 57"

subsection \<open>Shared lemmas\<close>

lemma js_or_truthy [simp, js_simps]: "js_truthy a \<Longrightarrow> js_or a b = a"
  by (simp add: js_or_def)

lemma js_or_falsy [simp, js_simps]: "\<not> js_truthy a \<Longrightarrow> js_or a b = b"
  by (simp add: js_or_def)

lemma js_or_cases: "js_or a b = a \<or> js_or a b = b"
  by (simp add: js_or_def)

lemma js_or_truthy_iff: "js_truthy (js_or a b) \<longleftrightarrow> js_truthy a \<or> js_truthy b"
  by (simp add: js_or_def)

lemma js_get_Some [simp, js_simps]: "m k = Some v \<Longrightarrow> js_get m k = v"
  by (simp add: js_get_def)

lemma js_get_None [simp, js_simps]: "m k = None \<Longrightarrow> js_get m k = JUndefined"
  by (simp add: js_get_def)

lemma js_get_upd [simp, js_simps]:
  "js_get (m(k \<mapsto> v)) k' = (if k' = k then v else js_get m k')"
  by (simp add: js_get_def)

lemma js_get_map_add:
  "js_get (m ++ p) k = (case p k of None \<Rightarrow> js_get m k | Some v \<Rightarrow> v)"
  by (simp add: js_get_def map_add_def split: option.splits)

text \<open>Spreading the same object twice is spreading it once.\<close>

lemma map_add_absorb_right [simp]: "(m ++ p) ++ p = m ++ p"
  by (simp add: map_add_def fun_eq_iff split: option.splits)

lemma map_add_upd_empty: "m ++ Map.empty(k \<mapsto> v) = m(k \<mapsto> v)"
  by simp

lemma error_text_truthy: "js_truthy (error_text e fallback) \<or> fallback = []"
  by (simp add: error_text_def js_or_def)

end
