(* ===== verification/JsNumber.thy ===== *)
theory JsNumber
  imports Prelude
begin

text \<open>
  The two number conversions the pages apply to user input and to amounts:
  the global \<open>parseFloat\<close> (ECMAScript 2023, 21.1.2.12) and
  \<open>Number.prototype.toFixed(2)\<close> (21.1.3.3), on exact reals. \<open>parseFloat\<close>
  skips leading white space and reads the longest prefix that is a
  \<open>StrDecimalLiteral\<close> (a sign, then \<open>Infinity\<close> or decimal digits with an
  optional fraction and exponent), and is \<open>NaN\<close> when there is none.
  \<open>toFixed(2)\<close> writes the sign of a negative value, then the integer n with
  n/100 nearest to the absolute value (the larger one on a tie), with two
  decimals. The lemmas show that every numeric input of the forms is coerced to
  a number or Infinity, never \<open>NaN\<close>, and that \<open>parseFloat\<close> reads back what
  \<open>toFixed(2)\<close> writes, rounded to the cent.
\<close>

definition digit_val :: "char \<Rightarrow> nat" where
  "digit_val c = of_char c - 48"

definition digits_value :: "string \<Rightarrow> nat" where
  "digits_value ds = foldl (\<lambda>n c. 10 * n + digit_val c) 0 ds"

text \<open>The value of a mantissa \<open>m\<close> scaled by \<open>10 ^ e\<close>.\<close>

definition scale10 :: "nat \<Rightarrow> int \<Rightarrow> real" where
  "scale10 m e = (if 0 \<le> e then real m * 10 ^ nat e else real m / 10 ^ nat (- e))"

text \<open>An optional leading sign: True for \<open>-\<close>.\<close>

definition sign_split :: "string \<Rightarrow> bool \<times> string" where
  "sign_split s =
    (case s of
       c # r \<Rightarrow> if c = CHR ''-'' then (True, r) else if c = CHR ''+'' then (False, r) else (False, s)
     | [] \<Rightarrow> (False, []))"

text \<open>The optional exponent part \<open>(e|E) [+|-] digits\<close> and the rest of the
  input; without at least one digit it is not part of the literal.\<close>

definition parse_exponent :: "string \<Rightarrow> int \<times> string" where
  "parse_exponent s =
    (case s of
       c # r \<Rightarrow>
         if c = CHR ''e'' \<or> c = CHR ''E'' then
           (let (neg, t) = sign_split r;
                ds = takeWhile is_digit t
            in if ds = [] then (0, s)
               else (if neg then - int (digits_value ds) else int (digits_value ds),
                     dropWhile is_digit t))
         else (0, s)
     | [] \<Rightarrow> (0, []))"

text \<open>\<open>StrUnsignedDecimalLiteral\<close> without \<open>Infinity\<close>, as a prefix:
  integer digits, an optional point with fraction digits (at least one digit in
  all), an optional exponent; the value and the rest of the input.\<close>

definition parse_unsigned :: "string \<Rightarrow> (real \<times> string) option" where
  "parse_unsigned s =
    (let ip = takeWhile is_digit s;
         r1 = dropWhile is_digit s;
         (fp, r2) = (case r1 of
                       c # r \<Rightarrow> if c = CHR ''.'' then (takeWhile is_digit r, dropWhile is_digit r)
                                else ([], r1)
                     | [] \<Rightarrow> ([], []))
     in if ip = [] \<and> fp = [] then None
        else (let (e, r3) = parse_exponent r2
              in Some (scale10 (digits_value (ip @ fp)) (e - int (length fp)), r3)))"

text \<open>\<open>StrDecimalLiteral\<close> as a prefix: a sign, then \<open>Infinity\<close> or an
  unsigned literal.\<close>

definition str_decimal_prefix :: "string \<Rightarrow> (jsval \<times> string) option" where
  "str_decimal_prefix t =
    (let (neg, u) = sign_split t
     in if take 8 u = ''Infinity'' then Some (JInf (\<not> neg), drop 8 u)
        else map_option (\<lambda>(r, rest). (JNum (if neg then - r else r), rest)) (parse_unsigned u))"

definition parseFloat :: "string \<Rightarrow> jsval" where
  "parseFloat str =
    (case str_decimal_prefix (dropWhile js_is_space str) of None \<Rightarrow> JNaN | Some (v, _) \<Rightarrow> v)"

text \<open>The coercion of the numeric inputs: \<open>parseFloat(e.target.value) || 0\<close>.\<close>

definition number_input :: "string \<Rightarrow> jsval" where
  "number_input raw = js_or (parseFloat raw) (JNum 0)"

subsection \<open>parseInt and ToNumber\<close>

text \<open>The value of a digit in radix \<open>r\<close> (up to 16), if it is one.\<close>

definition radix_digit :: "nat \<Rightarrow> char \<Rightarrow> nat option" where
  "radix_digit r c =
    (let n = (of_char c :: nat);
         v = (if 48 \<le> n \<and> n \<le> 57 then n - 48
              else if 97 \<le> n \<and> n \<le> 102 then n - 87
              else if 65 \<le> n \<and> n \<le> 70 then n - 55 else 99)
     in if v < r then Some v else None)"

fun radix_acc :: "nat \<Rightarrow> nat \<Rightarrow> string \<Rightarrow> nat option" where
  "radix_acc r n [] = Some n"
| "radix_acc r n (c # cs) = (case radix_digit r c of None \<Rightarrow> None | Some d \<Rightarrow> radix_acc r (r * n + d) cs)"

text \<open>\<open>parseInt(string)\<close> without a radix argument: white space, a sign, a
  \<open>0x\<close> prefix selecting radix 16, the longest run of digits of the radix.\<close>

definition parseInt :: "string \<Rightarrow> jsval" where
  "parseInt str =
    (let (neg, u) = sign_split (dropWhile js_is_space str);
         (r, v) = (case u of
                     c0 # c1 # rest \<Rightarrow> if c0 = CHR ''0'' \<and> (c1 = CHR ''x'' \<or> c1 = CHR ''X'')
                                       then (16, rest) else (10, u)
                   | _ \<Rightarrow> (10, u));
         z = takeWhile (\<lambda>c. radix_digit r c \<noteq> None) v
     in if z = [] then JNaN
        else (case radix_acc r 0 z of
                None \<Rightarrow> JNaN
              | Some n \<Rightarrow> JNum (if neg then - real n else real n)))"

text \<open>A \<open>NonDecimalIntegerLiteral\<close> (\<open>0x\<close>, \<open>0o\<close>, \<open>0b\<close>) taking the whole
  string.\<close>

definition radix_literal :: "string \<Rightarrow> nat option" where
  "radix_literal t =
    (case t of
       c0 # c1 # ds \<Rightarrow>
         if c0 = CHR ''0'' \<and> ds \<noteq> [] then
           (if c1 = CHR ''x'' \<or> c1 = CHR ''X'' then radix_acc 16 0 ds
            else if c1 = CHR ''o'' \<or> c1 = CHR ''O'' then radix_acc 8 0 ds
            else if c1 = CHR ''b'' \<or> c1 = CHR ''B'' then radix_acc 2 0 ds else None)
         else None
     | _ \<Rightarrow> None)"

definition js_trim :: "string \<Rightarrow> string" where
  "js_trim s = rev (dropWhile js_is_space (rev (dropWhile js_is_space s)))"

text \<open>ToNumber of a string (\<open>StringNumericLiteral\<close>): white space around an
  empty string (0), a non-decimal integer literal, or a decimal literal that takes
  the whole string; anything else is \<open>NaN\<close>.\<close>

definition string_to_number :: "string \<Rightarrow> jsval" where
  "string_to_number s =
    (let t = js_trim s
     in if t = [] then JNum 0
        else (case radix_literal t of
                Some n \<Rightarrow> JNum (real n)
              | None \<Rightarrow> (case str_decimal_prefix t of Some (v, []) \<Rightarrow> v | _ \<Rightarrow> JNaN)))"

text \<open>ToNumber of a value. An object or array value is taken as \<open>NaN\<close>
  (a plain object's primitive is \<open>"[object Object]"\<close>; the arrays of one
  numeric element the language would convert are not distinguished).\<close>

fun js_to_number :: "jsval \<Rightarrow> jsval" where
  "js_to_number JUndefined = JNaN"
| "js_to_number JNull = JNum 0"
| "js_to_number (JBool b) = JNum (if b then 1 else 0)"
| "js_to_number (JNum r) = JNum r"
| "js_to_number JNaN = JNaN"
| "js_to_number (JInf b) = JInf b"
| "js_to_number (JStr s) = string_to_number s"
| "js_to_number JObject = JNaN"

text \<open>\<open>v > c\<close> for a number literal \<open>c\<close>: both sides converted to numbers.\<close>

definition js_gt :: "jsval \<Rightarrow> real \<Rightarrow> bool" where
  "js_gt v c = (case js_to_number v of JNum r \<Rightarrow> c < r | JInf b \<Rightarrow> b | _ \<Rightarrow> False)"

text \<open>\<open>Math.abs(v)\<close>.\<close>

definition js_abs :: "jsval \<Rightarrow> jsval" where
  "js_abs v = (case js_to_number v of JNum r \<Rightarrow> JNum \<bar>r\<bar> | JInf _ \<Rightarrow> JInf True | _ \<Rightarrow> JNaN)"

subsection \<open>toFixed(2)\<close>

definition digit_char :: "nat \<Rightarrow> char" where
  "digit_char d = char_of (48 + d)"

fun nat_digits :: "nat \<Rightarrow> string" where
  "nat_digits n = (if n < 10 then [digit_char n] else nat_digits (n div 10) @ [digit_char (n mod 10)])"

declare nat_digits.simps [simp del]

text \<open>The integer of the steps 8.a of toFixed: the n nearest to \<open>x * 100\<close>,
  the larger on a tie.\<close>

definition cents_of :: "real \<Rightarrow> nat" where
  "cents_of x = nat \<lfloor>x * 100 + 1 / 2\<rfloor>"

definition fixed2_abs :: "real \<Rightarrow> string" where
  "fixed2_abs x =
    (let m = nat_digits (cents_of x);
         m' = replicate (3 - length m) (CHR ''0'') @ m;
         k = length m' - 2
     in take k m' @ CHR ''.'' # drop k m')"

definition toFixed2 :: "real \<Rightarrow> string" where
  "toFixed2 x = (if x < 0 then CHR ''-'' # fixed2_abs (- x) else fixed2_abs x)"

text \<open>\<open>v.toFixed(2)\<close> on any value: a TypeError (None) unless \<open>v\<close> is a
  number; \<open>NaN\<close> and the infinities print as their names.\<close>

fun js_to_fixed2 :: "jsval \<Rightarrow> string option" where
  "js_to_fixed2 (JNum r) = Some (toFixed2 r)"
| "js_to_fixed2 JNaN = Some ''NaN''"
| "js_to_fixed2 (JInf b) = Some (if b then ''Infinity'' else ''-Infinity'')"
| "js_to_fixed2 _ = None"

subsection \<open>Digit strings\<close>

text \<open>The equations that evaluate the parsers on a concrete string.\<close>

lemmas parse_eval_defs = parseFloat_def str_decimal_prefix_def sign_split_def parse_unsigned_def
  parse_exponent_def is_digit_def js_is_space_def digits_value_def digit_val_def scale10_def

lemma is_digit_digit_char [simp]: "d < 10 \<Longrightarrow> is_digit (digit_char d)"
  by (simp add: is_digit_def digit_char_def)

lemma digit_val_digit_char [simp]: "d < 10 \<Longrightarrow> digit_val (digit_char d) = d"
  by (simp add: digit_val_def digit_char_def)

lemma digits_value_Nil [simp]: "digits_value [] = 0"
  by (simp add: digits_value_def)

lemma digits_value_snoc [simp]: "digits_value (xs @ [c]) = 10 * digits_value xs + digit_val c"
  by (simp add: digits_value_def)

lemma digits_value_single [simp]: "digits_value [c] = digit_val c"
  by (simp add: digits_value_def)

lemma digits_value_append:
  "digits_value (xs @ ys) = digits_value xs * 10 ^ length ys + digits_value ys"
proof (induction ys rule: rev_induct)
  case Nil
  then show ?case by simp
next
  case (snoc c ys)
  have "digits_value (xs @ ys @ [c]) = 10 * digits_value (xs @ ys) + digit_val c"
    by (metis append_assoc digits_value_snoc)
  also have "\<dots> = digits_value xs * 10 ^ length (ys @ [c]) + digits_value (ys @ [c])"
    using snoc by (simp add: algebra_simps)
  finally show ?case by simp
qed

lemma digits_value_zeros [simp]: "digits_value (replicate k (CHR ''0'')) = 0"
proof (induction k)
  case 0
  then show ?case by simp
next
  case (Suc k)
  have "replicate (Suc k) (CHR ''0'') = replicate k (CHR ''0'') @ [CHR ''0'']"
    by (simp add: replicate_append_same)
  with Suc show ?case by (simp add: digit_val_def)
qed

text \<open>The ten digit characters, for evaluating \<open>toFixed2\<close> on a closed
  amount.\<close>

lemma digit_char_values [simp]:
  "digit_char 0 = CHR ''0''" "digit_char 1 = CHR ''1''" "digit_char 2 = CHR ''2''"
  "digit_char 3 = CHR ''3''" "digit_char 4 = CHR ''4''" "digit_char 5 = CHR ''5''"
  "digit_char 6 = CHR ''6''" "digit_char 7 = CHR ''7''" "digit_char 8 = CHR ''8''"
  "digit_char 9 = CHR ''9''"
  by code_simp+

lemma nat_digits_ne [simp]: "nat_digits n \<noteq> []"
  by (subst nat_digits.simps) simp

lemma nat_digits_digits: "c \<in> set (nat_digits n) \<Longrightarrow> is_digit c"
proof (induction n rule: nat_digits.induct)
  case (1 n)
  then show ?case
    by (cases "n < 10") (auto simp: nat_digits.simps [of n])
qed

lemma digits_value_nat_digits [simp]: "digits_value (nat_digits n) = n"
proof (induction n rule: nat_digits.induct)
  case (1 n)
  then show ?case
    by (cases "n < 10") (simp_all add: nat_digits.simps [of n])
qed

lemma digit_not_space: "is_digit c \<Longrightarrow> \<not> js_is_space c"
  by (auto simp: is_digit_def js_is_space_def)

lemma digit_not_sign: "is_digit c \<Longrightarrow> c \<noteq> CHR ''-'' \<and> c \<noteq> CHR ''+'' \<and> c \<noteq> CHR ''.'' \<and> c \<noteq> CHR ''I''"
  by (auto simp: is_digit_def)

lemma not_digit_dot [simp]: "\<not> is_digit (CHR ''.'')"
  by (simp add: is_digit_def)

lemma scale10_neg: "scale10 m (- int k) = real m / 10 ^ k"
  by (cases "k = 0") (simp_all add: scale10_def)

subsection \<open>Reading a decimal literal\<close>

lemma parse_unsigned_fixed:
  assumes a: "a \<noteq> []" "\<forall>c\<in>set a. is_digit c" and b: "\<forall>c\<in>set b. is_digit c"
  shows "parse_unsigned (a @ CHR ''.'' # b) = Some (real (digits_value (a @ b)) / 10 ^ length b, [])"
proof -
  have t1: "takeWhile is_digit (a @ CHR ''.'' # b) = a"
    and d1: "dropWhile is_digit (a @ CHR ''.'' # b) = CHR ''.'' # b"
    using a by simp_all
  have t2: "takeWhile is_digit b = b" and d2: "dropWhile is_digit b = []"
    using b by (simp_all add: takeWhile_eq_all_conv dropWhile_eq_Nil_conv)
  show ?thesis
    using a by (simp add: parse_unsigned_def parse_exponent_def scale10_neg t1 d1 t2 d2)
qed

lemma parseFloat_unsigned:
  assumes "u \<noteq> []" "is_digit (hd u)"
  shows "parseFloat u = (case parse_unsigned u of None \<Rightarrow> JNaN | Some (r, _) \<Rightarrow> JNum r)"
    and "parseFloat (CHR ''-'' # u) = (case parse_unsigned u of None \<Rightarrow> JNaN | Some (r, _) \<Rightarrow> JNum (- r))"
proof -
  obtain c r where u: "u = c # r" and c: "is_digit c"
    using assms by (cases u) auto
  have "take 8 u \<noteq> ''Infinity''"
    using u c digit_not_sign [OF c] by auto
  then show "parseFloat u = (case parse_unsigned u of None \<Rightarrow> JNaN | Some (r, _) \<Rightarrow> JNum r)"
    using u c digit_not_space [OF c] digit_not_sign [OF c]
    by (simp add: parseFloat_def str_decimal_prefix_def sign_split_def split: option.split)
  show "parseFloat (CHR ''-'' # u) = (case parse_unsigned u of None \<Rightarrow> JNaN | Some (r, _) \<Rightarrow> JNum (- r))"
    using \<open>take 8 u \<noteq> ''Infinity''\<close>
    by (simp add: parseFloat_def str_decimal_prefix_def sign_split_def js_is_space_def split: option.split)
qed

lemma fixed2_abs_shape:
  obtains a b where "fixed2_abs x = a @ CHR ''.'' # b" "a \<noteq> []" "length b = 2"
    "\<forall>c\<in>set (a @ b). is_digit c" "digits_value (a @ b) = cents_of x"
proof -
  define m where "m = nat_digits (cents_of x)"
  define m' where "m' = replicate (3 - length m) (CHR ''0'') @ m"
  define k where "k = length m' - 2"
  have len: "3 \<le> length m'" by (simp add: m'_def)
  have dig: "\<forall>c\<in>set m'. is_digit c"
    using nat_digits_digits by (auto simp: m'_def m_def is_digit_def)
  have val: "digits_value m' = cents_of x"
    by (simp add: m'_def m_def digits_value_append)
  have "fixed2_abs x = take k m' @ CHR ''.'' # drop k m'"
    by (simp add: fixed2_abs_def m_def m'_def k_def Let_def)
  moreover have "take k m' \<noteq> []" "length (drop k m') = 2"
    using len by (auto simp: k_def)
  moreover have "\<forall>c\<in>set (take k m' @ drop k m'). is_digit c"
    using dig by simp
  moreover have "digits_value (take k m' @ drop k m') = cents_of x"
    using val by simp
  ultimately show ?thesis using that by blast
qed

lemma fixed2_abs_ne: "fixed2_abs r \<noteq> []"
  by (simp add: fixed2_abs_def Let_def)

lemma toFixed2_ne: "toFixed2 r \<noteq> []"
  by (simp add: toFixed2_def fixed2_abs_ne)

lemma parseFloat_fixed2_abs: "parseFloat (fixed2_abs x) = JNum (real (cents_of x) / 100)"
  and parseFloat_neg_fixed2_abs: "parseFloat (CHR ''-'' # fixed2_abs x) = JNum (- (real (cents_of x) / 100))"
proof -
  obtain a b where shape: "fixed2_abs x = a @ CHR ''.'' # b" "a \<noteq> []" "length b = 2"
    "\<forall>c\<in>set (a @ b). is_digit c" "digits_value (a @ b) = cents_of x"
    by (rule fixed2_abs_shape)
  have hd: "fixed2_abs x \<noteq> []" "is_digit (hd (fixed2_abs x))"
    using shape by (auto simp: hd_append)
  have pu: "parse_unsigned (fixed2_abs x) = Some (real (cents_of x) / 100, [])"
    using shape parse_unsigned_fixed [of a b] by simp
  show "parseFloat (fixed2_abs x) = JNum (real (cents_of x) / 100)"
    using parseFloat_unsigned(1) [OF hd] pu by simp
  show "parseFloat (CHR ''-'' # fixed2_abs x) = JNum (- (real (cents_of x) / 100))"
    using parseFloat_unsigned(2) [OF hd] pu by simp
qed

lemma parse_unsigned_digits:
  assumes "a \<noteq> []" "\<forall>c\<in>set a. is_digit c"
  shows "parse_unsigned a = Some (real (digits_value a), [])"
proof -
  have t: "takeWhile is_digit a = a" and d: "dropWhile is_digit a = []"
    using assms(2) by (simp_all add: takeWhile_eq_all_conv dropWhile_eq_Nil_conv)
  show ?thesis
    using assms(1) by (simp add: parse_unsigned_def parse_exponent_def scale10_def t d)
qed

lemma cents_of_error:
  assumes "0 \<le> x"
  shows "\<bar>real (cents_of x) / 100 - x\<bar> \<le> 1 / 200"
proof -
  have nn: "0 \<le> \<lfloor>x * 100 + 1 / 2\<rfloor>" using assms by simp
  have "real (cents_of x) = real_of_int \<lfloor>x * 100 + 1 / 2\<rfloor>"
    using nn by (simp add: cents_of_def)
  moreover have "x * 100 - 1 / 2 < real_of_int \<lfloor>x * 100 + 1 / 2\<rfloor>"
    and "real_of_int \<lfloor>x * 100 + 1 / 2\<rfloor> \<le> x * 100 + 1 / 2"
    by linarith+
  ultimately show ?thesis unfolding abs_le_iff by linarith
qed

subsection \<open>Theorems of the number conversions\<close>

text \<open>C34. Round trip of the payment amount: \<open>parseFloat\<close> reads back the
  string \<open>toFixed(2)\<close> writes for any amount, as the amount rounded to the
  nearest cent (half a cent rounds away from zero), with its sign.\<close>

theorem parseFloat_toFixed2:
  "parseFloat (toFixed2 x) =
     JNum (if x < 0 then - (real (cents_of (- x)) / 100) else real (cents_of x) / 100)"
  by (simp add: toFixed2_def parseFloat_fixed2_abs parseFloat_neg_fixed2_abs)

text \<open>C35. The amount read back differs from the original by at most half a
  cent.\<close>

theorem toFixed2_rounding_bound:
  "parseFloat (toFixed2 x) = JNum r \<Longrightarrow> \<bar>r - x\<bar> \<le> 1 / 200"
proof -
  assume eq: "parseFloat (toFixed2 x) = JNum r"
  show "\<bar>r - x\<bar> \<le> 1 / 200"
  proof (cases "x < 0")
    case True
    with eq have "r = - (real (cents_of (- x)) / 100)"
      by (simp add: parseFloat_toFixed2)
    moreover have "\<bar>real (cents_of (- x)) / 100 - (- x)\<bar> \<le> 1 / 200"
      using True by (intro cents_of_error) simp
    ultimately show ?thesis unfolding abs_le_iff by linarith
  next
    case False
    with eq have "r = real (cents_of x) / 100"
      by (simp add: parseFloat_toFixed2)
    moreover have "\<bar>real (cents_of x) / 100 - x\<bar> \<le> 1 / 200"
      using False by (intro cents_of_error) simp
    ultimately show ?thesis unfolding abs_le_iff by linarith
  qed
qed

lemma parseFloat_nat_digits: "parseFloat (nat_digits n) = JNum (real n)"
proof -
  have hd: "nat_digits n \<noteq> []" "is_digit (hd (nat_digits n))"
    using nat_digits_digits [of _ n] by (auto intro: hd_in_set)
  have "parse_unsigned (nat_digits n) = Some (real n, [])"
    using parse_unsigned_digits [of "nat_digits n"] nat_digits_digits [of _ n] by simp
  then show ?thesis
    using parseFloat_unsigned(1) [OF hd] by simp
qed

text \<open>C36. The numeric inputs of the forms (\<open>parseFloat(value) || 0\<close>) always
  store a number, never \<open>NaN\<close>, \<open>undefined\<close> or a string: a falsy parse
  (an empty or non-numeric input, or zero) stores 0.\<close>

theorem number_input_is_number:
  "js_typeof (number_input raw) = TNumber \<and> number_input raw \<noteq> JNaN
   \<and> (\<not> js_truthy (parseFloat raw) \<longrightarrow> number_input raw = JNum 0)"
proof -
  have "parseFloat raw = JNaN \<or> (\<exists>r. parseFloat raw = JNum r) \<or> (\<exists>b. parseFloat raw = JInf b)"
    by (auto simp: parseFloat_def str_decimal_prefix_def Let_def split: prod.splits option.splits)
  then show ?thesis
    by (auto simp: number_input_def js_or_def)
qed

end
