(* ===== verification/FormMapping.thy ===== *)
theory FormMapping
  imports JsNumber
begin

text \<open>
  The mapping engine of \<open>src/frontend/src/utils/formMapping.js\<close>:
  \<open>mapDocumentToForm\<close> and its four per-form helpers, which turn one extracted
  field record into a partial record of a target form; \<open>validateFormData\<close>;
  \<open>getDocumentTypeDisplayName\<close>. Besides, the schemas of the four forms as the
  TaxForms page renders them (\<open>src/frontend/src/pages/TaxForms.jsx\<close>, the four
  render functions): the field names the user can see and edit.
  The lemmas give the exact output of every (document type, form) pair, that
  no output value is \<open>undefined\<close>, \<open>null\<close> or \<open>NaN\<close>, and which outputs stay
  inside the rendered schema.
\<close>

datatype form_type = F1040 | ScheduleA | ScheduleC | W9

text \<open>The keys of the \<open>forms\<close> state object and the argument of
  \<open>mapDocumentToForm\<close>.\<close>

fun form_key :: "form_type \<Rightarrow> string" where
  "form_key F1040 = ''1040''"
| "form_key ScheduleA = ''schedule_a''"
| "form_key ScheduleC = ''schedule_c''"
| "form_key W9 = ''w9''"

text \<open>\<open>data.f || 0\<close> and \<open>data.f || ''\<close>.\<close>

definition field_or_zero :: "obj \<Rightarrow> string \<Rightarrow> jsval" where
  "field_or_zero d f = js_or (js_get d f) (JNum 0)"

definition field_or_empty :: "obj \<Rightarrow> string \<Rightarrow> jsval" where
  "field_or_empty d f = js_or (js_get d f) (JStr [])"

definition doc_type_is :: "obj \<Rightarrow> string \<Rightarrow> bool" where
  "doc_type_is d t = js_strict_eq (js_get d ''document_type'') (JStr t)"

subsection \<open>The per-form mappings\<close>

definition map1040Data :: "obj \<Rightarrow> obj" where
  "map1040Data data =
    (let m1 = (if doc_type_is data ''W-2''
               then Map.empty(''wages'' \<mapsto> field_or_zero data ''wages'',
                              ''federal_withholding'' \<mapsto> field_or_zero data ''federal_withholding'',
                              ''state_withholding'' \<mapsto> field_or_zero data ''state_withholding'')
               else Map.empty)
     in if doc_type_is data ''1099-NEC''
        then m1(''business_income'' \<mapsto> field_or_zero data ''nonemployee_compensation'',
                ''federal_withholding'' \<mapsto> field_or_zero data ''federal_withholding'')
        else m1)"

definition mapScheduleAData :: "obj \<Rightarrow> obj" where
  "mapScheduleAData data =
     Map.empty(''medical_expenses'' \<mapsto> JNum 0,
               ''state_local_taxes'' \<mapsto> field_or_zero data ''state_withholding'',
               ''mortgage_interest'' \<mapsto> JNum 0,
               ''charitable_contributions'' \<mapsto> JNum 0)"

definition mapScheduleCData :: "obj \<Rightarrow> obj" where
  "mapScheduleCData data =
    (if doc_type_is data ''1099-NEC''
     then Map.empty(''gross_receipts'' \<mapsto> field_or_zero data ''nonemployee_compensation'',
                    ''business_expenses'' \<mapsto> JNum 0,
                    ''home_office'' \<mapsto> JNum 0)
     else Map.empty)"

definition mapW9Data :: "obj \<Rightarrow> obj" where
  "mapW9Data data =
    (if doc_type_is data ''W-9''
     then Map.empty(''name'' \<mapsto> field_or_empty data ''name'',
                    ''business_name'' \<mapsto> field_or_empty data ''business_name'',
                    ''tax_classification'' \<mapsto> field_or_empty data ''federal_tax_classification'',
                    ''address'' \<mapsto> field_or_empty data ''address'',
                    ''city'' \<mapsto> field_or_empty data ''city'',
                    ''state'' \<mapsto> field_or_empty data ''state'',
                    ''zip_code'' \<mapsto> field_or_empty data ''zip_code'',
                    ''taxpayer_id'' \<mapsto> field_or_empty data ''taxpayer_id'',
                    ''ssn'' \<mapsto> field_or_empty data ''ssn'',
                    ''ein'' \<mapsto> field_or_empty data ''ein'',
                    ''account_numbers'' \<mapsto> field_or_empty data ''account_numbers'',
                    ''requester_name'' \<mapsto> field_or_empty data ''requester_name'',
                    ''requester_address'' \<mapsto> field_or_empty data ''requester_address'')
     else Map.empty)"

text \<open>\<open>extractedData\<close> is \<open>None\<close> when it is \<open>null\<close> or \<open>undefined\<close>
  (\<open>if (!extractedData) return {}\<close>); the switch compares the form name
  strictly and falls back to \<open>{}\<close>.\<close>

fun mapDocumentToForm :: "obj option \<Rightarrow> string \<Rightarrow> obj" where
  "mapDocumentToForm None formType = Map.empty"
| "mapDocumentToForm (Some extractedData) formType =
     (if formType = ''1040'' then map1040Data extractedData
      else if formType = ''schedule_a'' then mapScheduleAData extractedData
      else if formType = ''schedule_c'' then mapScheduleCData extractedData
      else if formType = ''w9'' then mapW9Data extractedData
      else Map.empty)"

subsection \<open>Validation and display names\<close>

fun js_negative :: "jsval \<Rightarrow> bool" where
  "js_negative (JNum r) = (r < 0)"
| "js_negative (JInf pos) = (\<not> pos)"
| "js_negative _ = False"

text \<open>The body of the \<open>forEach\<close> for one key: the string check first, then the
  number check, whose message would overwrite the first.\<close>

definition field_error :: "jsval \<Rightarrow> string option" where
  "field_error v =
    (let e1 = (if js_typeof v = TString \<and> (case v of JStr s \<Rightarrow> js_trim s = [] | _ \<Rightarrow> False)
               then Some ''This field is required'' else None)
     in if js_typeof v = TNumber \<and> js_negative v then Some ''Value cannot be negative'' else e1)"

definition validateFormData :: "obj \<Rightarrow> string \<Rightarrow> (string \<rightharpoonup> string)" where
  "validateFormData formData formType = (\<lambda>k. Option.bind (formData k) field_error)"

definition displayNames :: "string \<rightharpoonup> string" where
  "displayNames = Map.empty(''W-2'' \<mapsto> ''W-2 Wage and Tax Statement'',
                            ''1099-NEC'' \<mapsto> ''1099-NEC Nonemployee Compensation'',
                            ''W-9'' \<mapsto> ''W-9 Request for Taxpayer ID'',
                            ''Unknown'' \<mapsto> ''Unknown Document Type'')"

fun getDocumentTypeDisplayName :: "jsval \<Rightarrow> jsval" where
  "getDocumentTypeDisplayName (JStr t) =
     (case displayNames t of Some n \<Rightarrow> JStr n | None \<Rightarrow> JStr t)"
| "getDocumentTypeDisplayName v = v"

subsection \<open>The rendered form schemas\<close>

text \<open>The fields the render functions of the TaxForms page show, in order, and
  whether their \<open>onChange\<close> parses a number (the 1040, Schedule A and
  Schedule C inputs) or keeps the text (the W-9 inputs).\<close>

fun form_fields :: "form_type \<Rightarrow> string list" where
  "form_fields F1040 = [''wages'', ''business_income'', ''interest_income'', ''dividend_income'',
                        ''federal_withholding'', ''state_withholding'']"
| "form_fields ScheduleA = [''medical_expenses'', ''state_local_taxes'', ''mortgage_interest'',
                            ''charitable_contributions'']"
| "form_fields ScheduleC = [''gross_receipts'', ''business_expenses'', ''home_office'',
                            ''vehicle_expenses'']"
| "form_fields W9 = [''name'', ''business_name'', ''tax_classification'', ''address'', ''city'',
                     ''state'', ''zip_code'', ''taxpayer_id'', ''account_numbers'']"

fun numeric_form :: "form_type \<Rightarrow> bool" where
  "numeric_form W9 = False"
| "numeric_form _ = True"

definition in_schema :: "form_type \<Rightarrow> obj \<Rightarrow> bool" where
  "in_schema ft m \<longleftrightarrow> dom m \<subseteq> set (form_fields ft)"

text \<open>Output values are defined: a default never yields \<open>undefined\<close>, \<open>null\<close>, \<open>NaN\<close> or a false boolean:
  either the source value is truthy and kept, or the default is taken.\<close>

definition defined_value :: "jsval \<Rightarrow> bool" where
  "defined_value v \<longleftrightarrow> js_truthy v \<or> v = JNum 0 \<or> v = JStr []"

subsection \<open>Lemmas: the mapping of each document type\<close>

lemma doc_type_is_iff [simp]: "doc_type_is d t \<longleftrightarrow> js_get d ''document_type'' = JStr t"
  by (cases "js_get d ''document_type''") (auto simp: doc_type_is_def)

lemma doc_type_distinct:
  "doc_type_is d t \<Longrightarrow> t' \<noteq> t \<Longrightarrow> \<not> doc_type_is d t'"
  by simp

lemma mapDocumentToForm_key [simp]:
  "mapDocumentToForm (Some d) (form_key F1040) = map1040Data d"
  "mapDocumentToForm (Some d) (form_key ScheduleA) = mapScheduleAData d"
  "mapDocumentToForm (Some d) (form_key ScheduleC) = mapScheduleCData d"
  "mapDocumentToForm (Some d) (form_key W9) = mapW9Data d"
  by simp_all

lemma field_or_zero_defined [js_simps]: "defined_value (field_or_zero d f)"
  by (simp add: field_or_zero_def defined_value_def js_or_def)

lemma field_or_empty_defined [js_simps]: "defined_value (field_or_empty d f)"
  by (simp add: field_or_empty_def defined_value_def js_or_def)

lemma defined_value_zero [js_simps]: "defined_value (JNum 0)"
  by (simp add: defined_value_def)

lemma field_or_zero_num:
  "js_get d f = JNum r \<Longrightarrow> field_or_zero d f = JNum r"
  by (simp add: field_or_zero_def js_or_def)

lemma field_or_zero_missing:
  "d f = None \<Longrightarrow> field_or_zero d f = JNum 0"
  by (simp add: field_or_zero_def)

lemmas mapping_defs = map1040Data_def mapScheduleAData_def mapScheduleCData_def mapW9Data_def

subsection \<open>Theorems of the mapping engine\<close>

text \<open>C8. A W-2 record mapped to Form 1040 yields exactly the three fields
  \<open>wages\<close>, \<open>federal_withholding\<close> and \<open>state_withholding\<close>, each the source
  field, or 0 where the source field is missing or falsy.\<close>

theorem map_w2_to_1040:
  assumes "js_get d ''document_type'' = JStr ''W-2''"
  shows "mapDocumentToForm (Some d) ''1040'' =
           Map.empty(''wages'' \<mapsto> field_or_zero d ''wages'',
                     ''federal_withholding'' \<mapsto> field_or_zero d ''federal_withholding'',
                     ''state_withholding'' \<mapsto> field_or_zero d ''state_withholding'')"
  using assms by (simp add: map1040Data_def)

text \<open>C9. A 1099-NEC record mapped to Schedule C yields \<open>gross_receipts\<close> equal
  to the non-employee compensation (or 0) and zero business expenses and home
  office deduction; mapped to Form 1040 it yields \<open>business_income\<close> and
  \<open>federal_withholding\<close> only.\<close>

theorem map_nec_to_schedule_c:
  assumes "js_get d ''document_type'' = JStr ''1099-NEC''"
  shows "mapDocumentToForm (Some d) ''schedule_c'' =
           Map.empty(''gross_receipts'' \<mapsto> field_or_zero d ''nonemployee_compensation'',
                     ''business_expenses'' \<mapsto> JNum 0, ''home_office'' \<mapsto> JNum 0)
      \<and> mapDocumentToForm (Some d) ''1040'' =
           Map.empty(''business_income'' \<mapsto> field_or_zero d ''nonemployee_compensation'',
                     ''federal_withholding'' \<mapsto> field_or_zero d ''federal_withholding'')"
  using assms by (simp add: map1040Data_def mapScheduleCData_def)

lemma map_w9_to_w9:
  assumes "js_get d ''document_type'' = JStr ''W-9''"
  shows "mapDocumentToForm (Some d) ''w9'' ''ssn'' = Some (field_or_empty d ''ssn'')
      \<and> mapDocumentToForm (Some d) ''w9'' ''tax_classification''
          = Some (field_or_empty d ''federal_tax_classification'')
      \<and> mapDocumentToForm (Some d) ''1040'' = Map.empty
      \<and> mapDocumentToForm (Some d) ''schedule_c'' = Map.empty"
  using assms by (simp add: mapping_defs)

text \<open>The Schedule A mapping ignores the document type: every extracted
  record, a W-9 or an unclassified one included, yields the four-field scaffold
  with zero medical expenses, mortgage interest and charitable contributions.\<close>

lemma schedule_a_scaffold_unconditional:
  "dom (mapDocumentToForm (Some d) ''schedule_a'') =
     {''medical_expenses'', ''state_local_taxes'', ''mortgage_interest'', ''charitable_contributions''}
   \<and> mapDocumentToForm (Some d) ''schedule_a'' ''medical_expenses'' = Some (JNum 0)
   \<and> mapDocumentToForm (Some d) ''schedule_a'' ''state_local_taxes''
       = Some (field_or_zero d ''state_withholding'')"
  by (auto simp: mapScheduleAData_def)

lemma mapDocumentToForm_unknown_form:
  "formType \<notin> {''1040'', ''schedule_a'', ''schedule_c'', ''w9''} \<Longrightarrow>
   mapDocumentToForm e formType = Map.empty"
  by (cases e) auto

lemma mapDocumentToForm_unclassified:
  assumes "js_get d ''document_type'' \<notin> {JStr ''W-2'', JStr ''1099-NEC'', JStr ''W-9''}"
  shows "mapDocumentToForm (Some d) ft = (if ft = ''schedule_a'' then mapScheduleAData d else Map.empty)"
  using assms by (auto simp: mapping_defs)

text \<open>No value the mapping engine produces is \<open>undefined\<close>, \<open>null\<close>,
  \<open>NaN\<close> or \<open>false\<close>: each is a truthy source value or the default 0 or
  the empty string.\<close>

theorem mapping_values_defined:
  "mapDocumentToForm e formType k = Some v \<Longrightarrow> defined_value v"
proof (cases e)
  case None
  then show "mapDocumentToForm e formType k = Some v \<Longrightarrow> defined_value v" by simp
next
  case (Some d)
  show "mapDocumentToForm e formType k = Some v \<Longrightarrow> defined_value v"
    using Some
    by (auto simp: mapping_defs Let_def js_simps split: if_splits)
qed

lemma map1040Data_in_schema: "in_schema F1040 (map1040Data d)"
  by (auto simp: in_schema_def map1040Data_def Let_def split: if_splits)

lemma mapScheduleAData_in_schema: "in_schema ScheduleA (mapScheduleAData d)"
  by (auto simp: in_schema_def mapScheduleAData_def)

lemma mapScheduleCData_in_schema: "in_schema ScheduleC (mapScheduleCData d)"
  by (auto simp: in_schema_def mapScheduleCData_def split: if_splits)

lemma in_schema_empty [simp]: "in_schema ft Map.empty"
  by (simp add: in_schema_def)

lemma in_schema_map_add [simp]:
  "in_schema ft (m ++ p) \<longleftrightarrow> in_schema ft m \<and> in_schema ft p"
  by (auto simp: in_schema_def)

lemma in_schema_upd [simp]:
  "in_schema ft (m(k \<mapsto> v)) \<longleftrightarrow> k \<in> set (form_fields ft) \<and> in_schema ft m"
  by (auto simp: in_schema_def)

text \<open>C33. For Form 1040, Schedule A and Schedule C the mapping only writes
  fields the form renders; for the W-9 form it does not: a W-9 record yields
  \<open>ssn\<close>, \<open>ein\<close>, \<open>requester_name\<close> and \<open>requester_address\<close>, which the
  W-9 tab neither shows nor lets the user edit.\<close>

theorem mapping_in_schema:
  "in_schema F1040 (mapDocumentToForm e ''1040'')
   \<and> in_schema ScheduleA (mapDocumentToForm e ''schedule_a'')
   \<and> in_schema ScheduleC (mapDocumentToForm e ''schedule_c'')
   \<and> (js_get d ''document_type'' = JStr ''W-9'' \<longrightarrow> \<not> in_schema W9 (mapDocumentToForm (Some d) ''w9''))"
proof (intro conjI impI)
  show "in_schema F1040 (mapDocumentToForm e ''1040'')"
    by (cases e) (simp_all add: map1040Data_in_schema)
  show "in_schema ScheduleA (mapDocumentToForm e ''schedule_a'')"
    by (cases e) (simp_all add: mapScheduleAData_in_schema)
  show "in_schema ScheduleC (mapDocumentToForm e ''schedule_c'')"
    by (cases e) (simp_all add: mapScheduleCData_in_schema)
next
  assume "js_get d ''document_type'' = JStr ''W-9''"
  then have "''ssn'' \<in> dom (mapDocumentToForm (Some d) ''w9'')"
    by (simp add: mapW9Data_def)
  then show "\<not> in_schema W9 (mapDocumentToForm (Some d) ''w9'')"
    by (auto simp: in_schema_def)
qed

end
