(* ===== verification/TaxForms.thy ===== *)
theory TaxForms
  imports FormMapping
begin

text \<open>
  The form reconciliation engine: the TaxForms page of
  \<open>src/frontend/src/pages/TaxForms.jsx\<close>. Its React state is the record
  \<open>tf_state\<close>; the requests it has sent and not yet seen answered are the
  \<open>*Pending\<close> fields (the mount effect sends the document list and template
  requests, the Calculate and Save buttons one request each). Each handler is a
  function on the state; an \<open>async\<close> handler is split at its \<open>await\<close> into
  the part that runs on the click and the part that runs on the response, so
  that responses and user actions interleave as they do in the browser.
  \<open>tf_step\<close> is one user action or one response, with the guards of the UI
  (a disabled button, an input that is only rendered on its tab); None means
  the event cannot happen in that state. \<open>tf_reachable\<close> is the set of states
  a session can reach.
  The auto-fill merge (\<open>fill_docs\<close>) is shown to implement the
  last-document-wins policy per field (\<open>last_wins\<close>), to be idempotent, and to
  keep every field no document supplies.
\<close>

record document =
  doc_id :: jsval
  filename :: jsval
  document_type :: jsval
  extracted_data :: "obj option"
  upload_date :: jsval

type_synonym forms = "form_type \<Rightarrow> obj"

text \<open>The request body of \<open>POST /tax/calculate\<close>; both pages build it.\<close>

record calc_request =
  form_1040 :: obj
  schedule_a :: obj
  schedule_c :: obj
  filing_status :: string
  state_code :: string

definition calc_request_of :: "obj \<Rightarrow> obj \<Rightarrow> obj \<Rightarrow> calc_request" where
  "calc_request_of f1040 sa sc =
     \<lparr>form_1040 = f1040, schedule_a = sa, schedule_c = sc,
      filing_status = ''single'', state_code = ''CA''\<rparr>"

record tf_state =
  activeTab :: nat
  forms :: forms
  uploadedDocs :: "document option list"
  loading :: bool
  message :: string
  error :: jsval
  calculation :: "obj option"
  docsPending :: bool
  templatesPending :: bool
  calcPending :: "calc_request option"
  savePending :: "(form_type \<times> obj) option"

definition empty_forms :: forms where
  "empty_forms = (\<lambda>_. Map.empty)"

text \<open>The initial state, right after the mount effect has sent the two loads.\<close>

definition tf_init :: tf_state where
  "tf_init = \<lparr>activeTab = 0, forms = empty_forms, uploadedDocs = [], loading = False,
              message = [], error = JStr [], calculation = None,
              docsPending = True, templatesPending = True, calcPending = None, savePending = None\<rparr>"

subsection \<open>Auto-fill\<close>

text \<open>One document of the \<open>forEach\<close>: if it has extracted data, each of the
  four forms is spread with the document's partial record for it.\<close>

definition fill_doc :: "forms \<Rightarrow> document \<Rightarrow> forms" where
  "fill_doc newForms doc =
    (if extracted_data doc = None then newForms
     else
       (let ed = extracted_data doc;
            f1 = newForms(F1040 := newForms F1040 ++ mapDocumentToForm ed ''1040'');
            f2 = f1(ScheduleA := f1 ScheduleA ++ mapDocumentToForm ed ''schedule_a'');
            f3 = f2(ScheduleC := f2 ScheduleC ++ mapDocumentToForm ed ''schedule_c'');
            f4 = f3(W9 := f3 W9 ++ mapDocumentToForm ed ''w9'')
        in f4))"

text \<open>The \<open>forEach\<close> over the documents; a \<open>null\<close> entry (None) makes
  \<open>doc.extracted_data\<close> throw a TypeError, which the \<open>catch\<close> turns into an
  error message, with \<open>setForms\<close> never reached.\<close>

fun fill_docs :: "forms \<Rightarrow> document option list \<Rightarrow> forms option" where
  "fill_docs newForms [] = Some newForms"
| "fill_docs newForms (None # docs) = None"
| "fill_docs newForms (Some doc # docs) = fill_docs (fill_doc newForms doc) docs"

definition autoFillFromDocuments :: "tf_state \<Rightarrow> tf_state" where
  "autoFillFromDocuments s =
    (let s1 = s\<lparr>loading := True, error := JStr [], message := []\<rparr>
     in (case fill_docs (forms s1) (uploadedDocs s1) of
           None \<Rightarrow> s1\<lparr>error := JStr ''Failed to auto-fill forms''\<rparr>
         | Some newForms \<Rightarrow>
             s1\<lparr>forms := newForms, message := ''Forms auto-filled from uploaded documents!''\<rparr>)
        \<lparr>loading := False\<rparr>)"

subsection \<open>Loads, calculation, save and edits\<close>

text \<open>\<open>loadUserDocuments\<close> after its response: \<open>response.data || []\<close>, or
  the error and an empty list.\<close>

definition loadUserDocuments_done ::
  "http_error + document option list option \<Rightarrow> tf_state \<Rightarrow> tf_state" where
  "loadUserDocuments_done r s =
    (case r of
       Inr data \<Rightarrow> s\<lparr>uploadedDocs := (case data of None \<Rightarrow> [] | Some docs \<Rightarrow> docs)\<rparr>
     | Inl _ \<Rightarrow> s\<lparr>error := JStr ''Failed to load documents'', uploadedDocs := []\<rparr>)"

text \<open>\<open>loadFormTemplates\<close> after \<open>Promise.all\<close>: each failed request was
  caught as \<open>{data: {}}\<close>, and \<open>results[i].data || {}\<close> replaces the whole
  \<open>forms\<close> state.\<close>

definition template_forms :: "(form_type \<Rightarrow> http_error + obj option) \<Rightarrow> forms" where
  "template_forms results =
     (\<lambda>ft. case results ft of Inl _ \<Rightarrow> Map.empty | Inr None \<Rightarrow> Map.empty | Inr (Some d) \<Rightarrow> d)"

definition loadFormTemplates_done ::
  "(form_type \<Rightarrow> http_error + obj option) \<Rightarrow> tf_state \<Rightarrow> tf_state" where
  "loadFormTemplates_done results s = s\<lparr>forms := template_forms results\<rparr>"

definition calculateTax_start :: "tf_state \<Rightarrow> tf_state" where
  "calculateTax_start s =
     s\<lparr>loading := True, error := JStr [], message := [],
       calcPending := Some (calc_request_of (forms s F1040) (forms s ScheduleA) (forms s ScheduleC))\<rparr>"

definition calculateTax_done :: "http_error + obj option \<Rightarrow> tf_state \<Rightarrow> tf_state" where
  "calculateTax_done r s =
     (case r of
        Inr data \<Rightarrow> s\<lparr>calculation := data, message := ''Tax calculation completed!''\<rparr>
      | Inl e \<Rightarrow> s\<lparr>error := error_text e ''Tax calculation failed''\<rparr>)
     \<lparr>loading := False, calcPending := None\<rparr>"

definition js_upper :: "string \<Rightarrow> string" where
  "js_upper s = map (\<lambda>c. if 97 \<le> (of_char c :: nat) \<and> (of_char c :: nat) \<le> 122
                         then char_of (of_char c - (32 :: nat)) else c) s"

definition saveForm_start :: "form_type \<Rightarrow> tf_state \<Rightarrow> tf_state" where
  "saveForm_start formType s =
     s\<lparr>loading := True, error := JStr [], message := [],
       savePending := Some (formType, forms s formType)\<rparr>"

definition saveForm_done :: "form_type \<Rightarrow> http_error + unit \<Rightarrow> tf_state \<Rightarrow> tf_state" where
  "saveForm_done formType r s =
     (case r of
        Inr _ \<Rightarrow> s\<lparr>message := js_upper (form_key formType) @ '' form saved successfully!''\<rparr>
      | Inl e \<Rightarrow> s\<lparr>error := error_text e ''Failed to save form''\<rparr>)
     \<lparr>loading := False, savePending := None\<rparr>"

definition handleFormChange :: "form_type \<Rightarrow> string \<Rightarrow> jsval \<Rightarrow> tf_state \<Rightarrow> tf_state" where
  "handleFormChange formType field value s =
     s\<lparr>forms := (forms s)(formType := (forms s formType)(field \<mapsto> value))\<rparr>"

text \<open>The \<open>onChange\<close> of an input: numeric inputs store
  \<open>parseFloat(e.target.value) || 0\<close>, the W-9 inputs the text.\<close>

definition field_input :: "form_type \<Rightarrow> string \<Rightarrow> jsval" where
  "field_input formType raw = (if numeric_form formType then number_input raw else JStr raw)"

fun tab_of :: "form_type \<Rightarrow> nat" where
  "tab_of F1040 = 0"
| "tab_of ScheduleA = 1"
| "tab_of ScheduleC = 2"
| "tab_of W9 = 3"

subsection \<open>Events and the step function\<close>

datatype tf_event =
    DocumentsLoaded "http_error + document option list option"
  | TemplatesLoaded "form_type \<Rightarrow> http_error + obj option"
  | ClickAutoFill
  | ClickCalculate
  | CalculateResponse "http_error + obj option"
  | ClickSave form_type
  | SaveResponse "http_error + unit"
  | EditField form_type string string
  | SelectTab nat

fun tf_step :: "tf_state \<Rightarrow> tf_event \<Rightarrow> tf_state option" where
  "tf_step s (DocumentsLoaded r) =
     (if docsPending s then Some (loadUserDocuments_done r (s\<lparr>docsPending := False\<rparr>)) else None)"
| "tf_step s (TemplatesLoaded r) =
     (if templatesPending s then Some (loadFormTemplates_done r (s\<lparr>templatesPending := False\<rparr>))
      else None)"
| "tf_step s ClickAutoFill =
     (if loading s \<or> uploadedDocs s = [] then None else Some (autoFillFromDocuments s))"
| "tf_step s ClickCalculate = (if loading s then None else Some (calculateTax_start s))"
| "tf_step s (CalculateResponse r) =
     (if calcPending s = None then None else Some (calculateTax_done r s))"
| "tf_step s (ClickSave formType) =
     (if loading s \<or> activeTab s \<noteq> tab_of formType then None
      else Some (saveForm_start formType s))"
| "tf_step s (SaveResponse r) =
     (case savePending s of None \<Rightarrow> None | Some (formType, _) \<Rightarrow> Some (saveForm_done formType r s))"
| "tf_step s (EditField formType field raw) =
     (if activeTab s = tab_of formType \<and> field \<in> set (form_fields formType)
      then Some (handleFormChange formType field (field_input formType raw) s) else None)"
| "tf_step s (SelectTab n) = (if n < 4 then Some (s\<lparr>activeTab := n\<rparr>) else None)"

fun tf_run :: "tf_state \<Rightarrow> tf_event list \<Rightarrow> tf_state option" where
  "tf_run s [] = Some s"
| "tf_run s (e # es) = (case tf_step s e of None \<Rightarrow> None | Some s' \<Rightarrow> tf_run s' es)"

inductive tf_reachable :: "tf_state \<Rightarrow> bool" where
  init: "tf_reachable tf_init"
| step: "tf_reachable s \<Longrightarrow> tf_step s e = Some s' \<Longrightarrow> tf_reachable s'"

subsection \<open>The result card\<close>

text \<open>\<open>v?.toFixed(2)\<close>: None is the TypeError of \<open>toFixed\<close> on a value that
  is neither a number nor \<open>null\<close>/\<open>undefined\<close>; \<open>Some None\<close> is the
  \<open>undefined\<close> the optional chain yields for \<open>null\<close> and \<open>undefined\<close>.\<close>

definition opt_fixed2 :: "jsval \<Rightarrow> string option option" where
  "opt_fixed2 v =
     (if v = JUndefined \<or> v = JNull then Some None else map_option Some (js_to_fixed2 v))"

text \<open>One figure of the card, \<open>calculation.f?.toFixed(2) || '0.00'\<close>, and the
  deductions figure, which falls back to the alternate name \<open>deductions\<close>;
  None means the render throws.\<close>

definition figure_text :: "jsval \<Rightarrow> string option" where
  "figure_text v =
     (case opt_fixed2 v of
        None \<Rightarrow> None
      | Some r \<Rightarrow> Some (case r of Some t \<Rightarrow> if t \<noteq> [] then t else ''0.00'' | None \<Rightarrow> ''0.00''))"

definition deductions_text :: "obj \<Rightarrow> string option" where
  "deductions_text c =
     (case opt_fixed2 (js_get c ''total_deductions'') of
        None \<Rightarrow> None
      | Some (Some t) \<Rightarrow> if t \<noteq> [] then Some t else figure_text (js_get c ''deductions'')
      | Some None \<Rightarrow> figure_text (js_get c ''deductions''))"

text \<open>The refund / amount-due panel:
  \<open>Math.abs(c.refund_amount || c.amount_due || 0)\<close> under the label chosen by
  \<open>c.refund_amount > 0\<close>.\<close>

definition refund_label :: "obj \<Rightarrow> string" where
  "refund_label c = (if js_gt (js_get c ''refund_amount'') 0 then ''Refund'' else ''Amount Due'')"

definition refund_figure :: "obj \<Rightarrow> jsval" where
  "refund_figure c =
     js_abs (js_or (js_or (js_get c ''refund_amount'') (js_get c ''amount_due'')) (JNum 0))"

subsection \<open>The merge policy\<close>

text \<open>The partial records the documents contribute to one form, in upload
  order, and the policy of the spec: a field takes the value of the last
  partial that has it, and keeps its old value when none has it.\<close>

definition partials :: "form_type \<Rightarrow> document list \<Rightarrow> obj list" where
  "partials ft docs = map (\<lambda>d. mapDocumentToForm (extracted_data d) (form_key ft)) docs"

definition last_wins :: "obj \<Rightarrow> obj list \<Rightarrow> obj" where
  "last_wins base ps k =
     (case filter (\<lambda>p. p k \<noteq> None) (rev ps) of [] \<Rightarrow> base k | p # _ \<Rightarrow> p k)"

subsection \<open>Invariants of the page state\<close>

text \<open>At most one of the Calculate and Save requests is in flight, and the
  \<open>loading\<close> flag (which disables the buttons) is set exactly while one is.\<close>

definition tf_inv :: "tf_state \<Rightarrow> bool" where
  "tf_inv s \<longleftrightarrow> (loading s \<longleftrightarrow> calcPending s \<noteq> None \<or> savePending s \<noteq> None)
                \<and> (calcPending s = None \<or> savePending s = None)"

text \<open>The form state is well formed when no field holds \<open>undefined\<close>,
  \<open>null\<close>, \<open>NaN\<close> or \<open>false\<close>, and Form 1040, Schedule A and Schedule C hold
  only the fields their tabs render. The templates come from the back end, so
  the invariant can only be kept if the templates are well formed.\<close>

definition obj_defined :: "obj \<Rightarrow> bool" where
  "obj_defined m \<longleftrightarrow> (\<forall>k v. m k = Some v \<longrightarrow> defined_value v)"

definition forms_wf :: "forms \<Rightarrow> bool" where
  "forms_wf fs \<longleftrightarrow> (\<forall>ft. obj_defined (fs ft)) \<and> in_schema F1040 (fs F1040)
                   \<and> in_schema ScheduleA (fs ScheduleA) \<and> in_schema ScheduleC (fs ScheduleC)"

fun event_wf :: "tf_event \<Rightarrow> bool" where
  "event_wf (TemplatesLoaded results) = forms_wf (template_forms results)"
| "event_wf _ = True"

subsection \<open>Lemmas on the merge\<close>

lemma mapDocumentToForm_None_empty [simp]: "mapDocumentToForm None f = Map.empty"
  by simp

lemma fill_doc_eq: "fill_doc fs d = (\<lambda>ft. fs ft ++ mapDocumentToForm (extracted_data d) (form_key ft))"
proof
  fix ft
  show "fill_doc fs d ft = fs ft ++ mapDocumentToForm (extracted_data d) (form_key ft)"
    by (cases "extracted_data d"; cases ft) (simp_all add: fill_doc_def Let_def)
qed

lemma fill_docs_map_Some:
  "fill_docs fs (map Some docs) = Some (\<lambda>ft. foldl (++) (fs ft) (partials ft docs))"
proof (induction docs arbitrary: fs)
  case Nil
  then show ?case by (simp add: partials_def)
next
  case (Cons d docs)
  then show ?case by (simp add: fill_doc_eq partials_def)
qed

lemma fill_docs_None: "None \<in> set ds \<Longrightarrow> fill_docs fs ds = None"
proof (induction ds arbitrary: fs)
  case Nil
  then show ?case by simp
next
  case (Cons x ds)
  then show ?case by (cases x) auto
qed

lemma fill_docs_Some_cases:
  assumes "fill_docs fs ds = Some fs'"
  obtains docs where "ds = map Some docs" "fs' = (\<lambda>ft. foldl (++) (fs ft) (partials ft docs))"
proof -
  have "None \<notin> set ds" using assms fill_docs_None by fastforce
  then have ds: "ds = map Some (map the ds)"
    by (induction ds) auto
  with assms have "fs' = (\<lambda>ft. foldl (++) (fs ft) (partials ft (map the ds)))"
    using fill_docs_map_Some [of fs "map the ds"] by simp
  with ds show ?thesis using that by blast
qed

lemma foldl_map_add_base: "foldl (++) b ps = b ++ foldl (++) Map.empty ps"
proof (induction ps arbitrary: b)
  case Nil
  then show ?case by simp
next
  case (Cons p ps)
  then show ?case by (metis foldl_Cons map_add_assoc map_add_empty)
qed

lemma foldl_map_add_last_wins: "foldl (++) base ps = last_wins base ps"
proof (induction ps rule: rev_induct)
  case Nil
  then show ?case by (simp add: last_wins_def fun_eq_iff)
next
  case (snoc p ps)
  then show ?case
    by (auto simp: last_wins_def fun_eq_iff map_add_def split: option.splits)
qed

lemma partials_append: "partials ft (docs @ [d]) = partials ft docs @ [mapDocumentToForm (extracted_data d) (form_key ft)]"
  by (simp add: partials_def)

lemma set_partials: "p \<in> set (partials ft docs) \<longleftrightarrow> (\<exists>d\<in>set docs. p = mapDocumentToForm (extracted_data d) (form_key ft))"
  by (auto simp: partials_def)

text \<open>C1. Refinement of the merge policy: for a document list without
  \<open>null\<close> entries, auto-fill computes for every form and field the value of
  the last document (in upload order) whose partial record has that field, and
  keeps the field's previous value when no document has it.\<close>

theorem fill_docs_last_wins:
  "fill_docs fs (map Some docs) = Some (\<lambda>ft. last_wins (fs ft) (partials ft docs))"
  by (simp add: fill_docs_map_Some foldl_map_add_last_wins)

text \<open>C2. Idempotence: merging the same documents into the result of a merge
  changes nothing, so pressing Auto-Fill twice leaves the forms as pressing it
  once, whether the merge succeeded or failed.\<close>

theorem autoFill_idempotent:
  "forms (autoFillFromDocuments (autoFillFromDocuments s)) = forms (autoFillFromDocuments s)"
proof (cases "fill_docs (forms s) (uploadedDocs s)")
  case None
  then show ?thesis by (simp add: autoFillFromDocuments_def)
next
  case (Some fs')
  then obtain docs where ds: "uploadedDocs s = map Some docs"
    and fs': "fs' = (\<lambda>ft. foldl (++) (forms s ft) (partials ft docs))"
    by (rule fill_docs_Some_cases)
  have "fill_docs fs' (uploadedDocs s) = Some fs'"
    using ds fs' by (simp add: fill_docs_map_Some foldl_map_add_base [of "_ ++ _"] foldl_map_add_base [of "forms s _"])
  with Some show ?thesis by (simp add: autoFillFromDocuments_def)
qed

text \<open>C3. Merge order: when the last uploaded document supplies a field of a
  form, the merged form has that document's value, whatever the earlier
  documents supplied (two W-2s, or a W-2 and a 1099-NEC, both supplying
  \<open>federal_withholding\<close>: the later one wins, nothing is summed).\<close>

theorem fill_docs_last_document_wins:
  assumes "fill_docs fs (map Some (docs @ [d])) = Some fs'"
    and "mapDocumentToForm (extracted_data d) (form_key ft) k = Some v"
  shows "fs' ft k = Some v"
proof -
  have "fs' = (\<lambda>ft. last_wins (fs ft) (partials ft (docs @ [d])))"
    using assms(1) fill_docs_last_wins [of fs "docs @ [d]"] by simp
  with assms(2) show ?thesis
    by (simp add: partials_append last_wins_def)
qed

text \<open>C4. The merge never removes a field, and a field that no document
  supplies keeps its value from before the merge (a user's edit or an earlier
  auto-fill).\<close>

theorem fill_docs_keeps_untouched:
  assumes "fill_docs fs ds = Some fs'"
  shows "dom (fs ft) \<subseteq> dom (fs' ft)
       \<and> ((\<forall>d. Some d \<in> set ds \<longrightarrow> mapDocumentToForm (extracted_data d) (form_key ft) k = None)
            \<longrightarrow> fs' ft k = fs ft k)"
proof -
  obtain docs where ds: "ds = map Some docs"
    and fs': "fs' = (\<lambda>ft. foldl (++) (fs ft) (partials ft docs))"
    using assms by (rule fill_docs_Some_cases)
  have "dom (fs ft) \<subseteq> dom (fs' ft)"
    using fs' by (subst (asm) foldl_map_add_base) auto
  moreover have "fs' ft k = fs ft k"
    if none: "\<forall>d. Some d \<in> set ds \<longrightarrow> mapDocumentToForm (extracted_data d) (form_key ft) k = None"
  proof -
    have "filter (\<lambda>p. p k \<noteq> None) (rev (partials ft docs)) = []"
      using none ds by (auto simp: filter_empty_conv set_partials)
    then show ?thesis
      using fs' by (simp add: foldl_map_add_last_wins last_wins_def)
  qed
  ultimately show ?thesis by blast
qed

text \<open>C10. Auto-fill overwrites Schedule A from every document with extracted
  data, whatever its type: after any such merge the medical expenses are 0,
  whatever the user had entered, and the state and local taxes are those of the
  last document, 0 when it has no state withholding (a W-9 uploaded after a W-2
  erases the W-2's state withholding).\<close>

theorem schedule_a_overwritten:
  assumes "fill_docs fs (map Some (docs @ [d])) = Some fs'"
    and "extracted_data d = Some e"
  shows "fs' ScheduleA ''medical_expenses'' = Some (JNum 0)
       \<and> fs' ScheduleA ''state_local_taxes'' = Some (field_or_zero e ''state_withholding'')"
proof -
  have "mapDocumentToForm (extracted_data d) (form_key ScheduleA) ''medical_expenses'' = Some (JNum 0)"
    "mapDocumentToForm (extracted_data d) (form_key ScheduleA) ''state_local_taxes''
       = Some (field_or_zero e ''state_withholding'')"
    using assms(2) by (simp_all add: mapScheduleAData_def)
  then show ?thesis
    using fill_docs_last_document_wins [OF assms(1)] by blast
qed

subsection \<open>Lemmas on the handlers\<close>

lemmas tf_handler_defs = autoFillFromDocuments_def loadUserDocuments_done_def
  loadFormTemplates_done_def calculateTax_start_def calculateTax_done_def
  saveForm_start_def saveForm_done_def handleFormChange_def

lemma tf_step_inv: "tf_inv s \<Longrightarrow> tf_step s e = Some s' \<Longrightarrow> tf_inv s'"
  by (cases e)
     (auto simp: tf_inv_def tf_handler_defs Let_def split: if_splits option.splits sum.splits)

lemma foldl_map_add_preserve:
  assumes "\<And>m p. P m \<Longrightarrow> P p \<Longrightarrow> P (m ++ p)" "P b" "\<forall>p\<in>set ps. P p"
  shows "P (foldl (++) b ps)"
  using assms(2,3)
proof (induction ps arbitrary: b)
  case Nil
  then show ?case by simp
next
  case (Cons p ps)
  then show ?case using assms(1) by simp
qed

lemma obj_defined_map_add: "obj_defined m \<Longrightarrow> obj_defined p \<Longrightarrow> obj_defined (m ++ p)"
  by (auto simp: obj_defined_def map_add_Some_iff)

lemma obj_defined_upd: "obj_defined m \<Longrightarrow> defined_value v \<Longrightarrow> obj_defined (m(k \<mapsto> v))"
  by (auto simp: obj_defined_def)

lemma obj_defined_mapping: "obj_defined (mapDocumentToForm e f)"
  using mapping_values_defined by (auto simp: obj_defined_def)

lemma mapDocumentToForm_in_schema:
  "ft \<noteq> W9 \<Longrightarrow> in_schema ft (mapDocumentToForm e (form_key ft))"
  by (cases e; cases ft) (simp_all add: map1040Data_in_schema mapScheduleAData_in_schema
                                       mapScheduleCData_in_schema)

lemma field_input_defined: "defined_value (field_input ft raw)"
  by (auto simp: field_input_def number_input_def defined_value_def js_or_def)

lemma fill_docs_wf:
  assumes "fill_docs fs ds = Some fs'" "forms_wf fs"
  shows "forms_wf fs'"
proof -
  obtain docs where fs': "fs' = (\<lambda>ft. foldl (++) (fs ft) (partials ft docs))"
    using assms(1) by (rule fill_docs_Some_cases)
  have def: "obj_defined (fs' ft)" for ft
    unfolding fs' using assms(2)
    by (intro foldl_map_add_preserve [where P = obj_defined])
       (auto simp: forms_wf_def obj_defined_map_add obj_defined_mapping set_partials)
  have sch: "in_schema ft (fs' ft)" if "ft \<noteq> W9" "in_schema ft (fs ft)" for ft
    unfolding fs' using that
    by (intro foldl_map_add_preserve [where P = "in_schema ft"])
       (auto simp: mapDocumentToForm_in_schema set_partials)
  show ?thesis
    using def sch assms(2) by (simp add: forms_wf_def)
qed

subsection \<open>Theorems of the page state machine\<close>

text \<open>C11. In every reachable state of the TaxForms page at most one Calculate
  or Save request is in flight, and the \<open>loading\<close> flag is set exactly while
  one is: a second request cannot be sent before the first is answered.\<close>

theorem tf_reachable_loading:
  assumes "tf_reachable s"
  shows "(loading s \<longleftrightarrow> calcPending s \<noteq> None \<or> savePending s \<noteq> None)
       \<and> (calcPending s = None \<or> savePending s = None)"
proof -
  from assms have "tf_inv s"
  proof (induction rule: tf_reachable.induct)
    case init
    show ?case by (simp add: tf_inv_def tf_init_def)
  next
    case (step s e s')
    then show ?case by (blast intro: tf_step_inv)
  qed
  then show ?thesis by (simp add: tf_inv_def)
qed

text \<open>C25. Every step keeps the form state well formed, provided the
  templates the back end sends are: no field ever holds \<open>undefined\<close>,
  \<open>null\<close>, \<open>NaN\<close> or \<open>false\<close>, and Form 1040 and Schedules A and C only
  hold fields their tabs render.\<close>

theorem tf_step_forms_wf:
  assumes "forms_wf (forms s)" "event_wf e" "tf_step s e = Some s'"
  shows "forms_wf (forms s')"
proof (cases e)
  case ClickAutoFill
  then show ?thesis
    using assms fill_docs_wf [of "forms s" "uploadedDocs s"]
    by (auto simp: autoFillFromDocuments_def Let_def split: if_splits option.splits)
next
  case (EditField ft f raw)
  with assms have "f \<in> set (form_fields ft)" "forms s' = (forms s)(ft := (forms s ft)(f \<mapsto> field_input ft raw))"
    by (auto simp: handleFormChange_def split: if_splits)
  with assms(1) show ?thesis
    by (cases ft) (auto simp: forms_wf_def obj_defined_upd field_input_defined)
qed (use assms in \<open>auto simp: tf_handler_defs split: if_splits option.splits sum.splits\<close>)

text \<open>C29. A failed tax calculation changes neither the forms nor the
  calculation shown: the previous result (or none) stays on screen, with the
  error text next to it, and the buttons are enabled again.\<close>

theorem calculate_failure_isolated:
  assumes "calcPending s \<noteq> None"
  shows "\<exists>s'. tf_step s (CalculateResponse (Inl e)) = Some s'
           \<and> forms s' = forms s \<and> calculation s' = calculation s
           \<and> error s' = error_text e ''Tax calculation failed'' \<and> \<not> loading s'"
  using assms by (simp add: calculateTax_done_def)

text \<open>A failed save leaves the forms as they were and shows the error; the
  user can press Save again at once, which sends the current data of the form.\<close>

lemma save_failure_retry:
  assumes "savePending s = Some (ft, d)" "activeTab s = tab_of ft"
  shows "\<exists>s' s''. tf_step s (SaveResponse (Inl e)) = Some s'
           \<and> forms s' = forms s \<and> error s' = error_text e ''Failed to save form''
           \<and> tf_step s' (ClickSave ft) = Some s''
           \<and> savePending s'' = Some (ft, forms s ft)"
  using assms by (simp add: saveForm_done_def saveForm_start_def)

text \<open>C31. The template response replaces the whole form state whenever it
  arrives: an edit the user made before it arrived is lost.\<close>

theorem templates_overwrite_forms:
  assumes "templatesPending s"
  shows "\<exists>s'. tf_step s (TemplatesLoaded results) = Some s' \<and> forms s' = template_forms results"
  using assms by (simp add: loadFormTemplates_done_def)

end
