(* ===== verification/PaymentPage.thy ===== *)
theory PaymentPage
  imports TaxForms
begin

text \<open>
  The payment screen of \<open>src/frontend/src/pages/PaymentPage.jsx\<close>. Its
  React state is \<open>pp_state\<close>; the requests in flight are the payment-history
  loads (a counter: one at mount, one more after each successful charge), the
  tax calculation sent at mount, and the charge. As for the TaxForms page, each
  \<open>async\<close> handler is split at its \<open>await\<close>, and \<open>pp_step\<close> is one user action
  or one response with the guards of the UI: the Pay button is disabled while
  a charge is in flight or the amount is empty, an input exists only for the
  selected payment method, and the card number and CVV inputs have a
  \<open>maxLength\<close>. The success banner \<open>Payment successful! Transaction ID: ...\<close>
  is kept as the transaction id it shows (\<open>pp_message\<close>).
  The lemmas show that no second charge can be sent while one is in flight,
  what a charge request carries for each method, what a failed or successful
  charge does to the form, and how the amount is pre-filled from the tax
  calculation, which this page requests for empty forms.
\<close>

datatype pay_method = Card | Bank

fun method_name :: "pay_method \<Rightarrow> string" where
  "method_name Card = ''card''"
| "method_name Bank = ''bank''"

record card_info =
  card_number :: string
  expiry_month :: jsval
  expiry_year :: jsval
  cvv :: string
  cardholder_name :: string

record bank_info =
  account_number :: string
  routing_number :: string

text \<open>The body of \<open>POST /payments/charge\<close>.\<close>

record charge_payload =
  amount :: jsval
  payment_method :: string
  description :: string
  card_details :: "card_info option"
  bank_details :: "bank_info option"

type_synonym payment_data = "string \<Rightarrow> string"

definition empty_payment_data :: payment_data where
  "empty_payment_data = (\<lambda>_. [])"

record pp_state =
  paymentMethod :: pay_method
  paymentData :: payment_data
  pp_loading :: bool
  pp_message :: "jsval option"
  pp_error :: jsval
  paymentHistory :: "obj list"
  taxCalculation :: "obj option"
  historyPending :: nat
  taxCalcPending :: bool
  chargePending :: "charge_payload option"

text \<open>The initial state, after the mount effect has sent the history load and
  the tax calculation.\<close>

definition pp_init :: pp_state where
  "pp_init = \<lparr>paymentMethod = Card, paymentData = empty_payment_data, pp_loading = False,
              pp_message = None, pp_error = JStr [], paymentHistory = [], taxCalculation = None,
              historyPending = 1, taxCalcPending = True, chargePending = None\<rparr>"

subsection \<open>Loads\<close>

definition loadPaymentHistory_done :: "http_error + obj list option \<Rightarrow> pp_state \<Rightarrow> pp_state" where
  "loadPaymentHistory_done r s =
     s\<lparr>paymentHistory := (case r of Inr (Some h) \<Rightarrow> h | _ \<Rightarrow> [])\<rparr>"

text \<open>The request of \<open>loadTaxCalculation\<close>: three empty forms.\<close>

definition payment_calc_request :: calc_request where
  "payment_calc_request = calc_request_of Map.empty Map.empty Map.empty"

definition default_calculation :: obj where
  "default_calculation =
     Map.empty(''total_income'' \<mapsto> JNum 0, ''tax_owed'' \<mapsto> JNum 0, ''total_withholding'' \<mapsto> JNum 0,
               ''refund_amount'' \<mapsto> JNum 0, ''amount_due'' \<mapsto> JNum 0)"

text \<open>\<open>response.data.amount_due || response.data.tax_owed || 0\<close>.\<close>

definition amount_due_of :: "obj \<Rightarrow> jsval" where
  "amount_due_of data = js_or (js_or (js_get data ''amount_due'') (js_get data ''tax_owed'')) (JNum 0)"

text \<open>After the response: the calculation is shown and a positive amount due
  pre-fills the amount with two decimals. A \<open>null\<close> body makes
  \<open>response.data.amount_due\<close> throw and \<open>toFixed\<close> on a non-number throws;
  the \<open>catch\<close> then shows the zero calculation, as for a failed request.\<close>

definition loadTaxCalculation_done :: "http_error + obj option \<Rightarrow> pp_state \<Rightarrow> pp_state" where
  "loadTaxCalculation_done r s =
    (case r of
       Inl _ \<Rightarrow> s\<lparr>taxCalculation := Some default_calculation\<rparr>
     | Inr None \<Rightarrow> s\<lparr>taxCalculation := Some default_calculation\<rparr>
     | Inr (Some data) \<Rightarrow>
         (let amountDue = amount_due_of data
          in if js_gt amountDue 0
             then (case js_to_fixed2 amountDue of
                     None \<Rightarrow> s\<lparr>taxCalculation := Some default_calculation\<rparr>
                   | Some a \<Rightarrow> s\<lparr>taxCalculation := Some data,
                                 paymentData := (paymentData s)(''amount'' := a)\<rparr>)
             else s\<lparr>taxCalculation := Some data\<rparr>))"

subsection \<open>Inputs and the charge\<close>

definition handleInputChange :: "string \<Rightarrow> string \<Rightarrow> pp_state \<Rightarrow> pp_state" where
  "handleInputChange field value s = s\<lparr>paymentData := (paymentData s)(field := value)\<rparr>"

text \<open>The inputs rendered for a payment method, and their \<open>maxLength\<close>.\<close>

fun rendered_inputs :: "pay_method \<Rightarrow> string list" where
  "rendered_inputs Card = [''amount'', ''card_number'', ''cardholder_name'', ''cvv'',
                           ''expiry_month'', ''expiry_year'']"
| "rendered_inputs Bank = [''amount'', ''bank_account'', ''routing_number'']"

definition max_length :: "string \<Rightarrow> nat option" where
  "max_length field =
     (if field = ''card_number'' then Some 19 else if field = ''cvv'' then Some 4 else None)"

definition charge_payload_of :: "pay_method \<Rightarrow> payment_data \<Rightarrow> charge_payload" where
  "charge_payload_of m pd =
     \<lparr>amount = parseFloat (pd ''amount''), payment_method = method_name m,
      description = ''Tax Payment'',
      card_details = (if m = Card
                      then Some \<lparr>card_number = pd ''card_number'',
                                 expiry_month = parseInt (pd ''expiry_month''),
                                 expiry_year = parseInt (pd ''expiry_year''),
                                 cvv = pd ''cvv'', cardholder_name = pd ''cardholder_name''\<rparr>
                      else None),
      bank_details = (if m = Bank
                      then Some \<lparr>account_number = pd ''bank_account'',
                                 routing_number = pd ''routing_number''\<rparr>
                      else None)\<rparr>"

definition processPayment_start :: "pp_state \<Rightarrow> pp_state" where
  "processPayment_start s =
     s\<lparr>pp_loading := True, pp_error := JStr [], pp_message := None,
       chargePending := Some (charge_payload_of (paymentMethod s) (paymentData s))\<rparr>"

text \<open>After the response: on success the banner shows
  \<open>transaction_id || id\<close>, the form is cleared and the history reloaded. A
  \<open>null\<close> body makes \<open>response.data.transaction_id\<close> throw a TypeError,
  which has no \<open>response\<close>, so the generic message is shown.\<close>

definition processPayment_done :: "http_error + obj option \<Rightarrow> pp_state \<Rightarrow> pp_state" where
  "processPayment_done r s =
    (case r of
       Inr (Some d) \<Rightarrow>
         s\<lparr>pp_message := Some (js_or (js_get d ''transaction_id'') (js_get d ''id'')),
           paymentData := empty_payment_data, historyPending := Suc (historyPending s)\<rparr>
     | Inr None \<Rightarrow> s\<lparr>pp_error := JStr ''Payment failed''\<rparr>
     | Inl e \<Rightarrow> s\<lparr>pp_error := error_text e ''Payment failed''\<rparr>)
    \<lparr>pp_loading := False, chargePending := None\<rparr>"

subsection \<open>Events and the step function\<close>

datatype pp_event =
    HistoryLoaded "http_error + obj list option"
  | TaxCalcLoaded "http_error + obj option"
  | InputChange string string
  | ChooseMethod pay_method
  | ClickPay
  | ChargeResponse "http_error + obj option"

fun pp_step :: "pp_state \<Rightarrow> pp_event \<Rightarrow> pp_state option" where
  "pp_step s (HistoryLoaded r) =
     (if historyPending s = 0 then None
      else Some (loadPaymentHistory_done r (s\<lparr>historyPending := historyPending s - 1\<rparr>)))"
| "pp_step s (TaxCalcLoaded r) =
     (if taxCalcPending s then Some (loadTaxCalculation_done r (s\<lparr>taxCalcPending := False\<rparr>))
      else None)"
| "pp_step s (InputChange field value) =
     (if field \<in> set (rendered_inputs (paymentMethod s))
         \<and> (case max_length field of None \<Rightarrow> True | Some n \<Rightarrow> length value \<le> n)
      then Some (handleInputChange field value s) else None)"
| "pp_step s (ChooseMethod m) = Some (s\<lparr>paymentMethod := m\<rparr>)"
| "pp_step s ClickPay =
     (if pp_loading s \<or> paymentData s ''amount'' = [] then None else Some (processPayment_start s))"
| "pp_step s (ChargeResponse r) =
     (if chargePending s = None then None else Some (processPayment_done r s))"

inductive pp_reachable :: "pp_state \<Rightarrow> bool" where
  init: "pp_reachable pp_init"
| step: "pp_reachable s \<Longrightarrow> pp_step s e = Some s' \<Longrightarrow> pp_reachable s'"

subsection \<open>The tax summary card\<close>

text \<open>The refund / amount-due panel of this page: the same figure as on the
  TaxForms page (\<open>refund_figure\<close>), under its own label.\<close>

definition pp_refund_label :: "obj \<Rightarrow> string" where
  "pp_refund_label c =
     (if js_gt (js_get c ''refund_amount'') 0 then ''Refund Expected'' else ''Amount Due'')"

subsection \<open>Invariants\<close>

definition pp_inv :: "pp_state \<Rightarrow> bool" where
  "pp_inv s \<longleftrightarrow> (pp_loading s \<longleftrightarrow> chargePending s \<noteq> None)
     \<and> length (paymentData s ''card_number'') \<le> 19 \<and> length (paymentData s ''cvv'') \<le> 4"

subsection \<open>Lemmas on the handlers\<close>

lemmas pp_handler_defs = loadPaymentHistory_done_def loadTaxCalculation_done_def
  handleInputChange_def processPayment_start_def processPayment_done_def

lemma loadTaxCalculation_done_fields:
  "pp_loading (loadTaxCalculation_done r s) = pp_loading s
   \<and> chargePending (loadTaxCalculation_done r s) = chargePending s
   \<and> pp_error (loadTaxCalculation_done r s) = pp_error s
   \<and> (\<forall>f. f \<noteq> ''amount'' \<longrightarrow> paymentData (loadTaxCalculation_done r s) f = paymentData s f)"
  by (auto simp: loadTaxCalculation_done_def Let_def split: sum.splits option.splits)

lemma pp_step_inv: "pp_inv s \<Longrightarrow> pp_step s e = Some s' \<Longrightarrow> pp_inv s'"
proof (cases e)
  case (TaxCalcLoaded r)
  moreover assume "pp_inv s" "pp_step s e = Some s'"
  ultimately show ?thesis
    using loadTaxCalculation_done_fields [of r "s\<lparr>taxCalcPending := False\<rparr>"]
    by (auto simp: pp_inv_def split: if_splits)
next
  case (InputChange f v)
  moreover assume "pp_inv s" "pp_step s e = Some s'"
  ultimately show ?thesis
    by (auto simp: pp_inv_def handleInputChange_def max_length_def split: if_splits)
qed (auto simp: pp_inv_def pp_handler_defs empty_payment_data_def split: if_splits sum.splits option.splits)

lemma pp_reachable_inv: "pp_reachable s \<Longrightarrow> pp_inv s"
proof (induction rule: pp_reachable.induct)
  case init
  show ?case by (simp add: pp_inv_def pp_init_def empty_payment_data_def)
next
  case (step s e s')
  then show ?case by (blast intro: pp_step_inv)
qed

lemma prefill_amount:
  assumes "taxCalcPending s" "amount_due_of data = JNum r" "0 < r"
  shows "\<exists>s'. pp_step s (TaxCalcLoaded (Inr (Some data))) = Some s'
            \<and> paymentData s' ''amount'' = toFixed2 r \<and> taxCalculation s' = Some data"
  using assms by (simp add: loadTaxCalculation_done_def js_gt_def)

lemma toFixed2_nonneg: "0 \<le> r \<Longrightarrow> toFixed2 r = fixed2_abs r"
  by (simp add: toFixed2_def)

subsection \<open>Theorems of the payment page\<close>

text \<open>C7. No double charge: in every reachable state of the payment page the
  \<open>loading\<close> flag is set exactly while a charge is in flight, and while one
  is, the Pay button cannot send another.\<close>

theorem no_double_charge:
  assumes "pp_reachable s"
  shows "(pp_loading s \<longleftrightarrow> chargePending s \<noteq> None)
       \<and> (chargePending s \<noteq> None \<longrightarrow> pp_step s ClickPay = None)"
  using pp_reachable_inv [OF assms] by (auto simp: pp_inv_def)

text \<open>C37. The card number and CVV the page holds never exceed the inputs'
  \<open>maxLength\<close> of 19 and 4 characters.\<close>

theorem payment_input_bounds:
  "pp_reachable s \<Longrightarrow> length (paymentData s ''card_number'') \<le> 19 \<and> length (paymentData s ''cvv'') \<le> 4"
  using pp_reachable_inv by (auto simp: pp_inv_def)

text \<open>C28. A failed charge keeps everything the user entered and shows the
  error; a successful one shows the transaction id (\<open>transaction_id\<close>, else
  \<open>id\<close>), clears every input and requests the history again.\<close>

theorem charge_response_effects:
  assumes "chargePending s \<noteq> None"
  shows "(\<exists>s'. pp_step s (ChargeResponse (Inl e)) = Some s' \<and> paymentData s' = paymentData s
             \<and> paymentMethod s' = paymentMethod s \<and> pp_error s' = error_text e ''Payment failed''
             \<and> \<not> pp_loading s')
       \<and> (\<exists>s'. pp_step s (ChargeResponse (Inr (Some d))) = Some s'
             \<and> paymentData s' = empty_payment_data
             \<and> pp_message s' = Some (js_or (js_get d ''transaction_id'') (js_get d ''id''))
             \<and> historyPending s' = Suc (historyPending s) \<and> \<not> pp_loading s')"
  using assms by (simp add: processPayment_done_def)

text \<open>C30. When the tax calculation request fails, the page shows the zero
  calculation as if it were the result: no error is set and the amount is left
  empty.\<close>

theorem tax_calculation_failure_default:
  assumes "taxCalcPending s"
  shows "\<exists>s'. pp_step s (TaxCalcLoaded (Inl e)) = Some s'
            \<and> taxCalculation s' = Some default_calculation
            \<and> pp_error s' = pp_error s \<and> paymentData s' = paymentData s"
  using assms by (simp add: loadTaxCalculation_done_def)

text \<open>The amount is pre-filled from \<open>amount_due || tax_owed\<close>: when the
  calculation reports a zero amount due (a refund) and a positive tax owed, the
  page pre-fills the tax owed.\<close>

lemma prefill_tax_owed_on_refund:
  assumes "taxCalcPending s" "js_get data ''amount_due'' = JNum 0"
    and "js_get data ''tax_owed'' = JNum t" "0 < t"
  shows "\<exists>s'. pp_step s (TaxCalcLoaded (Inr (Some data))) = Some s'
            \<and> paymentData s' ''amount'' = toFixed2 t"
proof -
  have "amount_due_of data = JNum t"
    using assms(2-4) by (simp add: amount_due_of_def)
  then show ?thesis
    using prefill_amount [OF assms(1) _ assms(4)] by blast
qed

text \<open>C26. A pre-filled amount that is then paid is charged as the amount due
  rounded to the cent.\<close>

theorem prefill_then_pay_amount:
  assumes "taxCalcPending s" "\<not> pp_loading s" "amount_due_of data = JNum r" "0 < r"
  shows "\<exists>s1 s2 p. pp_step s (TaxCalcLoaded (Inr (Some data))) = Some s1
            \<and> pp_step s1 ClickPay = Some s2 \<and> chargePending s2 = Some p
            \<and> amount p = JNum (real (cents_of r) / 100)"
proof -
  obtain s1 where s1: "pp_step s (TaxCalcLoaded (Inr (Some data))) = Some s1"
    and a: "paymentData s1 ''amount'' = toFixed2 r"
    using prefill_amount [OF assms(1,3,4)] by blast
  have l: "\<not> pp_loading s1"
    using s1 assms(2) loadTaxCalculation_done_fields by (auto split: if_splits)
  have ne: "paymentData s1 ''amount'' \<noteq> []"
    using a assms(4) by (simp add: toFixed2_nonneg fixed2_abs_ne)
  have "amount (charge_payload_of (paymentMethod s1) (paymentData s1)) = JNum (real (cents_of r) / 100)"
    using a assms(4) by (simp add: charge_payload_of_def toFixed2_nonneg parseFloat_fixed2_abs)
  then show ?thesis
    using s1 l ne by (simp add: processPayment_start_def)
qed

end
