(* ===== verification/DocumentUpload.thy ===== *)
theory DocumentUpload
  imports TaxForms
begin

text \<open>
  The document upload page of \<open>src/frontend/src/pages/DocumentUpload.jsx\<close>.
  Its React state is the record \<open>du_state\<close>: the selected \<open>files\<close>, the
  \<open>uploading\<close> flag, the list of uploaded documents (\<open>du_docs\<close>, the
  \<open>uploadedDocs\<close> state; a \<open>null\<close> entry is None), \<open>message\<close> and
  \<open>error\<close>. The requests in flight are explicit: the mount-time load of the
  document list, the batch of upload requests of one \<open>uploadFiles\<close> call
  (one slot per file sent, filled by its response), the reload that
  \<open>uploadFiles\<close> awaits after the batch, and the pending downloads.
  \<open>uploadFiles\<close> is split at its awaits: \<open>uploadFiles_start\<close> up to
  \<open>Promise.all\<close>, \<open>uploadResponse\<close> for the answer to one file, with
  \<open>uploadFiles_all_done\<close> when \<open>Promise.all\<close> resolves and
  \<open>uploadFiles_failed\<close> when it rejects (on the first failed request; the
  answers still outstanding then change nothing and are not events of the
  model). \<open>du_step\<close> takes a UI event or a response and returns None when
  the page cannot produce it: the Upload button is rendered only for a
  non-empty selection and disabled while \<open>uploading\<close>; the Remove buttons
  and the drop zone are never disabled.
\<close>

record upload_file =
  file_name :: string
  file_size :: nat

record du_state =
  files :: "upload_file list"
  uploading :: bool
  du_docs :: "document option list"
  du_message :: string
  du_error :: jsval
  mountLoadPending :: bool
  uploadPending :: "(upload_file \<times> document option option) list option"
  reloadPending :: bool
  downloadsPending :: "document list"
  downloads :: "jsval list"

text \<open>The initial state, after the mount effect has sent \<open>loadUserDocuments\<close>.\<close>

definition du_init :: du_state where
  "du_init =
     \<lparr>files = [], uploading = False, du_docs = [], du_message = [], du_error = JStr [],
      mountLoadPending = True, uploadPending = None, reloadPending = False,
      downloadsPending = [], downloads = []\<rparr>"

definition onDrop :: "upload_file list \<Rightarrow> du_state \<Rightarrow> du_state" where
  "onDrop acceptedFiles s = s\<lparr>files := files s @ acceptedFiles, du_error := JStr []\<rparr>"

text \<open>\<open>prev.filter((_, i) => i !== index)\<close>.\<close>

definition removeFile :: "nat \<Rightarrow> du_state \<Rightarrow> du_state" where
  "removeFile index s =
     s\<lparr>files := map fst (filter (\<lambda>(_, i). i \<noteq> index) (zip (files s) [0..<length (files s)]))\<rparr>"

definition uploadFiles_start :: "du_state \<Rightarrow> du_state" where
  "uploadFiles_start s =
     (if files s = [] then s\<lparr>du_error := JStr ''Please select files to upload''\<rparr>
      else s\<lparr>uploading := True, du_error := JStr [], du_message := [],
             uploadPending := Some (map (\<lambda>f. (f, None)) (files s))\<rparr>)"

definition upload_message :: "nat \<Rightarrow> string" where
  "upload_message n = ''Successfully uploaded '' @ nat_digits n @ '' document(s)''"

text \<open>\<open>Promise.all\<close> resolved with the results in the order of the files:
  append them, clear the selection, show the count, and await the reload.\<close>

definition uploadFiles_all_done :: "document option list \<Rightarrow> du_state \<Rightarrow> du_state" where
  "uploadFiles_all_done results s =
     s\<lparr>du_docs := du_docs s @ results, files := [], du_message := upload_message (length results),
       uploadPending := None, reloadPending := True\<rparr>"

text \<open>\<open>Promise.all\<close> rejected: the \<open>catch\<close> and the \<open>finally\<close>.\<close>

definition uploadFiles_failed :: "http_error \<Rightarrow> du_state \<Rightarrow> du_state" where
  "uploadFiles_failed e s =
     s\<lparr>du_error := error_text e ''Upload failed'', uploading := False, uploadPending := None\<rparr>"

definition slots_done :: "(upload_file \<times> document option option) list \<Rightarrow> bool" where
  "slots_done slots \<longleftrightarrow> list_all (\<lambda>p. snd p \<noteq> None) slots"

definition slot_results :: "(upload_file \<times> document option option) list \<Rightarrow> document option list" where
  "slot_results slots = map (\<lambda>p. the (snd p)) slots"

text \<open>The answer to the request of file \<open>i\<close>: \<open>response.data\<close>, or the
  rejection of \<open>Promise.all\<close>.\<close>

definition uploadResponse :: "nat \<Rightarrow> http_error + document option \<Rightarrow> du_state \<Rightarrow> du_state" where
  "uploadResponse i r s =
     (case r of
        Inl e \<Rightarrow> uploadFiles_failed e s
      | Inr d \<Rightarrow>
          (let slots = (case uploadPending s of None \<Rightarrow> [] | Some sl \<Rightarrow> sl);
               slots' = slots[i := (fst (slots ! i), Some d)]
           in if slots_done slots' then uploadFiles_all_done (slot_results slots') s
              else s\<lparr>uploadPending := Some slots'\<rparr>))"

text \<open>\<open>loadUserDocuments\<close> after its response.\<close>

definition du_loadUserDocuments_done ::
  "http_error + document option list option \<Rightarrow> du_state \<Rightarrow> du_state" where
  "du_loadUserDocuments_done r s =
    (case r of
       Inr data \<Rightarrow> s\<lparr>du_docs := (case data of None \<Rightarrow> [] | Some docs \<Rightarrow> docs)\<rparr>
     | Inl _ \<Rightarrow> s\<lparr>du_error := JStr ''Failed to load documents'', du_docs := []\<rparr>)"

definition handleDownload_start :: "document \<Rightarrow> du_state \<Rightarrow> du_state" where
  "handleDownload_start doc s = s\<lparr>downloadsPending := downloadsPending s @ [doc]\<rparr>"

text \<open>\<open>link.download = doc.filename || 'document'\<close>.\<close>

definition download_name :: "document \<Rightarrow> jsval" where
  "download_name doc = js_or (filename doc) (JStr ''document'')"

text \<open>The answer to the \<open>j\<close>-th pending download: the file is saved under
  its name, or the error is shown.\<close>

definition handleDownload_done :: "nat \<Rightarrow> http_error + unit \<Rightarrow> du_state \<Rightarrow> du_state" where
  "handleDownload_done j r s =
     (let p = downloadsPending s; s' = s\<lparr>downloadsPending := take j p @ drop (Suc j) p\<rparr>
      in case r of
           Inr _ \<Rightarrow> s'\<lparr>downloads := downloads s @ [download_name (p ! j)]\<rparr>
         | Inl _ \<Rightarrow> s'\<lparr>du_error := JStr ''Download failed''\<rparr>)"

datatype du_event =
    MountDocsLoaded "http_error + document option list option"
  | DropFiles "upload_file list"
  | ClickRemove nat
  | ClickUpload
  | UploadResponse nat "http_error + document option"
  | ReloadDocsLoaded "http_error + document option list option"
  | ClickDownload nat
  | DownloadResponse nat "http_error + unit"

fun du_step :: "du_state \<Rightarrow> du_event \<Rightarrow> du_state option" where
  "du_step s (MountDocsLoaded r) =
     (if mountLoadPending s then Some (du_loadUserDocuments_done r (s\<lparr>mountLoadPending := False\<rparr>))
      else None)"
| "du_step s (DropFiles fs) = Some (onDrop fs s)"
| "du_step s (ClickRemove i) = (if i < length (files s) then Some (removeFile i s) else None)"
| "du_step s ClickUpload = (if files s = [] \<or> uploading s then None else Some (uploadFiles_start s))"
| "du_step s (UploadResponse i r) =
     (case uploadPending s of
        None \<Rightarrow> None
      | Some slots \<Rightarrow> if i < length slots \<and> snd (slots ! i) = None then Some (uploadResponse i r s) else None)"
| "du_step s (ReloadDocsLoaded r) =
     (if reloadPending s
      then Some ((du_loadUserDocuments_done r s)\<lparr>reloadPending := False, uploading := False\<rparr>)
      else None)"
| "du_step s (ClickDownload i) =
     (if i < length (du_docs s)
      then (case du_docs s ! i of None \<Rightarrow> None | Some d \<Rightarrow> Some (handleDownload_start d s))
      else None)"
| "du_step s (DownloadResponse j r) =
     (if j < length (downloadsPending s) then Some (handleDownload_done j r s) else None)"

fun du_run :: "du_state \<Rightarrow> du_event list \<Rightarrow> du_state option" where
  "du_run s [] = Some s"
| "du_run s (e # es) = (case du_step s e of None \<Rightarrow> None | Some s' \<Rightarrow> du_run s' es)"

inductive du_reachable :: "du_state \<Rightarrow> bool" where
  init: "du_reachable du_init"
| step: "du_reachable s \<Longrightarrow> du_step s e = Some s' \<Longrightarrow> du_reachable s'"

subsection \<open>The rendered lists\<close>

text \<open>The page renders \<open>doc.id\<close>, \<open>doc.filename\<close> and the other fields of
  each uploaded document: a \<open>null\<close> entry makes the render throw.\<close>

definition du_render_ok :: "du_state \<Rightarrow> bool" where
  "du_render_ok s \<longleftrightarrow> list_all (\<lambda>d. d \<noteq> None) (du_docs s)"

text \<open>\<open>doc.extracted_data?.f\<close>.\<close>

definition ed_field :: "document \<Rightarrow> string \<Rightarrow> jsval" where
  "ed_field doc f = (case extracted_data doc of None \<Rightarrow> JUndefined | Some ed \<Rightarrow> js_get ed f)"

definition shows_type_box :: "document \<Rightarrow> bool" where
  "shows_type_box doc \<longleftrightarrow> extracted_data doc \<noteq> None \<or> js_truthy (document_type doc)"

text \<open>The chip: \<open>getDocumentTypeDisplayName(doc.extracted_data?.document_type
  || doc.document_type || 'Unknown')\<close>, shown when \<open>doc.extracted_data ||
  doc.document_type\<close> is truthy.\<close>

definition doc_chip :: "document \<Rightarrow> jsval option" where
  "doc_chip doc =
     (if shows_type_box doc
      then Some (getDocumentTypeDisplayName
                  (js_or (js_or (ed_field doc ''document_type'') (document_type doc)) (JStr ''Unknown'')))
      else None)"

definition is_type :: "document \<Rightarrow> string \<Rightarrow> bool" where
  "is_type doc t \<longleftrightarrow> js_strict_eq (ed_field doc ''document_type'') (JStr t)
                     \<or> js_strict_eq (document_type doc) (JStr t)"

text \<open>The caption lines under the chip, each as its label and the value the
  template literal interpolates.\<close>

definition doc_captions :: "document \<Rightarrow> (string \<times> jsval) list" where
  "doc_captions doc =
     (if shows_type_box doc
      then (if is_type doc ''W-2'' then [(''Wages: $'', js_or (ed_field doc ''wages'') (JNum 0))] else [])
         @ (if is_type doc ''1099-NEC''
            then [(''Compensation: $'', js_or (ed_field doc ''nonemployee_compensation'') (JNum 0))] else [])
         @ (if is_type doc ''W-9'' then [(''Name: '', js_or (ed_field doc ''name'') (JStr ''N/A''))] else [])
      else [])"

text \<open>The size line of a selected file: \<open>(file.size / 1024 / 1024).toFixed(2)\<close>.\<close>

definition file_size_text :: "upload_file \<Rightarrow> string" where
  "file_size_text f = toFixed2 (real (file_size f) / 1024 / 1024) @ '' MB''"

subsection \<open>The request invariant\<close>

text \<open>\<open>uploading\<close> is set exactly while a batch or its reload is in flight,
  never both, and a batch in flight still waits for an answer.\<close>

definition du_inv :: "du_state \<Rightarrow> bool" where
  "du_inv s \<longleftrightarrow> (uploading s \<longleftrightarrow> uploadPending s \<noteq> None \<or> reloadPending s)
                \<and> (uploadPending s = None \<or> \<not> reloadPending s)
                \<and> (case uploadPending s of None \<Rightarrow> True | Some slots \<Rightarrow> \<not> slots_done slots)"

text \<open>The upload requests of the batch in flight still waiting for an answer.\<close>

definition open_slots :: "du_state \<Rightarrow> nat" where
  "open_slots s = (case uploadPending s of None \<Rightarrow> 0 | Some slots \<Rightarrow> length (filter (\<lambda>p. snd p = None) slots))"

text \<open>The answers an upload waits for: the response to one file of the batch,
  and the reload that \<open>uploadFiles\<close> awaits after it.\<close>

definition upload_answer :: "du_event \<Rightarrow> bool" where
  "upload_answer e \<longleftrightarrow> (case e of UploadResponse _ _ \<Rightarrow> True | ReloadDocsLoaded _ \<Rightarrow> True | _ \<Rightarrow> False)"

text \<open>The answers still awaited: one per open slot, and the reload while
  \<open>uploading\<close> is set.\<close>

definition upload_work :: "du_state \<Rightarrow> nat" where
  "upload_work s = open_slots s + (if uploading s then 1 else 0)"

lemmas du_handler_defs = onDrop_def removeFile_def uploadFiles_start_def uploadFiles_all_done_def
  uploadFiles_failed_def uploadResponse_def du_loadUserDocuments_done_def handleDownload_start_def
  handleDownload_done_def


lemma slots_done_map_None [simp]: "slots_done (map (\<lambda>f. (f, None)) fs) \<longleftrightarrow> fs = []"
  by (cases fs) (simp_all add: slots_done_def)

lemma du_step_inv: "du_inv s \<Longrightarrow> du_step s e = Some s' \<Longrightarrow> du_inv s'"
  by (cases e)
     (auto simp: du_inv_def du_handler_defs Let_def split: if_splits option.splits sum.splits)

lemma du_reachable_inv: "du_reachable s \<Longrightarrow> du_inv s"
proof (induction rule: du_reachable.induct)
  case init
  show ?case by (simp add: du_inv_def du_init_def)
next
  case (step s e s')
  then show ?case by (blast intro: du_step_inv)
qed

lemma uploadFiles_all_done_upd [simp]:
  "uploadFiles_all_done res (s\<lparr>uploadPending := x\<rparr>) = uploadFiles_all_done res s"
  by (simp add: uploadFiles_all_done_def)

lemma slots_done_iff: "slots_done slots \<longleftrightarrow> (\<forall>j<length slots. snd (slots ! j) \<noteq> None)"
  by (simp add: slots_done_def list_all_length)

text \<open>The answers to a batch, in the order given by \<open>is\<close>, fill the slots;
  the last one resolves \<open>Promise.all\<close> with the results in slot order.\<close>

lemma upload_run_slots:
  assumes "uploadPending s = Some slots" "length slots = n"
    and "distinct is" "is \<noteq> []" "set is \<subseteq> {..<n}"
    and "\<forall>j<n. snd (slots ! j) = (if j \<in> set is then None else Some (r j))"
  shows "du_run s (map (\<lambda>i. UploadResponse i (Inr (r i))) is) = Some (uploadFiles_all_done (map r [0..<n]) s)"
  using assms
proof (induction "is" arbitrary: s slots)
  case Nil
  then show ?case by simp
next
  case (Cons i is')
  define slots' where "slots' = slots[i := (fst (slots ! i), Some (r i))]"
  have i: "i < n" "snd (slots ! i) = None" "i \<notin> set is'" using Cons.prems by auto
  have filled: "\<forall>j<n. snd (slots' ! j) = (if j \<in> set is' then None else Some (r j))"
    using Cons.prems(2,6) i by (auto simp: slots'_def nth_list_update)
  have done_iff: "slots_done slots' \<longleftrightarrow> is' = []"
    using filled Cons.prems(2,5) by (auto simp: slots_done_iff slots'_def) (metis equals0I lessThan_iff set_empty subsetD)
  have step: "du_step s (UploadResponse i (Inr (r i))) = Some (uploadResponse i (Inr (r i)) s)"
    using Cons.prems(1,2) i by simp
  show ?case
  proof (cases "is' = []")
    case True
    have "slot_results slots' = map r [0..<n]"
      using filled True Cons.prems(2) by (intro nth_equalityI) (simp_all add: slot_results_def slots'_def)
    with True done_iff step Cons.prems(1) show ?thesis
      by (simp add: uploadResponse_def slots'_def)
  next
    case False
    have "du_run (s\<lparr>uploadPending := Some slots'\<rparr>) (map (\<lambda>i. UploadResponse i (Inr (r i))) is')
          = Some (uploadFiles_all_done (map r [0..<n]) s)"
      using Cons.IH [of "s\<lparr>uploadPending := Some slots'\<rparr>" slots'] Cons.prems False filled
      by (simp add: slots'_def)
    with False done_iff step Cons.prems(1) show ?thesis
      by (simp add: uploadResponse_def slots'_def)
  qed
qed

lemma du_step_UploadResponse:
  assumes "du_step s (UploadResponse i r) = Some s'"
  obtains slots where "uploadPending s = Some slots" "i < length slots" "snd (slots ! i) = None"
    "s' = uploadResponse i r s"
  using assms by (cases "uploadPending s") (auto split: if_splits)

lemma open_slot_pos_gen: "i < length xs \<Longrightarrow> P (xs ! i) \<Longrightarrow> 0 < length (filter P xs)"
  by (metis length_greater_0_conv filter_empty_conv nth_mem)

lemma open_slot_pos: "i < length slots \<Longrightarrow> snd (slots ! i) = None \<Longrightarrow> 0 < length (filter (\<lambda>p. snd p = None) slots)"
  by (metis (mono_tags, lifting) length_greater_0_conv filter_empty_conv nth_mem)

lemma length_filter_upd_drop:
  "i < length xs \<Longrightarrow> P (xs ! i) \<Longrightarrow> \<not> P v \<Longrightarrow> length (filter P (xs[i := v])) = length (filter P xs) - 1"
proof (induction xs arbitrary: i)
  case Nil
  then show ?case by simp
next
  case (Cons x xs)
  show ?case
  proof (cases i)
    case 0
    with Cons.prems show ?thesis by simp
  next
    case (Suc j)
    with Cons.prems have "j < length xs" "P (xs ! j)" by simp_all
    with Cons.IH [of j] Cons.prems(3) open_slot_pos_gen [of j xs P] Suc show ?thesis by simp
  qed
qed

lemma upload_answer_decreases:
  assumes "du_step s (UploadResponse i r) = Some s'"
  shows "open_slots s' < open_slots s"
proof -
  obtain slots where sl: "uploadPending s = Some slots" "i < length slots" "snd (slots ! i) = None"
    and s': "s' = uploadResponse i r s"
    using assms by (elim du_step_UploadResponse)
  have pos: "0 < length (filter (\<lambda>p. snd p = None) slots)" using open_slot_pos [OF sl(2,3)] .
  show ?thesis
  proof (cases r)
    case (Inl e)
    then show ?thesis using s' sl pos by (simp add: open_slots_def uploadResponse_def uploadFiles_failed_def)
  next
    case (Inr d)
    have "length (filter (\<lambda>p. snd p = None) (slots[i := (fst (slots ! i), Some d)]))
          = length (filter (\<lambda>p. snd p = None) slots) - 1"
      using sl(2,3) by (simp add: length_filter_upd_drop)
    then show ?thesis using Inr s' sl pos
      by (simp add: open_slots_def uploadResponse_def uploadFiles_all_done_def Let_def)
  qed
qed

lemma du_run_reachable: "du_reachable s \<Longrightarrow> du_run s es = Some s' \<Longrightarrow> du_reachable s'"
proof (induction es arbitrary: s)
  case Nil
  then show ?case by simp
next
  case (Cons e es)
  then obtain s1 where "du_step s e = Some s1" "du_run s1 es = Some s'" by (auto split: option.splits)
  with Cons.IH Cons.prems(1) show ?case by (blast intro: du_reachable.step)
qed

lemma upload_response_uploading:
  "du_step s (UploadResponse i r) = Some s' \<Longrightarrow> uploading s' \<Longrightarrow> uploading s"
  by (elim du_step_UploadResponse)
     (auto simp: uploadResponse_def uploadFiles_failed_def uploadFiles_all_done_def Let_def split: sum.splits if_splits)

text \<open>Each answer lowers the work left.\<close>

lemma upload_answer_work:
  assumes "du_inv s" "upload_answer e" "du_step s e = Some s'"
  shows "upload_work s' < upload_work s"
proof (cases e)
  case (UploadResponse i r)
  with assms(3) have "open_slots s' < open_slots s" "uploading s' \<Longrightarrow> uploading s"
    using upload_answer_decreases upload_response_uploading by blast+
  then show ?thesis by (auto simp: upload_work_def)
next
  case (ReloadDocsLoaded r)
  with assms(1,3) show ?thesis
    by (auto simp: upload_work_def open_slots_def du_inv_def du_loadUserDocuments_done_def
             split: if_splits sum.splits)
qed (use assms(2) in \<open>simp_all add: upload_answer_def\<close>)

text \<open>An answer is awaited exactly while \<open>uploading\<close> is set.\<close>

lemma upload_answer_enabled_iff:
  assumes "du_inv s"
  shows "uploading s \<longleftrightarrow> (\<exists>e s'. upload_answer e \<and> du_step s e = Some s')"
proof
  assume up: "uploading s"
  show "\<exists>e s'. upload_answer e \<and> du_step s e = Some s'"
  proof (cases "uploadPending s")
    case None
    with up assms have "reloadPending s" by (simp add: du_inv_def)
    then show ?thesis by (auto simp: upload_answer_def intro: exI [of _ "ReloadDocsLoaded (Inr None)"])
  next
    case (Some slots)
    with assms obtain j where "j < length slots" "snd (slots ! j) = None"
      by (auto simp: du_inv_def slots_done_iff)
    with Some show ?thesis by (auto simp: upload_answer_def intro: exI [of _ "UploadResponse j (Inr None)"])
  qed
next
  assume "\<exists>e s'. upload_answer e \<and> du_step s e = Some s'"
  then obtain e s' where "upload_answer e" "du_step s e = Some s'" by blast
  with assms show "uploading s"
    by (cases e) (auto simp: upload_answer_def du_inv_def split: option.splits if_splits)
qed

text \<open>The answers to a whole batch, in any order, resolve \<open>Promise.all\<close>.\<close>

lemma upload_batch_all_done:
  assumes "uploadPending s = Some (map (\<lambda>f. (f, None)) fs)" "fs \<noteq> []"
    and "distinct is" "set is = {..<length fs}"
  shows "du_run s (map (\<lambda>i. UploadResponse i (Inr (r i))) is) = Some (uploadFiles_all_done (map r [0..<length fs]) s)"
proof -
  have "0 \<in> set is" using assms(2,4) by simp
  then have ne: "is \<noteq> []" by (cases "is") simp_all
  have fill: "\<forall>j<length fs. snd (map (\<lambda>f. (f, None)) fs ! j) = (if j \<in> set is then None else Some (r j))"
    using assms(4) by simp
  have len: "length (map (\<lambda>f. (f, None :: document option option)) fs) = length fs" by simp
  have sub: "set is \<subseteq> {..<length fs}" using assms(4) by simp
  show ?thesis using upload_run_slots [OF assms(1) len assms(3) ne sub fill] .
qed

subsection \<open>Properties\<close>

text \<open>C12. In every reachable state of the upload page \<open>uploading\<close> is set
  exactly while a batch of uploads or its reload is in flight, and while a
  batch is in flight the Upload button cannot start a second one.\<close>

theorem du_reachable_uploading:
  assumes "du_reachable s"
  shows "(uploading s \<longleftrightarrow> uploadPending s \<noteq> None \<or> reloadPending s)
       \<and> (uploadPending s \<noteq> None \<longrightarrow> du_step s ClickUpload = None)"
  using du_reachable_inv [OF assms] by (auto simp: du_inv_def)

text \<open>Upload sends one request per selected file, clears the error and
  the message; the guard for an empty selection is dead code, since the button
  is rendered only for a non-empty one.\<close>

lemma upload_start_sends_selection:
  assumes "du_step s ClickUpload = Some s'"
  shows "uploadPending s' = Some (map (\<lambda>f. (f, None)) (files s)) \<and> files s \<noteq> []
       \<and> uploading s' \<and> du_error s' = JStr [] \<and> du_message s' = []"
  using assms by (auto simp: uploadFiles_start_def split: if_splits)

text \<open>C14. Whatever order the answers to a batch arrive in, once all files are
  uploaded the new documents are appended in the order of the selection
  (\<open>Promise.all\<close>), the selection is cleared, the count is shown and the
  reload is sent.\<close>

theorem upload_results_in_file_order:
  assumes "uploadPending s = Some (map (\<lambda>f. (f, None)) fs)" "fs \<noteq> []"
    and "distinct is" "set is = {..<length fs}"
  shows "\<exists>s'. du_run s (map (\<lambda>i. UploadResponse i (Inr (r i))) is) = Some s'
            \<and> du_docs s' = du_docs s @ map r [0..<length fs] \<and> files s' = []
            \<and> du_message s' = upload_message (length fs) \<and> reloadPending s' \<and> uploadPending s' = None"
  using upload_batch_all_done [OF assms] by (simp add: uploadFiles_all_done_def)

text \<open>C13. Files dropped while a batch is in flight are not added to it, and
  when the batch succeeds \<open>setFiles([])\<close> clears them with the rest: they are
  discarded without ever being uploaded.\<close>

theorem upload_success_drops_new_selection:
  assumes "uploadPending s = Some slots" "du_step s (DropFiles fs) = Some s1"
    and "du_step s1 (UploadResponse i (Inr d)) = Some s2" "uploadPending s2 = None"
  shows "uploadPending s1 = Some slots \<and> set fs \<subseteq> set (files s1) \<and> files s2 = []
       \<and> du_docs s2 = du_docs s @ slot_results (slots[i := (fst (slots ! i), Some d)])"
  using assms by (auto simp: onDrop_def uploadResponse_def uploadFiles_all_done_def Let_def
                       split: if_splits option.splits)

text \<open>C15. When one upload of a batch fails, the error is shown, \<open>uploading\<close>
  is cleared at once and the selection and the document list are kept, so the
  Upload button sends every selected file again, those already stored by the
  server included.\<close>

theorem upload_failure_keeps_selection:
  assumes "du_step s (UploadResponse i (Inl e)) = Some s'"
  shows "files s' = files s \<and> du_docs s' = du_docs s \<and> du_error s' = error_text e ''Upload failed''
       \<and> \<not> uploading s' \<and> uploadPending s' = None
       \<and> (files s \<noteq> [] \<longrightarrow> du_step s' ClickUpload = Some (uploadFiles_start s')
             \<and> uploadPending (uploadFiles_start s') = Some (map (\<lambda>f. (f, None)) (files s)))"
  using assms by (elim du_step_UploadResponse) (simp add: uploadResponse_def uploadFiles_failed_def uploadFiles_start_def)


text \<open>C16. An upload whose response body is \<open>null\<close> is appended as a
  \<open>null\<close> document when its batch completes, and the document list then
  fails to render.\<close>

theorem null_upload_result_breaks_render:
  assumes "du_step s (UploadResponse i (Inr None)) = Some s'" "uploadPending s' = None"
  shows "\<not> du_render_ok s'"
proof -
  obtain slots where sl: "uploadPending s = Some slots" "i < length slots"
    and s': "s' = uploadResponse i (Inr None) s"
    using assms(1) by (elim du_step_UploadResponse)
  define slots' where "slots' = slots[i := (fst (slots ! i), Some None)]"
  have "slots_done slots'"
    using assms(2) sl s' by (auto simp: uploadResponse_def slots'_def Let_def split: if_splits)
  then have "du_docs s' = du_docs s @ slot_results slots'"
    using sl s' by (simp add: uploadResponse_def uploadFiles_all_done_def slots'_def Let_def)
  moreover have "None \<in> set (slot_results slots')"
    using sl(2) by (force simp: slot_results_def slots'_def in_set_conv_nth)
  ultimately show ?thesis by (auto simp: du_render_ok_def list_all_iff)
qed

text \<open>The chip prefers the extracted document type, but the captions
  test both types: a document extracted as a W-2 and classified as a
  1099-NEC shows the W-2 chip with both a wages and a compensation line.\<close>

lemma conflicting_types_show_both_captions:
  assumes "ed_field doc ''document_type'' = JStr ''W-2''" "document_type doc = JStr ''1099-NEC''"
  shows "doc_chip doc = Some (JStr ''W-2 Wage and Tax Statement'')
       \<and> map fst (doc_captions doc) = [''Wages: $'', ''Compensation: $'']"
  using assms by (simp add: doc_chip_def doc_captions_def shows_type_box_def is_type_def displayNames_def)

text \<open>A download that succeeds saves the file under its filename, or
  \<open>document\<close> when it has none; one that fails shows \<open>Download failed\<close>;
  either way it leaves the pending list.\<close>

lemma download_outcome:
  assumes "du_step s (DownloadResponse j r) = Some s'"
  shows "length (downloadsPending s') = length (downloadsPending s) - 1
       \<and> (case r of
            Inr _ \<Rightarrow> downloads s' = downloads s @ [js_or (filename (downloadsPending s ! j)) (JStr ''document'')]
                   \<and> du_error s' = du_error s
          | Inl _ \<Rightarrow> downloads s' = downloads s \<and> du_error s' = JStr ''Download failed'')"
  using assms by (auto simp: handleDownload_done_def download_name_def Let_def split: if_splits sum.splits)


text \<open>C32. An upload ends: from any reachable state a run of answers to the
  upload (file responses and the reload) has at most \<open>upload_work\<close> steps, one
  per file still awaited and one for the reload, and the page accepts a further
  answer exactly while \<open>uploading\<close> is set, so a run of answers that cannot be
  extended ends with \<open>uploading\<close> cleared and the Upload button enabled again.\<close>

theorem upload_batch_settles:
  assumes "du_reachable s" "du_run s es = Some s'" "list_all upload_answer es"
  shows "length es \<le> upload_work s \<and> (uploading s' \<longleftrightarrow> (\<exists>e s''. upload_answer e \<and> du_step s' e = Some s''))"
proof -
  have "length es \<le> upload_work s" using assms
  proof (induction es arbitrary: s)
    case Nil
    then show ?case by simp
  next
    case (Cons e es)
    then obtain s1 where st: "du_step s e = Some s1" and r: "du_run s1 es = Some s'"
      by (auto split: option.splits)
    have "du_reachable s1" using Cons.prems(1) st by (rule du_reachable.step)
    then have "length es \<le> upload_work s1" using Cons.IH r Cons.prems(3) by simp
    moreover have "upload_work s1 < upload_work s"
      using upload_answer_work [OF du_reachable_inv [OF Cons.prems(1)] _ st] Cons.prems(3) by simp
    ultimately show ?case by simp
  qed
  moreover have "du_inv s'" using du_run_reachable [OF assms(1,2)] by (rule du_reachable_inv)
  ultimately show ?thesis using upload_answer_enabled_iff by blast
qed

end
