(* ===== verification/Session.thy ===== *)
theory Session
  imports JsNumber
begin

text \<open>
  The session layer: the token store of \<open>src/frontend/src/utils/auth.js\<close>
  (\<open>localStorage\<close> key \<open>access_token\<close>), the two interceptors of the axios
  client in \<open>src/frontend/src/utils/api.js\<close>, the routes of
  \<open>src/frontend/src/App.js\<close> with \<open>PrivateRoute\<close>, the logout of
  \<open>components/Dashboard.jsx\<close> and the login page \<open>pages/Login.jsx\<close>. The
  login body is built with \<open>encodeURIComponent\<close>, written out here on the
  8-bit characters of HOL strings (code points 0 to 255, encoded as UTF-8).
  The decoding of an \<open>application/x-www-form-urlencoded\<close> body the server
  applies is written from the URL standard; it is not code of the repository
  and serves to state that the body carries exactly the two fields.
\<close>

subsection \<open>ToString\<close>

definition int_string :: "int \<Rightarrow> string" where
  "int_string i = (if i < 0 then ''-'' @ nat_digits (nat (- i)) else nat_digits (nat i))"

text \<open>\<open>String(v)\<close>, which \<open>localStorage.setItem\<close> and template literals apply.
  An integral number below \<open>10^21\<close> prints as its digits; the shortest
  round-trip digits of other numbers depend on the double the model does not
  keep, and an object prints through its own \<open>toString\<close>: for those the
  value is None.\<close>

fun js_to_string :: "jsval \<Rightarrow> string option" where
  "js_to_string JUndefined = Some ''undefined''"
| "js_to_string JNull = Some ''null''"
| "js_to_string (JBool b) = Some (if b then ''true'' else ''false'')"
| "js_to_string JNaN = Some ''NaN''"
| "js_to_string (JInf pos) = Some (if pos then ''Infinity'' else ''-Infinity'')"
| "js_to_string (JStr str) = Some str"
| "js_to_string JObject = None"
| "js_to_string (JNum r) =
     (if real_of_int \<lfloor>r\<rfloor> = r \<and> \<bar>r\<bar> < 10 ^ 21 then Some (int_string \<lfloor>r\<rfloor>) else None)"

subsection \<open>encodeURIComponent\<close>

definition is_alnum :: "char \<Rightarrow> bool" where
  "is_alnum c \<longleftrightarrow> is_digit c \<or> (65 \<le> (of_char c :: nat) \<and> (of_char c :: nat) \<le> 90)
                  \<or> (97 \<le> (of_char c :: nat) \<and> (of_char c :: nat) \<le> 122)"

definition uri_unreserved :: "char \<Rightarrow> bool" where
  "uri_unreserved c \<longleftrightarrow> is_alnum c \<or> c \<in> set ''-_.!~*'()''"

definition hex_char :: "nat \<Rightarrow> char" where
  "hex_char n = (if n < 10 then char_of (48 + n) else char_of (55 + n))"

definition pct :: "nat \<Rightarrow> string" where
  "pct b = [CHR ''%'', hex_char (b div 16), hex_char (b mod 16)]"

definition enc_char :: "char \<Rightarrow> string" where
  "enc_char c =
     (let n = (of_char c :: nat)
      in if uri_unreserved c then [c]
         else if n < 128 then pct n
         else pct (192 + n div 64) @ pct (128 + n mod 64))"

definition encodeURIComponent :: "string \<Rightarrow> string" where
  "encodeURIComponent str = concat (map enc_char str)"

text \<open>The body of \<open>POST /auth/token\<close>.\<close>

definition login_body :: "string \<Rightarrow> string \<Rightarrow> string" where
  "login_body email password =
     ''username='' @ encodeURIComponent email @ ''&password='' @ encodeURIComponent password"

subsection \<open>Form decoding (URL standard)\<close>

definition hex_val :: "char \<Rightarrow> nat option" where
  "hex_val c =
     (let n = (of_char c :: nat)
      in if 48 \<le> n \<and> n \<le> 57 then Some (n - 48)
         else if 65 \<le> n \<and> n \<le> 70 then Some (n - 55)
         else if 97 \<le> n \<and> n \<le> 102 then Some (n - 87) else None)"

text \<open>The UTF-8 bytes of a character of code point below 256.\<close>

definition utf8_bytes :: "char \<Rightarrow> nat list" where
  "utf8_bytes c = (let n = (of_char c :: nat) in if n < 128 then [n] else [192 + n div 64, 128 + n mod 64])"

text \<open>Percent-decoding, with \<open>+\<close> read as a space.\<close>

fun pct_decode :: "string \<Rightarrow> nat list" where
  "pct_decode [] = []"
| "pct_decode (c # cs) =
     (if c = CHR ''+'' then 32 # pct_decode cs
      else if c = CHR ''%'' then
        (case cs of
           h1 # h2 # rest \<Rightarrow>
             (case (hex_val h1, hex_val h2) of
                (Some a, Some b) \<Rightarrow> (16 * a + b) # pct_decode rest
              | _ \<Rightarrow> utf8_bytes c @ pct_decode cs)
         | _ \<Rightarrow> utf8_bytes c @ pct_decode cs)
      else utf8_bytes c @ pct_decode cs)"

text \<open>UTF-8 decoding for code points below 256; None on any other input.\<close>

fun utf8_decode :: "nat list \<Rightarrow> string option" where
  "utf8_decode [] = Some []"
| "utf8_decode (b # bs) =
     (if b < 128 then map_option (Cons (char_of b)) (utf8_decode bs)
      else if 194 \<le> b \<and> b \<le> 195 then
        (case bs of
           b2 # rest \<Rightarrow>
             if 128 \<le> b2 \<and> b2 < 192 then map_option (Cons (char_of ((b - 192) * 64 + (b2 - 128)))) (utf8_decode rest)
             else None
         | [] \<Rightarrow> None)
      else None)"

fun split_on :: "char \<Rightarrow> string \<Rightarrow> string list" where
  "split_on d [] = [[]]"
| "split_on d (c # cs) = (if c = d then [] # split_on d cs else (case split_on d cs of w # ws \<Rightarrow> (c # w) # ws | [] \<Rightarrow> [[c]]))"

definition url_decode :: "string \<Rightarrow> string option" where
  "url_decode str = utf8_decode (pct_decode str)"

definition decode_pair :: "string \<Rightarrow> (string \<times> string) option" where
  "decode_pair seq =
     (let name = takeWhile (\<lambda>c. c \<noteq> CHR ''='') seq;
          value = drop (Suc (length name)) seq
      in case (url_decode name, url_decode value) of
           (Some n, Some v) \<Rightarrow> Some (n, v)
         | _ \<Rightarrow> None)"

definition form_decode :: "string \<Rightarrow> (string \<times> string) list option" where
  "form_decode body = those (map decode_pair (filter (\<lambda>w. w \<noteq> []) (split_on CHR ''&'' body)))"

subsection \<open>The token store and the interceptors\<close>

text \<open>\<open>localStorage['access_token']\<close> and the current URL.\<close>

record session =
  access_token :: "string option"
  location :: string

text \<open>\<open>setToken(token)\<close>: \<open>setItem\<close> stores \<open>String(token)\<close>.\<close>

definition setToken :: "jsval \<Rightarrow> session \<Rightarrow> session option" where
  "setToken token s = map_option (\<lambda>str. s\<lparr>access_token := Some str\<rparr>) (js_to_string token)"

definition getToken :: "session \<Rightarrow> jsval" where
  "getToken s = (case access_token s of None \<Rightarrow> JNull | Some t \<Rightarrow> JStr t)"

definition isAuthenticated :: "session \<Rightarrow> bool" where
  "isAuthenticated s \<longleftrightarrow> js_truthy (getToken s)"

definition logout :: "session \<Rightarrow> session" where
  "logout s = s\<lparr>access_token := None\<rparr>"

text \<open>The request interceptor: the header it adds to every request.\<close>

definition auth_header :: "session \<Rightarrow> (string \<times> string) option" where
  "auth_header s =
     (case getToken s of
        JStr t \<Rightarrow> if t \<noteq> [] then Some (''Authorization'', ''Bearer '' @ t) else None
      | _ \<Rightarrow> None)"

text \<open>The response interceptor on a failed request: a 401 removes the token
  and assigns \<open>window.location.href\<close>, a full page load; the 404 and 422
  branches only log. The error is passed on in every case.\<close>

definition api_on_error :: "http_error \<Rightarrow> session \<Rightarrow> session" where
  "api_on_error e s = (if status e = Some 401 then (logout s)\<lparr>location := ''/login?reason=expired''\<rparr> else s)"

text \<open>The logout button of the dashboard.\<close>

definition handleLogout :: "session \<Rightarrow> session" where
  "handleLogout s = (logout s)\<lparr>location := ''/login''\<rparr>"

subsection \<open>Routes\<close>

datatype page = LoginPage | RegisterPage | DashboardHome | ProfilePage | UploadPage | FormsPage
  | PaymentsPage | AdminPage

definition ascii_lower :: "char \<Rightarrow> char" where
  "ascii_lower c = (if 65 \<le> (of_char c :: nat) \<and> (of_char c :: nat) \<le> 90 then char_of (of_char c + 32 :: nat) else c)"

text \<open>The path the router matches: the URL up to its query, compared without
  case and without trailing slashes, as the router does by default.\<close>

definition route_path :: "string \<Rightarrow> string" where
  "route_path url =
     (let p = map ascii_lower (takeWhile (\<lambda>c. c \<noteq> CHR ''?'') url);
          q = rev (dropWhile (\<lambda>c. c = CHR ''/'') (rev p))
      in if q = [] then ''/'' else q)"

definition child_route :: "string \<Rightarrow> page option" where
  "child_route p =
     (if p = ''/profile'' then Some ProfilePage else if p = ''/upload'' then Some UploadPage
      else if p = ''/forms'' then Some FormsPage else if p = ''/payments'' then Some PaymentsPage
      else if p = ''/admin'' then Some AdminPage else None)"

text \<open>The page \<open>App\<close> shows at a URL: \<open>/login\<close> and \<open>/register\<close> are
  public; \<open>/\<close> and its children go through \<open>PrivateRoute\<close>, which
  redirects to \<open>/login\<close> without a token; any other path redirects to
  \<open>/\<close>.\<close>

definition route :: "session \<Rightarrow> string \<Rightarrow> page" where
  "route s url =
     (let p = route_path url
      in if p = ''/login'' then LoginPage
         else if p = ''/register'' then RegisterPage
         else if \<not> isAuthenticated s then LoginPage
         else (case child_route p of Some pg \<Rightarrow> pg | None \<Rightarrow> DashboardHome))"

subsection \<open>The login page\<close>

record lg_state =
  email :: string
  password :: string
  lg_loading :: bool
  lg_msg :: string
  lg_error :: jsval
  loginPending :: "string option"
  lg_session :: session

definition lg_init :: "session \<Rightarrow> lg_state" where
  "lg_init ss = \<lparr>email = [], password = [], lg_loading = False, lg_msg = [], lg_error = JStr [],
                 loginPending = None, lg_session = ss\<rparr>"

definition handleLogin_start :: "lg_state \<Rightarrow> lg_state" where
  "handleLogin_start s =
     s\<lparr>lg_loading := True, lg_error := JStr [], lg_msg := [],
       loginPending := Some (login_body (email s) (password s))\<rparr>"

text \<open>The answer to \<open>POST /auth/token\<close>. A failure passes the response
  interceptor first: after a 401 the page is loaded afresh at
  \<open>/login?reason=expired\<close>, so the error the \<open>catch\<close> sets is never seen. A
  \<open>null\<close> body makes \<open>res.data.access_token\<close> throw, caught as a failure
  without a response. None: a token whose string form the model does not fix.\<close>

definition handleLogin_done :: "http_error + obj option \<Rightarrow> lg_state \<Rightarrow> lg_state option" where
  "handleLogin_done r s =
     (case r of
        Inl e \<Rightarrow>
          (if status e = Some 401 then Some (lg_init (api_on_error e (lg_session s)))
           else Some (s\<lparr>lg_error := error_text e ''Login failed'', lg_loading := False, loginPending := None\<rparr>))
      | Inr None \<Rightarrow> Some (s\<lparr>lg_error := JStr ''Login failed'', lg_loading := False, loginPending := None\<rparr>)
      | Inr (Some d) \<Rightarrow>
          map_option (\<lambda>ss. s\<lparr>lg_session := ss\<lparr>location := ''/''\<rparr>, lg_msg := ''Login successful!'',
                             lg_loading := False, loginPending := None\<rparr>)
            (setToken (js_get d ''access_token'') (lg_session s)))"

datatype lg_event = TypeEmail string | TypePassword string | SubmitLogin
  | LoginResponse "http_error + obj option" | ClickRegisterLink

text \<open>Submitting needs both \<open>required\<close> fields (the \<open>type="email"\<close> format
  check of the browser is not modelled) and an enabled button, which implicit
  submission by Enter also needs.\<close>

fun lg_step :: "lg_state \<Rightarrow> lg_event \<Rightarrow> lg_state option" where
  "lg_step s (TypeEmail v) = Some (s\<lparr>email := v\<rparr>)"
| "lg_step s (TypePassword v) = Some (s\<lparr>password := v\<rparr>)"
| "lg_step s SubmitLogin =
     (if lg_loading s \<or> email s = [] \<or> password s = [] then None else Some (handleLogin_start s))"
| "lg_step s (LoginResponse r) = (if loginPending s = None then None else handleLogin_done r s)"
| "lg_step s ClickRegisterLink = Some (s\<lparr>lg_session := (lg_session s)\<lparr>location := ''/register''\<rparr>\<rparr>)"


subsection \<open>Lemmas on the encoding\<close>

lemma of_char_hex_char: "k < 16 \<Longrightarrow> (of_char (hex_char k) :: nat) = (if k < 10 then 48 + k else 55 + k)"
  by (simp add: hex_char_def of_char_of)

lemma hex_val_hex_char [simp]: "k < 16 \<Longrightarrow> hex_val (hex_char k) = Some k"
  by (simp add: hex_val_def of_char_hex_char Let_def)

lemma hex_char_not_special [simp]:
  "k < 16 \<Longrightarrow> hex_char k \<noteq> CHR ''&'' \<and> hex_char k \<noteq> CHR ''='' \<and> hex_char k \<noteq> CHR ''+'' \<and> hex_char k \<noteq> CHR ''%''"
  using of_char_hex_char [of k] by (auto simp del: of_char_hex_char split: if_splits)

lemma hex_char_not_delim [simp]: "k < 16 \<Longrightarrow> CHR ''&'' \<noteq> hex_char k \<and> CHR ''='' \<noteq> hex_char k"
  using hex_char_not_special [of k] by metis

lemma pct_decode_pct [simp]: "b < 256 \<Longrightarrow> pct_decode (pct b @ ys) = b # pct_decode ys"
  by (simp add: pct_def)

lemma uri_unreserved_ascii:
  "uri_unreserved c \<Longrightarrow> (of_char c :: nat) < 128 \<and> c \<noteq> CHR ''+'' \<and> c \<noteq> CHR ''%''
                       \<and> c \<noteq> CHR ''&'' \<and> c \<noteq> CHR ''=''"
  by (auto simp: uri_unreserved_def is_alnum_def is_digit_def)

lemma byte_lead_bounds: "n < (256::nat) \<Longrightarrow> 192 + n div 64 < 256 \<and> 128 + n mod 64 < 256"
  by auto

lemma byte_lead_range: "n < (256::nat) \<Longrightarrow> \<not> n < 128 \<Longrightarrow> n div 64 = 2 \<or> n div 64 = 3"
  by (auto simp: div_nat_eqI less_mult_imp_div_less)

lemma pct_decode_enc_char: "pct_decode (enc_char c @ ys) = utf8_bytes c @ pct_decode ys"
proof -
  have n: "(of_char c :: nat) < 256" using nat_of_char_less_256 [of c] by simp
  show ?thesis
  proof (cases "uri_unreserved c")
    case True
    then show ?thesis using uri_unreserved_ascii [OF True] by (simp add: enc_char_def utf8_bytes_def)
  next
    case False
    have "192 + of_char c div 64 < (256 :: nat) \<and> 128 + of_char c mod 64 < (256 :: nat)"
      using byte_lead_bounds [OF n] .
    with False n show ?thesis by (simp add: enc_char_def utf8_bytes_def Let_def)
  qed
qed

lemma utf8_decode_bytes: "utf8_decode (utf8_bytes c @ bs) = map_option (Cons c) (utf8_decode bs)"
proof -
  let ?n = "of_char c :: nat"
  have n: "?n < 256" using nat_of_char_less_256 [of c] by simp
  show ?thesis
  proof (cases "?n < 128")
    case True
    then show ?thesis by (simp add: utf8_bytes_def)
  next
    case False
    have dm: "?n div 64 * 64 + ?n mod 64 = ?n" by (rule div_mult_mod_eq)
    from byte_lead_range [OF n False] show ?thesis
    proof
      assume "?n div 64 = 2"
      with dm have eq: "128 + ?n mod 64 = ?n" by simp
      moreover have "?n mod 64 < 64" by simp
      ultimately have "?n < 192" by linarith
      with eq \<open>?n div 64 = 2\<close> False n show ?thesis by (simp add: utf8_bytes_def)
    next
      assume "?n div 64 = 3"
      with dm have "192 + ?n mod 64 = ?n" by simp
      with \<open>?n div 64 = 3\<close> False n show ?thesis by (simp add: utf8_bytes_def)
    qed
  qed
qed

lemma url_decode_encode: "url_decode (encodeURIComponent str @ ys) = map_option ((@) str) (url_decode ys)"
proof (induction str)
  case Nil
  then show ?case by (simp add: encodeURIComponent_def option.map_ident)
next
  case (Cons c cs)
  then show ?case
    by (simp add: url_decode_def encodeURIComponent_def pct_decode_enc_char utf8_decode_bytes option.map_comp comp_def)
qed

lemma set_pct: "b < 256 \<Longrightarrow> set (pct b) \<subseteq> {CHR ''%'', hex_char (b div 16), hex_char (b mod 16)}"
  by (simp add: pct_def)

lemma enc_char_no_delims: "CHR ''&'' \<notin> set (enc_char c) \<and> CHR ''='' \<notin> set (enc_char c)"
proof -
  have n: "(of_char c :: nat) < 256" using nat_of_char_less_256 [of c] by simp
  have hex: "b < 256 \<Longrightarrow> CHR ''&'' \<notin> set (pct b) \<and> CHR ''='' \<notin> set (pct b)" for b
  proof -
    assume "b < 256"
    then have "b div 16 < 16" by auto
    then show ?thesis by (auto simp: pct_def)
  qed
  show ?thesis
  proof (cases "uri_unreserved c")
    case True
    then show ?thesis using uri_unreserved_ascii [OF True] by (auto simp: enc_char_def)
  next
    case False
    then show ?thesis using hex [of "of_char c"] hex [of "192 + of_char c div 64"] hex [of "128 + of_char c mod 64"]
      n byte_lead_bounds [OF n] by (auto simp: enc_char_def Let_def)
  qed
qed

lemma encodeURIComponent_no_delims:
  "CHR ''&'' \<notin> set (encodeURIComponent str) \<and> CHR ''='' \<notin> set (encodeURIComponent str)"
  using enc_char_no_delims by (auto simp: encodeURIComponent_def)

lemma url_decode_encodeURIComponent [simp]: "url_decode (encodeURIComponent str) = Some str"
  using url_decode_encode [of str "[]"] by (simp add: url_decode_def)

lemma split_on_no_delim: "d \<notin> set xs \<Longrightarrow> split_on d xs = [xs]"
  by (induction xs) auto

lemma split_on_append_delim: "d \<notin> set xs \<Longrightarrow> split_on d (xs @ d # ys) = xs # split_on d ys"
  by (induction xs) (auto split: list.splits)

lemma takeWhile_delim: "d \<notin> set xs \<Longrightarrow> takeWhile (\<lambda>c. c \<noteq> d) (xs @ d # ys) = xs"
  by (induction xs) auto

lemma decode_pair_field:
  assumes "CHR ''='' \<notin> set name" "url_decode name = Some name"
  shows "decode_pair (name @ CHR ''='' # encodeURIComponent v) = Some (name, v)"
proof -
  have "takeWhile (\<lambda>c. c \<noteq> CHR ''='') (name @ CHR ''='' # encodeURIComponent v) = name"
    using assms(1) by (rule takeWhile_delim)
  with assms(2) show ?thesis by (simp add: decode_pair_def)
qed

lemma url_decode_ascii_names: "url_decode ''username'' = Some ''username''" "url_decode ''password'' = Some ''password''"
  by code_simp+

lemma isAuthenticated_iff: "isAuthenticated s \<longleftrightarrow> (\<exists>t. access_token s = Some t \<and> t \<noteq> [])"
  by (cases "access_token s") (auto simp: isAuthenticated_def getToken_def)

lemma route_unauthenticated: "\<not> isAuthenticated s \<Longrightarrow> route s url = LoginPage \<or> route s url = RegisterPage"
  by (simp add: route_def Let_def)

lemmas route_eval_defs = route_def route_path_def child_route_def ascii_lower_def

subsection \<open>Properties\<close>

text \<open>C19. The login body carries exactly the two fields: decoding it as a
  form gives back the e-mail and the password, whatever characters they hold
  (\<open>&\<close>, \<open>=\<close>, \<open>+\<close>, \<open>%\<close>, spaces, non-ASCII).\<close>

theorem login_body_roundtrip:
  "form_decode (login_body addr pwd) = Some [(''username'', addr), (''password'', pwd)]"
proof -
  let ?A = "''username'' @ CHR ''='' # encodeURIComponent addr"
  let ?B = "''password'' @ CHR ''='' # encodeURIComponent pwd"
  have body: "login_body addr pwd = ?A @ CHR ''&'' # ?B" by (simp add: login_body_def)
  have "CHR ''&'' \<notin> set ?A" "CHR ''&'' \<notin> set ?B" using encodeURIComponent_no_delims by simp_all
  then have "split_on CHR ''&'' (login_body addr pwd) = [?A, ?B]"
    by (simp add: body split_on_append_delim split_on_no_delim)
  moreover have "decode_pair ?A = Some (''username'', addr)" "decode_pair ?B = Some (''password'', pwd)"
    by (rule decode_pair_field; simp add: url_decode_ascii_names)+
  ultimately show ?thesis by (simp add: form_decode_def)
qed

text \<open>C18. A login answer whose body has no \<open>access_token\<close> stores the string
  \<open>undefined\<close>: the user counts as logged in, every request carries
  \<open>Bearer undefined\<close>, and the protected pages are shown.\<close>

theorem login_without_token_authenticates:
  assumes "loginPending s \<noteq> None" "d ''access_token'' = None"
  shows "\<exists>s'. lg_step s (LoginResponse (Inr (Some d))) = Some s'
            \<and> access_token (lg_session s') = Some ''undefined'' \<and> isAuthenticated (lg_session s')
            \<and> auth_header (lg_session s') = Some (''Authorization'', ''Bearer undefined'')
            \<and> route (lg_session s') ''/forms'' = FormsPage"
  using assms by (simp add: handleLogin_done_def setToken_def js_get_def isAuthenticated_def getToken_def
                            auth_header_def route_eval_defs)

text \<open>C20. A request answered with 401 logs the user out and sends the browser
  to \<open>/login?reason=expired\<close>; with the token gone every URL shows the login
  or the register page.\<close>

theorem unauthorized_logs_out:
  assumes "status e = Some 401"
  shows "access_token (api_on_error e s) = None
       \<and> route (api_on_error e s) (location (api_on_error e s)) = LoginPage
       \<and> (\<forall>url. route (api_on_error e s) url = LoginPage \<or> route (api_on_error e s) url = RegisterPage)"
proof -
  have na: "\<not> isAuthenticated (api_on_error e s)"
    using assms by (simp add: isAuthenticated_iff api_on_error_def logout_def)
  then show ?thesis
    using assms route_unauthenticated [OF na] by (simp add: api_on_error_def logout_def route_eval_defs)
qed

text \<open>C21. A login refused with 401 (the usual answer to a wrong password) is
  taken for an expired session: the page is loaded afresh at
  \<open>/login?reason=expired\<close> with empty fields and no error message, so the
  server's \<open>detail\<close> is never shown.\<close>

theorem login_401_hides_error:
  assumes "loginPending s \<noteq> None" "status e = Some 401"
  shows "\<exists>s'. lg_step s (LoginResponse (Inl e)) = Some s'
            \<and> lg_error s' = JStr [] \<and> \<not> lg_loading s' \<and> email s' = [] \<and> password s' = []
            \<and> location (lg_session s') = ''/login?reason=expired'' \<and> access_token (lg_session s') = None"
  using assms by (simp add: handleLogin_done_def lg_init_def api_on_error_def logout_def)

lemma login_error_shown:
  assumes "loginPending s \<noteq> None" "status e \<noteq> Some 401"
  shows "lg_step s (LoginResponse (Inl e)) = Some (s\<lparr>lg_error := error_text e ''Login failed'', lg_loading := False, loginPending := None\<rparr>)"
  using assms by (simp add: handleLogin_done_def)

end
