(* ===== verification/AdminPanel.thy ===== *)
theory AdminPanel
  imports TaxForms Session
begin

text \<open>
  The admin panel of \<open>src/frontend/src/pages/AdminPanel.jsx\<close>. Its state is
  the record \<open>ap_state\<close>: the active tab, the three lists (users,
  submissions, payments), \<open>loading\<close>, \<open>error\<close>, and the dialog
  (\<open>selectedItem\<close>, \<open>dialogOpen\<close>, \<open>dialogType\<close>). \<open>loadData\<close> runs at
  mount and again whenever the active tab changes (its \<open>useEffect\<close> depends
  on the callback, which depends on \<open>activeTab\<close>), and from the Refresh
  button. Each call loads the list of the tab it was created for; the calls in
  flight are \<open>loadsPending\<close>, the tab of each. The delete and save requests
  in flight are \<open>mutationsPending\<close>, each with the tab of the render whose
  handler sent it, since its \<open>loadData()\<close> is that render's closure; and
  \<open>requests\<close> records every request
  sent, with its path, in order. The list of users is None when the service
  answered with a non-array object, which \<open>data || []\<close> keeps and the table
  cannot render.
\<close>

datatype ap_request = ApGet string | ApDelete string | ApPut string obj

text \<open>A delete or save in flight, with the tab of the render whose closure
  sent it: its \<open>loadData\<close> is the one of that render.\<close>

datatype ap_mutation = DeleteReq string nat | SaveReq nat

record ap_state =
  ap_tab :: nat
  users :: "obj list option"
  submissions :: "obj list"
  payments :: "obj list"
  ap_loading :: bool
  ap_error :: string
  selectedItem :: "obj option"
  dialogOpen :: bool
  dialogType :: string
  loadsPending :: "nat list"
  mutationsPending :: "ap_mutation list"
  requests :: "ap_request list"

text \<open>The body of a list response: \<open>null\<close>, an array, or an object whose
  \<open>submissions\<close> (or \<open>payments\<close>) field is an array or missing.\<close>

datatype list_payload = DataNull | DataArray "obj list" | DataObject "obj list option"

definition tab_path :: "nat \<Rightarrow> string option" where
  "tab_path t =
     (if t = 0 then Some ''/admin/users'' else if t = 1 then Some ''/admin/submissions''
      else if t = 2 then Some ''/admin/payments'' else None)"

text \<open>\<open>loadData\<close> up to the await of the loader of the tab; the \<open>default\<close>
  branch sends nothing and runs the \<open>finally\<close> at once. \<open>loadData\<close> is a
  \<open>useCallback\<close> over \<open>activeTab\<close>: \<open>t\<close> is the tab of the render that
  created the closure called.\<close>

definition loadData_start :: "nat \<Rightarrow> ap_state \<Rightarrow> ap_state" where
  "loadData_start t s =
     (case tab_path t of
        Some p \<Rightarrow> s\<lparr>ap_loading := True, ap_error := [], loadsPending := loadsPending s @ [t],
                   requests := requests s @ [ApGet p]\<rparr>
      | None \<Rightarrow> s\<lparr>ap_loading := False, ap_error := []\<rparr>)"

text \<open>\<open>response.data.f || []\<close>: None when \<open>data\<close> is \<open>null\<close> and reading the
  field throws.\<close>

definition field_list :: "list_payload \<Rightarrow> obj list option" where
  "field_list d =
     (case d of DataNull \<Rightarrow> None | DataArray _ \<Rightarrow> Some [] | DataObject f \<Rightarrow> Some (case f of None \<Rightarrow> [] | Some xs \<Rightarrow> xs))"

text \<open>\<open>response.data || []\<close>; an object is kept as it is (None).\<close>

definition data_list :: "list_payload \<Rightarrow> obj list option" where
  "data_list d = (case d of DataNull \<Rightarrow> Some [] | DataArray xs \<Rightarrow> Some xs | DataObject _ \<Rightarrow> None)"

text \<open>A loader after its response: the list it sets, or the failure it
  rethrows after clearing the list.\<close>

definition loader_done :: "nat \<Rightarrow> http_error + list_payload \<Rightarrow> ap_state \<Rightarrow> ap_state \<times> bool" where
  "loader_done t r s =
     (case r of
        Inl _ \<Rightarrow>
          (if t = 0 then s\<lparr>users := Some []\<rparr> else if t = 1 then s\<lparr>submissions := []\<rparr> else s\<lparr>payments := []\<rparr>, False)
      | Inr d \<Rightarrow>
          (if t = 0 then (s\<lparr>users := data_list d\<rparr>, True)
           else (case field_list d of
                   None \<Rightarrow> (if t = 1 then s\<lparr>submissions := []\<rparr> else s\<lparr>payments := []\<rparr>, False)
                 | Some xs \<Rightarrow> (if t = 1 then s\<lparr>submissions := xs\<rparr> else s\<lparr>payments := xs\<rparr>, True))))"

text \<open>The rest of \<open>loadData\<close> for the \<open>j\<close>-th call in flight: the \<open>catch\<close>
  and the \<open>finally\<close>, which clears \<open>loading\<close> whatever other calls are still
  in flight.\<close>

definition loadData_done :: "nat \<Rightarrow> http_error + list_payload \<Rightarrow> ap_state \<Rightarrow> ap_state" where
  "loadData_done j r s =
     (let t = loadsPending s ! j;
          (s', ok) = loader_done t r s
      in s'\<lparr>ap_error := (if ok then ap_error s' else ''Failed to load data''), ap_loading := False,
            loadsPending := take j (loadsPending s) @ drop (Suc j) (loadsPending s)\<rparr>)"

definition handleView :: "obj \<Rightarrow> string \<Rightarrow> ap_state \<Rightarrow> ap_state" where
  "handleView item type s = s\<lparr>selectedItem := Some item, dialogType := ''view_'' @ type, dialogOpen := True\<rparr>"

definition handleEdit :: "obj \<Rightarrow> string \<Rightarrow> ap_state \<Rightarrow> ap_state" where
  "handleEdit item type s = s\<lparr>selectedItem := Some item, dialogType := ''edit_'' @ type, dialogOpen := True\<rparr>"

text \<open>\<open>handleDelete(id, type)\<close> after \<open>window.confirm\<close>; None when the id has
  no string form in the model.\<close>

definition handleDelete_start :: "jsval \<Rightarrow> string \<Rightarrow> bool \<Rightarrow> ap_state \<Rightarrow> ap_state option" where
  "handleDelete_start i type confirmed s =
     (if \<not> confirmed then Some s
      else map_option (\<lambda>str. s\<lparr>mutationsPending := mutationsPending s @ [DeleteReq type (ap_tab s)],
                               requests := requests s @ [ApDelete (''/admin/'' @ type @ ''/'' @ str)]\<rparr>)
             (js_to_string i))"

text \<open>After the delete: \<open>loadData()\<close> of the clicked render, not awaited,
  or the error.\<close>

definition handleDelete_done :: "string \<Rightarrow> nat \<Rightarrow> http_error + unit \<Rightarrow> ap_state \<Rightarrow> ap_state" where
  "handleDelete_done type t r s =
     (case r of Inr _ \<Rightarrow> loadData_start t s | Inl _ \<Rightarrow> s\<lparr>ap_error := ''Failed to delete '' @ type\<rparr>)"

definition strip_edit :: "string \<Rightarrow> string" where
  "strip_edit dt = (if take 5 dt = ''edit_'' then drop 5 dt else dt)"

text \<open>\<open>handleSave\<close>: an edit dialog sends \<open>PUT /admin/<type>/<id>\<close> with the
  edited item; \<open>dialogType.replace('edit_', '')\<close> removes the prefix.\<close>

definition handleSave_start :: "ap_state \<Rightarrow> ap_state option" where
  "handleSave_start s =
     (case selectedItem s of
        None \<Rightarrow> None
      | Some item \<Rightarrow>
          (if take 5 (dialogType s) = ''edit_''
           then map_option (\<lambda>str. s\<lparr>mutationsPending := mutationsPending s @ [SaveReq (ap_tab s)],
                                    requests := requests s @ [ApPut (''/admin/'' @ strip_edit (dialogType s) @ ''/'' @ str) item]\<rparr>)
                  (js_to_string (js_get item ''id''))
           else Some (loadData_start (ap_tab s) (s\<lparr>dialogOpen := False\<rparr>))))"

definition handleSave_done :: "nat \<Rightarrow> http_error + unit \<Rightarrow> ap_state \<Rightarrow> ap_state" where
  "handleSave_done t r s =
     (case r of Inr _ \<Rightarrow> loadData_start t (s\<lparr>dialogOpen := False\<rparr>) | Inl _ \<Rightarrow> s\<lparr>ap_error := ''Failed to save changes''\<rparr>)"

text \<open>A text field of the dialog: \<open>{...selectedItem, [key]: e.target.value}\<close>.\<close>

definition edit_field :: "string \<Rightarrow> string \<Rightarrow> ap_state \<Rightarrow> ap_state" where
  "edit_field key v s = s\<lparr>selectedItem := map_option (\<lambda>item. item(key \<mapsto> JStr v)) (selectedItem s)\<rparr>"

subsection \<open>Events\<close>

definition ap_init :: ap_state where
  "ap_init = loadData_start 0
     \<lparr>ap_tab = 0, users = Some [], submissions = [], payments = [], ap_loading = False, ap_error = [],
      selectedItem = None, dialogOpen = False, dialogType = [], loadsPending = [], mutationsPending = [],
      requests = []\<rparr>"

text \<open>The rows of the active tab and the type its buttons pass.\<close>

definition tab_rows :: "ap_state \<Rightarrow> obj list option" where
  "tab_rows s =
     (if ap_tab s = 0 then users s else if ap_tab s = 1 then Some (submissions s)
      else if ap_tab s = 2 then Some (payments s) else Some [])"

definition tab_type :: "nat \<Rightarrow> string" where
  "tab_type t = (if t = 0 then ''user'' else if t = 1 then ''submission'' else ''payment'')"

text \<open>The row of index \<open>i\<close> of the table, when the table is rendered.\<close>

definition shown_row :: "ap_state \<Rightarrow> nat \<Rightarrow> obj option" where
  "shown_row s i =
     (if ap_loading s then None
      else case tab_rows s of Some xs \<Rightarrow> if i < length xs then Some (xs ! i) else None | None \<Rightarrow> None)"

definition view_mode :: "ap_state \<Rightarrow> bool" where
  "view_mode s \<longleftrightarrow> take 5 (dialogType s) = ''view_''"

definition remove_nth :: "nat \<Rightarrow> 'a list \<Rightarrow> 'a list" where
  "remove_nth j xs = take j xs @ drop (Suc j) xs"

datatype ap_event =
    ApSelectTab nat | ApClickRefresh | ApLoadResponse nat "http_error + list_payload"
  | ApClickView nat | ApClickEdit nat | ApClickDelete nat bool | ApMutationResponse nat "http_error + unit"
  | ApEditField string string | ApClickSave | ApCloseDialog

text \<open>View is on every row, Edit on users and submissions, Delete on users; the
  Refresh button is disabled while \<open>loading\<close>; the dialog fields are
  editable in an edit dialog except \<open>id\<close>, and only edit dialogs have Save.\<close>

fun ap_step :: "ap_state \<Rightarrow> ap_event \<Rightarrow> ap_state option" where
  "ap_step s (ApSelectTab n) =
     (if n < 3 then Some (if n = ap_tab s then s else loadData_start n (s\<lparr>ap_tab := n\<rparr>)) else None)"
| "ap_step s ApClickRefresh = (if ap_loading s then None else Some (loadData_start (ap_tab s) s))"
| "ap_step s (ApLoadResponse j r) =
     (if j < length (loadsPending s) then Some (loadData_done j r s) else None)"
| "ap_step s (ApClickView i) =
     map_option (\<lambda>item. handleView item (tab_type (ap_tab s)) s) (shown_row s i)"
| "ap_step s (ApClickEdit i) =
     (if ap_tab s < 2 then map_option (\<lambda>item. handleEdit item (tab_type (ap_tab s)) s) (shown_row s i) else None)"
| "ap_step s (ApClickDelete i confirmed) =
     (if ap_tab s = 0
      then (case shown_row s i of None \<Rightarrow> None | Some u \<Rightarrow> handleDelete_start (js_get u ''id'') ''users'' confirmed s)
      else None)"
| "ap_step s (ApMutationResponse j r) =
     (if j < length (mutationsPending s)
      then (let s' = s\<lparr>mutationsPending := remove_nth j (mutationsPending s)\<rparr>
            in case mutationsPending s ! j of
                 DeleteReq type t \<Rightarrow> Some (handleDelete_done type t r s')
               | SaveReq t \<Rightarrow> Some (handleSave_done t r s'))
      else None)"
| "ap_step s (ApEditField key v) =
     (case selectedItem s of
        Some item \<Rightarrow> if dialogOpen s \<and> \<not> view_mode s \<and> key \<in> dom item \<and> key \<noteq> ''id''
                     then Some (edit_field key v s) else None
      | None \<Rightarrow> None)"
| "ap_step s ApClickSave =
     (if dialogOpen s \<and> selectedItem s \<noteq> None \<and> \<not> view_mode s then handleSave_start s else None)"
| "ap_step s ApCloseDialog = (if dialogOpen s then Some (s\<lparr>dialogOpen := False\<rparr>) else None)"

fun ap_run :: "ap_state \<Rightarrow> ap_event list \<Rightarrow> ap_state option" where
  "ap_run s [] = Some s"
| "ap_run s (e # es) = (case ap_step s e of None \<Rightarrow> None | Some s' \<Rightarrow> ap_run s' es)"

inductive ap_reachable :: "ap_state \<Rightarrow> bool" where
  init: "ap_reachable ap_init"
| step: "ap_reachable s \<Longrightarrow> ap_step s e = Some s' \<Longrightarrow> ap_reachable s'"

subsection \<open>The rendered panel and cells\<close>

datatype ap_panel = PanelSpinner | PanelEmpty | PanelTable "obj list" | PanelBroken

text \<open>The active tab panel: the spinner while \<open>loading\<close>, the empty notice
  for an empty list, else the table; \<open>users.map\<close> of a non-array throws.\<close>

definition ap_panel :: "ap_state \<Rightarrow> ap_panel" where
  "ap_panel s =
     (if ap_loading s then PanelSpinner
      else case tab_rows s of None \<Rightarrow> PanelBroken | Some [] \<Rightarrow> PanelEmpty | Some xs \<Rightarrow> PanelTable xs)"

text \<open>\<open>$${submission.tax_owed?.toFixed(2) || '0.00'}\<close> and the payment amount;
  None where the render throws.\<close>

definition money_cell :: "obj \<Rightarrow> string \<Rightarrow> string option" where
  "money_cell row f = map_option ((@) ''$'') (figure_text (js_get row f))"

definition payment_status :: "obj \<Rightarrow> jsval" where
  "payment_status p = js_or (js_get p ''status'') (JStr ''pending'')"

subsection \<open>The load invariant\<close>

text \<open>\<open>loading\<close> implies a load in flight, and every tab is one of the three.\<close>

definition ap_inv :: "ap_state \<Rightarrow> bool" where
  "ap_inv s \<longleftrightarrow> (ap_loading s \<longrightarrow> loadsPending s \<noteq> []) \<and> list_all (\<lambda>t. t < 3) (loadsPending s) \<and> ap_tab s < 3"

lemmas ap_handler_defs = loadData_start_def loadData_done_def handleView_def handleEdit_def
  handleDelete_start_def handleDelete_done_def handleSave_start_def handleSave_done_def edit_field_def

lemmas ap_ui_defs = handleView_def handleEdit_def handleDelete_start_def handleDelete_done_def
  handleSave_start_def handleSave_done_def edit_field_def

lemma tab_path_Some: "t < 3 \<Longrightarrow> \<exists>p. tab_path t = Some p"
  by (auto simp: tab_path_def)

lemma tab_path_lt: "tab_path t = Some p \<Longrightarrow> t < 3"
  by (auto simp: tab_path_def split: if_splits)

lemma loader_done_fields [simp]:
  "ap_tab (fst (loader_done t r s)) = ap_tab s" "loadsPending (fst (loader_done t r s)) = loadsPending s"
  by (auto simp: loader_done_def split: sum.splits option.splits)

lemma list_all_remove_nth: "list_all P xs \<Longrightarrow> list_all P (remove_nth j xs)"
  unfolding remove_nth_def list_all_iff by (auto dest: in_set_takeD in_set_dropD)

lemma ap_inv_loadData_start [simp]: "ap_inv s \<Longrightarrow> ap_inv (loadData_start t s)"
  by (auto simp: ap_inv_def loadData_start_def dest: tab_path_lt split: option.splits)

lemma ap_inv_upd [simp]:
  "ap_inv (s\<lparr>mutationsPending := m\<rparr>) = ap_inv s" "ap_inv (s\<lparr>dialogOpen := b\<rparr>) = ap_inv s"
  "ap_inv (s\<lparr>ap_error := x\<rparr>) = ap_inv s" "ap_inv (s\<lparr>requests := q\<rparr>) = ap_inv s"
  "ap_inv (s\<lparr>selectedItem := i\<rparr>) = ap_inv s" "ap_inv (s\<lparr>dialogType := t\<rparr>) = ap_inv s"
  by (simp_all add: ap_inv_def)

lemma ap_step_inv:
  assumes inv: "ap_inv s" and st: "ap_step s e = Some s'"
  shows "ap_inv s'"
proof (cases e)
  case (ApSelectTab n)
  have "ap_inv (s\<lparr>ap_tab := n\<rparr>)" if "n < 3" using inv that by (simp add: ap_inv_def)
  with ApSelectTab inv st show ?thesis by (auto split: if_splits)
next
  case (ApLoadResponse j r)
  with inv st show ?thesis
    using list_all_remove_nth [of "\<lambda>t. t < 3" "loadsPending s" j]
    by (auto simp: ap_inv_def loadData_done_def remove_nth_def Let_def split_def split: if_splits)
qed (use inv st in \<open>auto simp: ap_ui_defs Let_def split: if_splits option.splits sum.splits ap_mutation.splits\<close>)

lemma ap_reachable_inv: "ap_reachable s \<Longrightarrow> ap_inv s"
proof (induction rule: ap_reachable.induct)
  case init
  show ?case by (simp add: ap_init_def ap_inv_def loadData_start_def tab_path_def)
next
  case (step s e s')
  then show ?case by (blast intro: ap_step_inv)
qed

lemma ap_run_reachable: "ap_reachable s \<Longrightarrow> ap_run s es = Some s' \<Longrightarrow> ap_reachable s'"
proof (induction es arbitrary: s)
  case Nil
  then show ?case by simp
next
  case (Cons e es)
  then show ?case by (auto intro: ap_reachable.step split: option.splits)
qed

lemma loadData_done_pending [simp]:
  "loadsPending (loadData_done j r s) = remove_nth j (loadsPending s)" "\<not> ap_loading (loadData_done j r s)"
  by (simp_all add: loadData_done_def Let_def split_def remove_nth_def)

lemma ap_settle_inv:
  assumes "ap_inv s" "length rs = length (loadsPending s)"
  shows "\<exists>s'. ap_run s (map (ApLoadResponse 0) rs) = Some s' \<and> loadsPending s' = [] \<and> \<not> ap_loading s'"
  using assms
proof (induction rs arbitrary: s)
  case Nil
  then show ?case by (simp add: ap_inv_def)
next
  case (Cons r rs)
  let ?s1 = "loadData_done 0 r s"
  have "0 < length (loadsPending s)" by (metis Cons.prems(2) length_Cons zero_less_Suc)
  then have st: "ap_step s (ApLoadResponse 0 r) = Some ?s1" by simp
  have "ap_inv ?s1" using ap_step_inv [OF Cons.prems(1) st] .
  moreover have "length rs = length (loadsPending ?s1)"
    using Cons.prems(2) by (cases "loadsPending s") (simp_all add: remove_nth_def)
  ultimately show ?case using Cons.IH st by simp
qed

subsection \<open>Properties\<close>

text \<open>C22. A user's Edit and Delete buttons address different collections:
  Delete sends \<open>DELETE /admin/users/<id>\<close>, while Edit then Save sends
  \<open>PUT /admin/user/<id>\<close> with the item; at most one of the two can be the
  service's route.\<close>

theorem admin_user_paths_differ:
  assumes "ap_tab s = 0" "\<not> ap_loading s" "users s = Some us" "i < length us"
    and "js_to_string (js_get (us ! i) ''id'') = Some str"
  shows "(\<exists>s1. ap_step s (ApClickDelete i True) = Some s1 \<and> last (requests s1) = ApDelete (''/admin/users/'' @ str))
       \<and> (\<exists>s2 s3. ap_step s (ApClickEdit i) = Some s2 \<and> ap_step s2 ApClickSave = Some s3
                 \<and> last (requests s3) = ApPut (''/admin/user/'' @ str) (us ! i))"
  using assms
  by (simp add: shown_row_def tab_rows_def handleDelete_start_def handleEdit_def handleSave_start_def
                strip_edit_def view_mode_def tab_type_def)

text \<open>C23. \<open>loading\<close> does not track the loads in flight: after switching
  tab during the first load, the answer of that load clears \<open>loading\<close> while
  the load of the visible tab is still pending, and the tab shows its empty
  notice instead of the spinner.\<close>

theorem admin_loading_cleared_early:
  "\<exists>s. ap_reachable s \<and> \<not> ap_loading s \<and> ap_tab s \<in> set (loadsPending s) \<and> ap_panel s = PanelEmpty"
proof -
  define s0 where "s0 = loadData_done 0 (Inr (DataArray [])) (loadData_start 1 (ap_init\<lparr>ap_tab := 1\<rparr>))"
  have "ap_run ap_init [ApSelectTab 1, ApLoadResponse 0 (Inr (DataArray []))] = Some s0"
    by (simp add: s0_def ap_init_def loadData_start_def tab_path_def)
  then have "ap_reachable s0" by (rule ap_run_reachable [OF ap_reachable.init])
  moreover have "\<not> ap_loading s0 \<and> ap_tab s0 \<in> set (loadsPending s0) \<and> ap_panel s0 = PanelEmpty"
    by (simp add: s0_def ap_init_def loadData_start_def tab_path_def loadData_done_def loader_done_def
                  data_list_def remove_nth_def ap_panel_def tab_rows_def)
  ultimately show ?thesis by blast
qed

text \<open>C24. The loads always settle: from any reachable state, whatever the
  answers to the loads in flight, answering them leaves no load pending and
  \<open>loading\<close> cleared.\<close>

theorem admin_loads_settle:
  assumes "ap_reachable s" "length rs = length (loadsPending s)"
  shows "\<exists>s'. ap_run s (map (ApLoadResponse 0) rs) = Some s' \<and> loadsPending s' = [] \<and> \<not> ap_loading s'"
  using ap_settle_inv [OF ap_reachable_inv [OF assms(1)] assms(2)] .

text \<open>C27. A delete reloads the tab it was clicked on, not the visible one:
  \<open>handleDelete\<close> calls the \<open>loadData\<close> of the render that showed the
  Delete button. A user deleted on the Users tab whose answer arrives after the
  admin switched to another tab sends \<open>GET /admin/users\<close> again and sets
  \<open>loading\<close> over the other tab, which shows the spinner until a load answers.\<close>

theorem delete_reloads_click_tab:
  assumes "ap_tab s = 0" "\<not> ap_loading s" "users s = Some us" "i < length us"
    and "js_to_string (js_get (us ! i) ''id'') = Some str" "0 < n" "n < 3"
  shows "\<exists>s1 s2 s3. ap_step s (ApClickDelete i True) = Some s1 \<and> ap_step s1 (ApSelectTab n) = Some s2
            \<and> ap_step s2 (ApMutationResponse (length (mutationsPending s)) (Inr ())) = Some s3
            \<and> ap_tab s3 = n \<and> last (requests s3) = ApGet ''/admin/users'' \<and> last (loadsPending s3) = 0
            \<and> ap_loading s3 \<and> ap_panel s3 = PanelSpinner"
  using assms
  by (simp add: shown_row_def tab_rows_def handleDelete_start_def handleDelete_done_def loadData_start_def
                tab_path_def remove_nth_def ap_panel_def)

lemma admin_save_outcome:
  assumes "j < length (mutationsPending s)" "mutationsPending s ! j = SaveReq t"
  shows "ap_step s (ApMutationResponse j (Inl e))
           = Some (s\<lparr>mutationsPending := remove_nth j (mutationsPending s), ap_error := ''Failed to save changes''\<rparr>)
       \<and> ap_step s (ApMutationResponse j (Inr ()))
           = Some (loadData_start t (s\<lparr>mutationsPending := remove_nth j (mutationsPending s), dialogOpen := False\<rparr>))"
  using assms by (simp add: handleSave_done_def)

end
