(* ===== verification/Pages.thy ===== *)
theory Pages
  imports Session
begin

text \<open>
  The remaining pages: registration (\<open>src/frontend/src/pages/Register.jsx\<close>),
  the profile (\<open>src/frontend/src/pages/Profile.jsx\<close>) and the error
  boundary component (\<open>src/frontend/src/components/ErrorBoundary.jsx\<close>),
  each as a record of its state and a step function over its events. The
  \<open>setTimeout\<close> of the register page is an event of its own; a request that
  fails with 401 passes the response interceptor of \<open>Session\<close>. The error
  boundary is not mounted by \<open>App\<close>; its model is its own behaviour.
\<close>

subsection \<open>Register\<close>

definition reg_fields :: "string list" where
  "reg_fields = [''email'', ''password'', ''name'', ''ssn'', ''dob'', ''address'', ''state'']"

record rg_state =
  reg_form :: "string \<Rightarrow> string"
  rg_loading :: bool
  rg_msg :: string
  rg_error :: jsval
  registerPending :: "(string \<times> string) list option"
  redirectTimers :: nat
  rg_session :: session

definition rg_init :: "session \<Rightarrow> rg_state" where
  "rg_init ss = \<lparr>reg_form = (\<lambda>_. []), rg_loading = False, rg_msg = [], rg_error = JStr [],
                 registerPending = None, redirectTimers = 0, rg_session = ss\<rparr>"

text \<open>The JSON body: the \<open>form\<close> object with its seven keys.\<close>

definition reg_body :: "rg_state \<Rightarrow> (string \<times> string) list" where
  "reg_body s = map (\<lambda>k. (k, reg_form s k)) reg_fields"

definition rg_handleChange :: "string \<Rightarrow> string \<Rightarrow> rg_state \<Rightarrow> rg_state" where
  "rg_handleChange name v s = s\<lparr>reg_form := (reg_form s)(name := v)\<rparr>"

definition rg_submit_start :: "rg_state \<Rightarrow> rg_state" where
  "rg_submit_start s =
     s\<lparr>rg_loading := True, rg_error := JStr [], rg_msg := [], registerPending := Some (reg_body s)\<rparr>"

text \<open>After \<open>POST /auth/register\<close>: the message and the redirect timer, or the
  error; a 401 loads the login page afresh.\<close>

definition rg_submit_done :: "http_error + unit \<Rightarrow> rg_state \<Rightarrow> rg_state" where
  "rg_submit_done r s =
     (case r of
        Inr _ \<Rightarrow> s\<lparr>rg_msg := ''Registration successful! Please login.'', redirectTimers := Suc (redirectTimers s),
                   rg_loading := False, registerPending := None\<rparr>
      | Inl e \<Rightarrow>
          (if status e = Some 401 then rg_init (api_on_error e (rg_session s))
           else s\<lparr>rg_error := error_text e ''Registration failed'', rg_loading := False, registerPending := None\<rparr>))"

datatype rg_event = RgChange string string | RgSubmit | RgResponse "http_error + unit" | RgTimerFires

text \<open>The inputs are the seven named fields; email and password are
  \<open>required\<close>; the button is disabled while \<open>loading\<close>.\<close>

fun rg_step :: "rg_state \<Rightarrow> rg_event \<Rightarrow> rg_state option" where
  "rg_step s (RgChange name v) = (if name \<in> set reg_fields then Some (rg_handleChange name v s) else None)"
| "rg_step s RgSubmit =
     (if rg_loading s \<or> reg_form s ''email'' = [] \<or> reg_form s ''password'' = [] then None
      else Some (rg_submit_start s))"
| "rg_step s (RgResponse r) = (if registerPending s = None then None else Some (rg_submit_done r s))"
| "rg_step s RgTimerFires =
     (if redirectTimers s = 0 then None
      else Some (s\<lparr>redirectTimers := redirectTimers s - 1, rg_session := (rg_session s)\<lparr>location := ''/login''\<rparr>\<rparr>))"

fun rg_run :: "rg_state \<Rightarrow> rg_event list \<Rightarrow> rg_state option" where
  "rg_run s [] = Some s"
| "rg_run s (e # es) = (case rg_step s e of None \<Rightarrow> None | Some s' \<Rightarrow> rg_run s' es)"

subsection \<open>Profile\<close>

record pf_state =
  pf_profile :: "obj option"
  pf_loading :: bool
  pf_error :: string
  pf_pending :: bool
  pf_session :: session

definition pf_init :: "session \<Rightarrow> pf_state" where
  "pf_init ss = \<lparr>pf_profile = None, pf_loading = True, pf_error = [], pf_pending = True, pf_session = ss\<rparr>"

text \<open>The promise chain of the mount effect: \<open>setProfile(res.data)\<close> (None for
  \<open>null\<close>), or the error, then \<open>setLoading(false)\<close>.\<close>

definition pf_loaded :: "http_error + obj option \<Rightarrow> pf_state \<Rightarrow> pf_state" where
  "pf_loaded r s =
     (case r of
        Inr d \<Rightarrow> s\<lparr>pf_profile := d\<rparr>
      | Inl e \<Rightarrow> s\<lparr>pf_error := ''Failed to load profile'', pf_session := api_on_error e (pf_session s)\<rparr>)
     \<lparr>pf_loading := False, pf_pending := False\<rparr>"

datatype pf_view = PfSpinner | PfAlert string | PfCard jsval jsval jsval | PfBroken

text \<open>The render: spinner, error, or the three fields of \<open>profile\<close>, whose
  reading throws when it is \<open>null\<close>.\<close>

definition pf_view :: "pf_state \<Rightarrow> pf_view" where
  "pf_view s =
     (if pf_loading s then PfSpinner
      else if pf_error s \<noteq> [] then PfAlert (pf_error s)
      else case pf_profile s of
             None \<Rightarrow> PfBroken
           | Some p \<Rightarrow> PfCard (js_get p ''email'') (js_get p ''name'') (js_get p ''state''))"

subsection \<open>ErrorBoundary\<close>

text \<open>The listener is registered for \<open>error\<close> and \<open>unhandledrejection\<close> and
  receives the event object, not the error it reports.\<close>

datatype window_event = ErrorEvent string | RejectionEvent string

record eb_state =
  hasError :: bool
  eb_error :: "window_event option"

definition eb_init :: eb_state where
  "eb_init = \<lparr>hasError = False, eb_error = None\<rparr>"

definition handleError :: "window_event \<Rightarrow> eb_state \<Rightarrow> eb_state" where
  "handleError ev s = s\<lparr>hasError := True, eb_error := Some ev\<rparr>"

text \<open>\<open>error.toString()\<close> of the event: \<open>Object.prototype.toString\<close> with the
  event's tag.\<close>

fun event_to_string :: "window_event \<Rightarrow> string" where
  "event_to_string (ErrorEvent _) = ''[object ErrorEvent]''"
| "event_to_string (RejectionEvent _) = ''[object PromiseRejectionEvent]''"

text \<open>What the boundary renders: its children (None), or the alert with the
  details text when an error was seen.\<close>

definition eb_render :: "eb_state \<Rightarrow> string option option" where
  "eb_render s = (if hasError s then Some (map_option event_to_string (eb_error s)) else None)"

text \<open>Reload Page resets the state and reloads the document.\<close>

definition eb_reload :: "eb_state \<Rightarrow> eb_state" where
  "eb_reload s = eb_init"

subsection \<open>Lemmas\<close>

lemma register_success_redirects:
  assumes "registerPending s \<noteq> None"
  shows "\<exists>s'. rg_run s [RgResponse (Inr ()), RgTimerFires] = Some s'
            \<and> location (rg_session s') = ''/login'' \<and> route (rg_session s') (location (rg_session s')) = LoginPage
            \<and> rg_msg s' = ''Registration successful! Please login.''"
  using assms by (simp add: rg_submit_done_def route_eval_defs)

lemma register_body_fields: "map fst (reg_body s) = reg_fields"
  by (simp add: reg_body_def comp_def)

lemma profile_null_breaks_render: "pf_view (pf_loaded (Inr None) (pf_init ss)) = PfBroken"
  by (simp add: pf_loaded_def pf_view_def pf_init_def)

lemma profile_failure_alert:
  "pf_view (pf_loaded (Inl e) s) = PfAlert ''Failed to load profile''"
  by (simp add: pf_loaded_def pf_view_def)

lemma error_details_hide_message:
  "eb_render (handleError ev s) = Some (Some (event_to_string ev))
   \<and> event_to_string ev \<in> {''[object ErrorEvent]'', ''[object PromiseRejectionEvent]''}"
  by (cases ev) (simp_all add: eb_render_def handleError_def)


subsection \<open>Properties\<close>

text \<open>C38. A successful registration clears \<open>loading\<close> in the \<open>finally\<close>
  but leaves the form filled, and the redirect waits for its timer: the
  Register button is enabled again at once, so a second submit posts the
  account once more, and each success starts one more redirect timer.\<close>

theorem register_resubmit_before_redirect:
  assumes "registerPending s \<noteq> None" "reg_form s ''email'' \<noteq> []" "reg_form s ''password'' \<noteq> []"
  shows "\<exists>s1 s2. rg_step s (RgResponse (Inr ())) = Some s1 \<and> rg_step s1 RgSubmit = Some s2
            \<and> registerPending s2 = Some (reg_body s) \<and> redirectTimers s1 = Suc (redirectTimers s)
            \<and> location (rg_session s1) = location (rg_session s)"
  using assms by (simp add: rg_submit_done_def rg_submit_start_def reg_body_def)

end
