(* ===== verification/Views.thy ===== *)
theory Views
  imports PaymentPage DocumentUpload AdminPanel Pages
begin

text \<open>
  What the pages render, for the parts the handlers do not already cover:
  the texts, labels and cells of the payment history, the admin tables and
  dialog, the upload page, the login and register forms, and the navigation
  bar of \<open>components/Dashboard.jsx\<close>; and the request URL the axios client
  of \<open>utils/api.js\<close> builds. A text React renders from a value is
  \<open>react_text\<close>: strings and numbers print, \<open>null\<close>, \<open>undefined\<close> and
  booleans render nothing, an object is not a valid child and the render
  throws (None). Dates, printed with the locale of the browser, are not
  modelled.
\<close>

subsection \<open>Rendering values\<close>

definition react_text :: "jsval \<Rightarrow> string option" where
  "react_text v =
     (case v of JUndefined \<Rightarrow> Some [] | JNull \<Rightarrow> Some [] | JBool _ \<Rightarrow> Some [] | JObject \<Rightarrow> None
      | _ \<Rightarrow> js_to_string v)"

text \<open>\<open>String.prototype.toUpperCase\<close> on one character of code point below 256:
  the sharp s (223) becomes \<open>SS\<close>; the micro sign (181) and the y with
  diaeresis (255) map outside the 8-bit range (None).\<close>

definition upper_char :: "char \<Rightarrow> string option" where
  "upper_char c =
     (let n = (of_char c :: nat)
      in if 97 \<le> n \<and> n \<le> 122 then Some [char_of (n - 32)]
         else if n = 223 then Some ''SS''
         else if n = 181 \<or> n = 255 then None
         else if 224 \<le> n \<and> n \<le> 254 \<and> n \<noteq> 247 then Some [char_of (n - 32)]
         else Some [c])"

definition js_to_upper :: "string \<Rightarrow> string option" where
  "js_to_upper str = map_option concat (those (map upper_char str))"

text \<open>\<open>v?.toUpperCase() || 'N/A'\<close>: None where \<open>v\<close> is no string and the call
  throws.\<close>

definition upper_or_na :: "jsval \<Rightarrow> string option" where
  "upper_or_na v =
     (case v of JUndefined \<Rightarrow> Some ''N/A'' | JNull \<Rightarrow> Some ''N/A''
      | JStr str \<Rightarrow> map_option (\<lambda>u. if u = [] then ''N/A'' else u) (js_to_upper str)
      | _ \<Rightarrow> None)"

subsection \<open>The request URL\<close>

definition API_BASE_URL :: string where
  "API_BASE_URL = ''https://tax-auto-backend-production.up.railway.app/api''"

text \<open>axios joins \<open>baseURL\<close> and a relative URL with one slash.\<close>

definition request_url :: "string \<Rightarrow> string" where
  "request_url url =
     rev (dropWhile (\<lambda>c. c = CHR ''/'') (rev API_BASE_URL)) @ ''/'' @ dropWhile (\<lambda>c. c = CHR ''/'') url"

subsection \<open>Payment page\<close>

text \<open>The Pay button: its label and whether it is disabled.\<close>

definition pay_button :: "pp_state \<Rightarrow> string \<times> bool" where
  "pay_button s =
     (if pp_loading s then ''Processing...''
      else ''Pay $'' @ (if paymentData s ''amount'' = [] then ''0.00'' else paymentData s ''amount''),
      pp_loading s \<or> paymentData s ''amount'' = [])"

definition pp_message_text :: "pp_state \<Rightarrow> string option option" where
  "pp_message_text s =
     (case pp_message s of None \<Rightarrow> Some None
      | Some v \<Rightarrow> map_option (\<lambda>t. Some (''Payment successful! Transaction ID: '' @ t)) (js_to_string v))"

text \<open>One entry of the history: the primary line, the transaction id, the
  method and the status chip.\<close>

definition history_row :: "obj \<Rightarrow> (string \<times> string \<times> string \<times> string) option" where
  "history_row p =
     (case (figure_text (js_get p ''amount''), js_to_string (js_or (js_get p ''description'') (JStr ''Tax Payment'')),
            react_text (js_or (js_or (js_get p ''transaction_id'') (js_get p ''id'')) (JStr ''N/A'')),
            upper_or_na (js_get p ''payment_method''), react_text (payment_status p)) of
        (Some a, Some d, Some t, Some m, Some c) \<Rightarrow> Some (''$'' @ a @ '' - '' @ d, t, m, c)
      | _ \<Rightarrow> None)"

datatype history_view = HistoryEmpty | HistoryRows "(string \<times> string \<times> string \<times> string) list" | HistoryBroken

definition history_view :: "pp_state \<Rightarrow> history_view" where
  "history_view s =
     (if paymentHistory s = [] then HistoryEmpty
      else case those (map history_row (paymentHistory s)) of None \<Rightarrow> HistoryBroken | Some rs \<Rightarrow> HistoryRows rs)"

subsection \<open>Navigation bar\<close>

definition dashboard_links :: "(string \<times> string) list" where
  "dashboard_links = [(''Profile'', ''/profile''), (''Upload'', ''/upload''), (''Forms'', ''/forms''),
                      (''Payments'', ''/payments''), (''Admin'', ''/admin'')]"

subsection \<open>Admin panel\<close>

text \<open>\<open>TabPanel\<close>: its children when the active tab is its index; a hidden,
  empty panel otherwise.\<close>

definition TabPanel :: "nat \<Rightarrow> nat \<Rightarrow> 'a \<Rightarrow> 'a option" where
  "TabPanel value index children = (if value = index then Some children else None)"

definition admin_panels :: "ap_state \<Rightarrow> ap_panel option list" where
  "admin_panels s = map (\<lambda>i. TabPanel (ap_tab s) i (ap_panel s)) [0, 1, 2]"

text \<open>The column headings of the three tables.\<close>

definition user_columns :: "string list" where
  "user_columns = [''ID'', ''Email'', ''Name'', ''State'', ''Registration Date'', ''Status'', ''Actions'']"

definition submission_columns :: "string list" where
  "submission_columns = [''ID'', ''User Email'', ''Form Type'', ''Status'', ''Submission Date'', ''Tax Owed'', ''Actions'']"

definition payment_columns :: "string list" where
  "payment_columns = [''ID'', ''User Email'', ''Amount'', ''Payment Method'', ''Status'', ''Payment Date'',
                      ''Transaction ID'', ''Actions'']"

text \<open>The cells of a users row: id, email, name, state and the status chip.\<close>

definition user_cells :: "obj \<Rightarrow> string list option" where
  "user_cells u =
     those [react_text (js_get u ''id''), react_text (js_get u ''email''),
            react_text (js_or (js_get u ''name'') (JStr ''N/A'')), react_text (js_or (js_get u ''state'') (JStr ''N/A'')),
            Some (if js_truthy (js_get u ''is_active'') then ''Active'' else ''Inactive'')]"

text \<open>A submissions row: id, user e-mail, form type, status chip and tax owed.\<close>

definition submission_cells :: "obj \<Rightarrow> string list option" where
  "submission_cells x =
     those [react_text (js_get x ''id''), react_text (js_get x ''user_email''),
            react_text (js_or (js_get x ''form_type'') (JStr ''N/A'')), react_text (js_get x ''status''),
            money_cell x ''tax_owed'']"

text \<open>A payments row: id, user e-mail, amount, method, status chip and
  transaction id.\<close>

definition payment_cells :: "obj \<Rightarrow> string list option" where
  "payment_cells p =
     those [react_text (js_get p ''id''), react_text (js_get p ''user_email''), money_cell p ''amount'',
            upper_or_na (js_get p ''payment_method''), react_text (payment_status p),
            react_text (js_or (js_get p ''transaction_id'') (JStr ''N/A''))]"

text \<open>The tab labels, \<open>Users (${users.length})\<close> and the others.\<close>

definition tab_labels :: "ap_state \<Rightarrow> string list" where
  "tab_labels s =
     [''Users ('' @ (case users s of Some us \<Rightarrow> nat_digits (length us) | None \<Rightarrow> ''undefined'') @ '')'',
      ''Submissions ('' @ nat_digits (length (submissions s)) @ '')'',
      ''Payments ('' @ nat_digits (length (payments s)) @ '')'']"

text \<open>One field of the dialog, for a key of the selected item: its label
  \<open>key.replace(/_/g, ' ').toUpperCase()\<close>, its value \<open>value || ''\<close> and
  whether it is disabled.\<close>

definition dialog_field :: "ap_state \<Rightarrow> string \<Rightarrow> (string \<times> string \<times> bool) option" where
  "dialog_field s key =
     (case selectedItem s of
        None \<Rightarrow> None
      | Some item \<Rightarrow>
          (case item key of
             None \<Rightarrow> None
           | Some v \<Rightarrow>
               (case (js_to_upper (map (\<lambda>c. if c = CHR ''_'' then CHR '' '' else c) key),
                      js_to_string (js_or v (JStr []))) of
                  (Some l, Some t) \<Rightarrow> Some (l, t, view_mode s \<or> key = ''id'')
                | _ \<Rightarrow> None)))"

definition dialog_title :: "ap_state \<Rightarrow> string" where
  "dialog_title s = (if view_mode s then ''View Details'' else ''Edit Item'')"

subsection \<open>Upload page\<close>

text \<open>The \<open>accept\<close> option of the drop zone, as react-dropzone hands it to
  its attribute check: each MIME type followed by its extensions.\<close>

definition dropzone_accept :: "string list" where
  "dropzone_accept = [''application/pdf'', ''.pdf'', ''image/*'', ''.png'', ''.jpg'', ''.jpeg'']"

text \<open>Whether the drop zone accepts a file of that name and MIME type: an
  entry starting with a dot is a suffix of the lower-cased name, one ending
  in \<open>/*\<close> matches the base type, any other the whole type. Lower-casing the
  ASCII letters is enough here, since no other 8-bit letter lower-cases to
  an ASCII one.\<close>

definition dropzone_accepts :: "string \<Rightarrow> string \<Rightarrow> bool" where
  "dropzone_accepts name mime =
     (let n = map ascii_lower name; m = map ascii_lower mime; base = takeWhile (\<lambda>c. c \<noteq> CHR ''/'') m
      in list_ex (\<lambda>t. if take 1 t = ''.'' then length t \<le> length n \<and> drop (length n - length t) n = t
                      else if drop (length t - 2) t = ''/*'' then base = takeWhile (\<lambda>c. c \<noteq> CHR ''/'') t
                      else m = t) dropzone_accept)"

definition dropzone_text :: "bool \<Rightarrow> string" where
  "dropzone_text isDragActive =
     (if isDragActive then ''Drop files here'' else ''Drag & drop files here, or click to select'')"

text \<open>The selection block, shown for a non-empty selection: its heading and
  the Upload button's label and disabled flag.\<close>

definition selection_block :: "du_state \<Rightarrow> (string \<times> string \<times> bool) option" where
  "selection_block s =
     (if files s = [] then None
      else Some (''Selected Files ('' @ nat_digits (length (files s)) @ '')'',
                 if uploading s then ''Uploading...'' else ''Upload Files'', uploading s))"

definition docs_heading :: "du_state \<Rightarrow> string" where
  "docs_heading s = ''Your Uploaded Documents ('' @ nat_digits (length (du_docs s)) @ '')''"

text \<open>The primary line of an uploaded document, or the empty notice.\<close>

definition doc_primary :: "document \<Rightarrow> string option" where
  "doc_primary d = react_text (js_or (filename d) (JStr ''Unknown filename''))"

definition docs_list :: "du_state \<Rightarrow> string list option" where
  "docs_list s =
     (if du_docs s = [] then Some [''No documents uploaded yet.'']
      else those (map (\<lambda>d. case d of None \<Rightarrow> None | Some doc \<Rightarrow> doc_primary doc) (du_docs s)))"

text \<open>The two alerts of a page: the success message and the error, each shown
  when truthy.\<close>

definition alerts :: "jsval \<Rightarrow> jsval \<Rightarrow> (string option \<times> string option) option" where
  "alerts msg err =
     (case (react_text msg, react_text err) of
        (Some m, Some e) \<Rightarrow> Some (if js_truthy msg then Some m else None, if js_truthy err then Some e else None)
      | _ \<Rightarrow> None)"

subsection \<open>Login and register forms\<close>

text \<open>The submit button: a spinner (None) while \<open>loading\<close>, else its label.\<close>

definition login_button :: "lg_state \<Rightarrow> string option" where
  "login_button s = (if lg_loading s then None else Some ''Login'')"

definition register_button :: "rg_state \<Rightarrow> string option" where
  "register_button s = (if rg_loading s then None else Some ''Register'')"

subsection \<open>Lemmas\<close>

text \<open>The rendered controls agree with the step functions: the Pay button is
  disabled exactly when \<open>pp_step\<close> refuses the click, and the Upload button,
  when rendered, exactly when \<open>du_step\<close> refuses it.\<close>

lemma pay_button_disabled_iff: "snd (pay_button s) \<longleftrightarrow> pp_step s ClickPay = None"
  by (simp add: pay_button_def)

lemma upload_button_disabled_iff:
  "selection_block s = Some (h, l, d) \<Longrightarrow> d \<longleftrightarrow> du_step s ClickUpload = None"
  by (auto simp: selection_block_def split: if_splits)

text \<open>The label shows the raw input, while the charge sends its
  \<open>parseFloat\<close>.\<close>

lemma pay_label_raw_amount:
  "\<not> pp_loading s \<Longrightarrow> paymentData s ''amount'' = a \<Longrightarrow> a \<noteq> [] \<Longrightarrow> fst (pay_button s) = ''Pay $'' @ a"
  by (simp add: pay_button_def)

lemma history_row_defaults: "history_row Map.empty = Some (''$0.00 - Tax Payment'', ''N/A'', ''N/A'', ''pending'')"
  by (simp add: history_row_def figure_text_def opt_fixed2_def react_text_def upper_or_na_def payment_status_def)

lemma message_without_id:
  "pp_message s = Some JUndefined \<Longrightarrow> pp_message_text s = Some (Some ''Payment successful! Transaction ID: undefined'')"
  by (simp add: pp_message_text_def)

lemma object_cell_breaks_row: "js_get u ''id'' = JObject \<Longrightarrow> user_cells u = None"
  by (simp add: user_cells_def react_text_def)

lemma users_tab_label_undefined: "users s = None \<Longrightarrow> hd (tab_labels s) = ''Users (undefined)''"
  by (simp add: tab_labels_def)

text \<open>A field holding 0 shows an empty text box (\<open>value || ''\<close>).\<close>

lemma dialog_zero_blank:
  assumes "selectedItem s = Some item" "item key = Some (JNum 0)"
    and "js_to_upper (map (\<lambda>c. if c = CHR ''_'' then CHR '' '' else c) key) = Some l"
  shows "dialog_field s key = Some (l, [], view_mode s \<or> key = ''id'')"
  using assms by (simp add: dialog_field_def)

lemma request_url_calculate: "request_url ''/tax/calculate'' = API_BASE_URL @ ''/tax/calculate''"
  by (simp add: request_url_def API_BASE_URL_def)

text \<open>The drop zone takes any image type, GIF included, and any file whose
  name ends in an accepted extension whatever its type, while the page lists
  PDF, PNG, JPG and JPEG only.\<close>

lemma dropzone_accepts_examples:
  "dropzone_accepts ''photo.gif'' ''image/gif''" "dropzone_accepts ''SCAN.PDF'' []"
  "dropzone_accepts ''notes.txt.pdf'' ''text/plain''" "\<not> dropzone_accepts ''notes.txt'' ''text/plain''"
  by code_simp+

lemma admin_panels_active: "ap_tab s < 3 \<Longrightarrow> admin_panels s ! ap_tab s = Some (ap_panel s)
    \<and> (\<forall>i<3. i \<noteq> ap_tab s \<longrightarrow> admin_panels s ! i = None)"
  by (auto simp: admin_panels_def TabPanel_def less_Suc_eq numeral_3_eq_3)

text \<open>The navigation bar offers every protected page, the admin panel
  included, to any authenticated session, with no check of a role; without a
  token every link leads to the login page.\<close>

theorem dashboard_links_route:
  "(isAuthenticated ss \<longrightarrow> map (\<lambda>l. route ss (snd l)) dashboard_links
                            = [ProfilePage, UploadPage, FormsPage, PaymentsPage, AdminPage])
   \<and> (\<not> isAuthenticated ss \<longrightarrow> (\<forall>l\<in>set dashboard_links. route ss (snd l) = LoginPage))"
  by (simp add: dashboard_links_def route_eval_defs)

end
