(* ===== verification/App.thy ===== *)
theory App
  imports Views
begin

text \<open>
  The pages inside the application: the session of \<open>Session\<close> and the page
  on screen, one of the four stateful pages. A page event is the page's step;
  every failed request it answers has first passed the response interceptor of
  \<open>utils/api.js\<close>, which is applied to the session for each failure the event
  carries (\<open>event_failures\<close>; the template requests of the forms page are
  caught one by one, after the interceptor). What the application shows is the
  route of the session's URL.
\<close>

datatype app_page = OnTax tf_state | OnPay pp_state | OnUpload du_state | OnAdmin ap_state

datatype app_event = TaxEvent tf_event | PayEvent pp_event | UploadEvent du_event | AdminEvent ap_event

record app_state =
  app_session :: session
  app_page :: app_page

definition inl_list :: "'e + 'a \<Rightarrow> 'e list" where
  "inl_list r = (case r of Inl e \<Rightarrow> [e] | Inr _ \<Rightarrow> [])"

fun tf_failures :: "tf_event \<Rightarrow> http_error list" where
  "tf_failures (DocumentsLoaded r) = inl_list r"
| "tf_failures (TemplatesLoaded f) = concat (map (\<lambda>ft. inl_list (f ft)) [F1040, ScheduleA, ScheduleC, W9])"
| "tf_failures (CalculateResponse r) = inl_list r"
| "tf_failures (SaveResponse r) = inl_list r"
| "tf_failures _ = []"

fun pp_failures :: "pp_event \<Rightarrow> http_error list" where
  "pp_failures (HistoryLoaded r) = inl_list r"
| "pp_failures (TaxCalcLoaded r) = inl_list r"
| "pp_failures (ChargeResponse r) = inl_list r"
| "pp_failures _ = []"

fun du_failures :: "du_event \<Rightarrow> http_error list" where
  "du_failures (MountDocsLoaded r) = inl_list r"
| "du_failures (UploadResponse _ r) = inl_list r"
| "du_failures (ReloadDocsLoaded r) = inl_list r"
| "du_failures (DownloadResponse _ r) = inl_list r"
| "du_failures _ = []"

fun ap_failures :: "ap_event \<Rightarrow> http_error list" where
  "ap_failures (ApLoadResponse _ r) = inl_list r"
| "ap_failures (ApMutationResponse _ r) = inl_list r"
| "ap_failures _ = []"

fun event_failures :: "app_event \<Rightarrow> http_error list" where
  "event_failures (TaxEvent e) = tf_failures e"
| "event_failures (PayEvent e) = pp_failures e"
| "event_failures (UploadEvent e) = du_failures e"
| "event_failures (AdminEvent e) = ap_failures e"

text \<open>The page's step, with the interceptor applied to the session.\<close>

fun page_step :: "app_page \<Rightarrow> app_event \<Rightarrow> app_page option" where
  "page_step (OnTax s) (TaxEvent e) = map_option OnTax (tf_step s e)"
| "page_step (OnPay s) (PayEvent e) = map_option OnPay (pp_step s e)"
| "page_step (OnUpload s) (UploadEvent e) = map_option OnUpload (du_step s e)"
| "page_step (OnAdmin s) (AdminEvent e) = map_option OnAdmin (ap_step s e)"
| "page_step _ _ = None"

definition app_step :: "app_state \<Rightarrow> app_event \<Rightarrow> app_state option" where
  "app_step st ev =
     map_option (\<lambda>pg. \<lparr>app_session = fold api_on_error (event_failures ev) (app_session st), app_page = pg\<rparr>)
       (page_step (app_page st) ev)"

definition app_view :: "app_state \<Rightarrow> page" where
  "app_view st = route (app_session st) (location (app_session st))"

subsection \<open>Lemmas\<close>

lemma fold_api_on_error_no_401:
  "(\<forall>e\<in>set es. status e \<noteq> Some 401) \<Longrightarrow> fold api_on_error es ss = ss"
  by (induction es arbitrary: ss) (simp_all add: api_on_error_def)

lemma fold_api_on_error_401:
  "\<exists>e\<in>set es. status e = Some 401 \<Longrightarrow>
     access_token (fold api_on_error es ss) = None \<and> location (fold api_on_error es ss) = ''/login?reason=expired''"
proof (induction es arbitrary: ss)
  case Nil
  then show ?case by simp
next
  case (Cons e es)
  show ?case
  proof (cases "\<exists>e\<in>set es. status e = Some 401")
    case True
    then show ?thesis using Cons.IH by simp
  next
    case False
    with Cons.prems have e: "status e = Some 401" by auto
    have eq: "fold api_on_error (e # es) ss = api_on_error e ss"
      using False fold_api_on_error_no_401 [of es "api_on_error e ss"] by simp
    show ?thesis unfolding eq using e by (simp add: api_on_error_def logout_def)
  qed
qed

lemma app_step_session:
  "app_step st ev = Some st' \<Longrightarrow> app_session st' = fold api_on_error (event_failures ev) (app_session st)"
  by (auto simp: app_step_def)

text \<open>On every page, an answer that carries a 401 logs the user out and
  puts the login page on screen, whatever the page did with the error: the
  error text of the page is never seen.\<close>

theorem app_401_shows_login:
  assumes "app_step st ev = Some st'" "\<exists>e\<in>set (event_failures ev). status e = Some 401"
  shows "app_view st' = LoginPage \<and> access_token (app_session st') = None"
proof -
  have s: "access_token (app_session st') = None" "location (app_session st') = ''/login?reason=expired''"
    using fold_api_on_error_401 [OF assms(2)] app_step_session [OF assms(1)] by simp_all
  have "\<not> isAuthenticated (app_session st')" using s(1) by (simp add: isAuthenticated_iff)
  with s show ?thesis by (simp add: app_view_def route_eval_defs)
qed

lemma app_step_other_failures:
  "app_step st ev = Some st' \<Longrightarrow> \<forall>e\<in>set (event_failures ev). status e \<noteq> Some 401 \<Longrightarrow> app_session st' = app_session st"
  using app_step_session fold_api_on_error_no_401 by metis

end
