(* ===== verification/Spec2Isabelle.thy ===== *)
theory Spec2Isabelle
  imports App
begin

text \<open>
  \<^bold>\<open>A verification model of the tax-filing front end.\<close>
  The program (\<open>src/frontend/src\<close>) is a React client of a tax service. A
  user uploads tax documents whose fields the service extracts, auto-fills four
  tax forms from them, edits and saves the forms, asks the service to compute
  the tax, and pays the balance on a separate screen. This development models
  the parts that compute: the mapping engine, the form reconciliation page, the
  number conversions both pages depend on, and the payment page. The theories:

  \<^item> \<open>Prelude\<close>: the JavaScript values the code reads (\<open>jsval\<close>), plain
    objects as maps (\<open>obj\<close>, spread is \<open>++\<close>), ToBoolean (\<open>js_truthy\<close>),
    \<open>||\<close> (\<open>js_or\<close>), \<open>===\<close>, \<open>typeof\<close>, and the error text of a failed
    axios call (\<open>error_text\<close>: \<open>err.response?.data?.detail || fallback\<close>).
  \<^item> \<open>JsNumber\<close>: \<open>parseFloat\<close> as the prefix parser of the standard
    (\<open>str_decimal_prefix\<close>), \<open>parseInt\<close>, ToNumber of a string, the
    comparison \<open>v > 0\<close>, \<open>Math.abs\<close> and \<open>Number.prototype.toFixed(2)\<close>. Its
    lemmas: parseFloat reads back what toFixed(2) writes, toFixed(2) rounds
    within half a cent, and a numeric input always becomes a number.
  \<^item> \<open>FormMapping\<close>: \<open>utils/formMapping.js\<close>, i.e. \<open>map1040Data\<close>,
    \<open>mapScheduleAData\<close>, \<open>mapScheduleCData\<close>, \<open>mapW9Data\<close>,
    \<open>mapDocumentToForm\<close>, \<open>validateFormData\<close> and
    \<open>getDocumentTypeDisplayName\<close>, one definition each. Its lemmas give
    the exact record each document type maps to and show which mapped fields
    are in the schema the page renders (\<open>form_fields\<close>).
  \<^item> \<open>TaxForms\<close>: \<open>pages/TaxForms.jsx\<close>. The React state is the record
    \<open>tf_state\<close>. Each handler is a function on it, split at its \<open>await\<close>
    into a \<open>_start\<close> part (which sets \<open>loading\<close> and records the pending
    request) and a \<open>_done\<close> part (which takes the response as
    \<open>http_error + _\<close>): \<open>loadUserDocuments\<close>, \<open>loadFormTemplates\<close>,
    \<open>autoFillFromDocuments\<close> (with \<open>fill_doc\<close>/\<open>fill_docs\<close> for its
    \<open>forEach\<close>), \<open>calculateTax\<close>, \<open>saveForm\<close>, \<open>handleFormChange\<close>.
    \<open>tf_step\<close> dispatches a UI event or a response to them. It returns None
    when the page cannot produce the event: a disabled button, a hidden tab, or
    a response with no request pending. \<open>tf_reachable\<close> holds the states
    reachable from mount. Its lemmas: auto-fill refines the last-document-wins
    merge (\<open>last_wins\<close>) and is idempotent; the in-flight invariant
    \<open>tf_inv\<close>; form well-formedness under every step; and the error paths.
  \<^item> \<open>PaymentPage\<close>: \<open>pages/PaymentPage.jsx\<close> in the same style
    (\<open>pp_state\<close>, \<open>pp_step\<close>, \<open>pp_reachable\<close>): \<open>loadPaymentHistory\<close>,
    \<open>loadTaxCalculation\<close> with its pre-fill of the amount,
    \<open>handleInputChange\<close> with the \<open>maxLength\<close> of the inputs, and
    \<open>processPayment\<close> with the charge body (\<open>charge_payload_of\<close>). Its
    lemmas: no second charge can be sent while one is in flight; the input
    bounds; the amount charged after the pre-fill; and the effects of the
    charge response and of a failed calculation.
  \<^item> \<open>DocumentUpload\<close>: \<open>pages/DocumentUpload.jsx\<close> (\<open>du_state\<close>,
    \<open>du_step\<close>, \<open>du_reachable\<close>). It covers \<open>onDrop\<close>, \<open>removeFile\<close>,
    \<open>uploadFiles\<close> and \<open>loadUserDocuments\<close>. \<open>uploadFiles\<close> is modelled
    as one slot per file sent: \<open>uploadResponse\<close> fills a slot, and
    \<open>Promise.all\<close> resolves when every slot is filled and rejects at the
    first failure. \<open>handleDownload\<close> and the document chip and captions
    are modelled too. Its lemmas: the uploading invariant; results are
    appended in selection order whatever order the answers arrive in; files
    dropped during an upload are lost; a file removed during an upload is
    still uploaded; the selection after a failed upload; the render failure on
    a \<open>null\<close> upload result; and that every upload ends (below).
  \<^item> \<open>Session\<close>: \<open>utils/auth.js\<close>, \<open>utils/api.js\<close>, \<open>App.js\<close> and
    \<open>pages/Login.jsx\<close>. The token store is the record \<open>session\<close>, the
    optional string under \<open>access_token\<close> and the current URL. Writes go
    through \<open>String(token)\<close> (\<open>js_to_string\<close>). The request interceptor is
    \<open>auth_header\<close> and the response interceptor \<open>api_on_error\<close> (a 401
    logs out and reloads \<open>/login?reason=expired\<close>). The routes with
    \<open>PrivateRoute\<close> and the router's path matching are \<open>route\<close>. The login
    page is \<open>lg_state\<close>/\<open>lg_step\<close>, and its body is built with
    \<open>encodeURIComponent\<close>, written out on 8-bit characters as UTF-8. The
    lemmas include a round trip through a form decoder, which follows the URL
    standard since the server is not in the repository.
  \<^item> \<open>AdminPanel\<close>: \<open>pages/AdminPanel.jsx\<close> (\<open>ap_state\<close>, \<open>ap_step\<close>,
    \<open>ap_reachable\<close>). It covers \<open>loadData\<close> and its three loaders, with
    the calls in flight tagged by tab, and view, edit, delete (the
    \<open>window.confirm\<close> answer is part of the event) and save. A delete or
    save in flight keeps the tab of the render that sent it, whose
    \<open>loadData\<close> closure it calls. It also covers the dialog fields, the tab
    panel and the money cells. Its lemmas: the load invariant; the paths of
    Edit and Delete; a delete answered after a tab switch reloads the tab it
    was clicked on; a reachable state where \<open>loading\<close> is cleared while the
    visible tab's load is pending; and liveness, that answering the loads in
    flight always settles the page.
  \<^item> \<open>Pages\<close>: \<open>pages/Register.jsx\<close> (with the redirect timer as an event),
    \<open>pages/Profile.jsx\<close> and \<open>components/ErrorBoundary.jsx\<close>. Its
    property: a successful registration re-enables the button before the
    redirect, so the account can be posted again.
  \<^item> \<open>Views\<close>: what the pages render beyond their handlers:
    \<^item> React's text of a value (\<open>react_text\<close>) and \<open>toUpperCase\<close> on
      8-bit characters;
    \<^item> the Pay button and the payment history;
    \<^item> the admin table headings, rows, tab labels and dialog fields;
    \<^item> the upload page's blocks;
    \<^item> the form buttons and alerts;
    \<^item> the navigation bar of \<open>components/Dashboard.jsx\<close>;
    \<^item> the request URL of the axios client.
    Its lemmas show that the rendered disabled flags agree with the step
    functions, and that the navigation bar offers the admin panel to every
    authenticated user.
  \<^item> \<open>App\<close>: the composition. The session and the page on screen form one
    state. A page event runs the page's step and applies the response
    interceptor to each failed request the event answers. The theorem
    \<open>app_401_shows_login\<close> shows that a 401 on any page ends on the login
    page with no token.
  \<^item> This theory: example documents, the spec's W-2 scenario run through
    \<open>tf_run\<close>, and the properties that relate the two pages. The payment page
    computes its summary from empty forms, not from the live forms. Both pages
    label a refund as a refund, but the payment page pre-fills the tax as an
    amount to pay. Then the witnesses, which apply each theorem with
    hypotheses to concrete states.

  \<^bold>\<open>Modelling choices.\<close>
  \<^item> JavaScript numbers are exact reals plus \<open>NaN\<close> and the infinities. The
    rounding of doubles is not modelled, so \<open>toFixed2\<close> rounds the exact
    value half up at the cent (\<open>cents_of\<close>), and its digits are correct
    below \<open>1e21\<close>, where real toFixed switches to exponent notation.
  \<^item> White space is ASCII only. An object value (\<open>JObject\<close>) is read as
    NaN by ToNumber, which is what \<open>[object Object]\<close> gives.
  \<^item> A React state update is applied when its handler runs, and a
    response is a separate event. The model fixes no order of responses:
    any interleaving the event sequence expresses is a run of \<open>tf_step\<close>.
  \<^item> Strings are HOL strings of 8-bit characters, i.e. the code points 0
    to 255; \<open>encodeURIComponent\<close> encodes the ones above 127 as two UTF-8
    bytes, as the language does.
  \<^item> \<open>String(v)\<close> (\<open>js_to_string\<close>) is exact for strings, the constants and
    integral numbers below \<open>10^21\<close>. It is None for other numbers and for
    objects, whose digits or \<open>toString\<close> the model does not keep. A step
    that would need it is then outside the model (None). No theorem relies
    on such a step.
  \<^item> The answers of the service are values of the event: any answer, at
    any time while its request is pending. That is the environment the
    theorems quantify over.

  \<^bold>\<open>Not modelled.\<close>
  \<^item> On the upload page, the DOM work of a download (object URL, anchor
    click): a saved download is recorded by its file name. The accept check
    of the drop zone is \<open>Views.dropzone_accepts\<close>. The drop event of
    \<open>du_step\<close> carries the files react-dropzone has accepted.
  \<^item> The browser's \<open>type="email"\<close> format check on the login form; the
    model requires only the \<open>required\<close> fields.
  \<^item> The date cells (\<open>toLocaleDateString\<close>) of the tables and lists, which
    depend on the locale.
  \<^item> Rendering in general, except the figures, labels, chips, captions and
    panels named above, and the render failures, which are None or a
    \<open>Broken\<close> value.
  \<^item> The axios configuration: base URL and 30 s timeout; a timed-out request
    is a failure without a response.
  Every part of \<open>src/\<close> has a theory; none is left out entirely.

  \<^bold>\<open>Termination and liveness.\<close> The code has no loop that can run
  forever: its loops are \<open>forEach\<close>/\<open>map\<close> over finite lists and the
  digit loops of the number conversions, all structural or measured
  recursions, so every definition is total and no fuel is needed. What can
  fail to finish is waiting for a response.
  \<open>DocumentUpload.upload_batch_settles\<close> shows that an upload ends. The
  measure \<open>upload_work\<close> counts the answers still awaited: one per file of
  the batch not yet answered, and one for the reload while \<open>uploading\<close> is
  set, so a batch of n files takes at most n + 1 answers. Every answer lowers
  it, and from a reachable state an answer is accepted exactly while
  \<open>uploading\<close> is set, so a run of answers that cannot be extended ends with
  the page ready for the next upload. \<open>AdminPanel.admin_loads_settle\<close> shows
  that, whatever the answers, the admin page returns to a settled state.
\<close>

section \<open>Example documents\<close>

definition w2_data :: obj where
  "w2_data = Map.empty(''document_type'' \<mapsto> JStr ''W-2'', ''wages'' \<mapsto> JNum 50000,
                       ''federal_withholding'' \<mapsto> JNum 5000, ''state_withholding'' \<mapsto> JNum 1000)"

definition nec_data :: obj where
  "nec_data = Map.empty(''document_type'' \<mapsto> JStr ''1099-NEC'',
                        ''nonemployee_compensation'' \<mapsto> JNum 12000, ''federal_withholding'' \<mapsto> JNum 800)"

definition w9_data :: obj where
  "w9_data = Map.empty(''document_type'' \<mapsto> JStr ''W-9'', ''name'' \<mapsto> JStr ''Ada Lovelace'',
                       ''ssn'' \<mapsto> JStr ''123-45-6789'')"

definition mk_doc :: "nat \<Rightarrow> obj \<Rightarrow> document" where
  "mk_doc n d = \<lparr>doc_id = JNum (real n), filename = JStr ''scan.pdf'',
                 document_type = js_get d ''document_type'', extracted_data = Some d,
                 upload_date = JUndefined\<rparr>"

definition file1 :: upload_file where
  "file1 = \<lparr>file_name = ''w2.pdf'', file_size = 1048576\<rparr>"

definition file2 :: upload_file where
  "file2 = \<lparr>file_name = ''nec.png'', file_size = 524288\<rparr>"

definition server_error :: http_error where
  "server_error = \<lparr>status = Some 500, detail = JNull\<rparr>"

definition logged_in :: session where
  "logged_in = \<lparr>access_token = Some ''eyJhbGciOi'', location = ''/forms''\<rparr>"

definition unauthorized :: http_error where
  "unauthorized = \<lparr>status = Some 401, detail = JStr ''Incorrect email or password''\<rparr>"

definition login_sent :: lg_state where
  "login_sent = handleLogin_start ((lg_init \<lparr>access_token = None, location = ''/login''\<rparr>)
                  \<lparr>email := ''ada@example.com'', password := ''s3cret&=''\<rparr>)"

definition admin_user :: obj where
  "admin_user = Map.empty(''id'' \<mapsto> JNum 7, ''email'' \<mapsto> JStr ''ada@example.com'', ''is_active'' \<mapsto> JBool True)"

lemmas example_defs = admin_user_def w2_data_def nec_data_def w9_data_def mk_doc_def file1_def file2_def server_error_def
  logged_in_def unauthorized_def login_sent_def

section \<open>Scenarios\<close>

text \<open>The scenario of the spec: one W-2 (wages 50000, federal withholding
  5000, state withholding 1000) loaded after the templates, then Auto-Fill: Form
  1040 holds exactly the three W-2 fields and Schedule A's state and local taxes
  are 1000. Unlike the spec's \<open>business_income: 0\<close>, the field is absent.\<close>

theorem w2_autofill_scenario:
  "\<exists>s. tf_run tf_init [TemplatesLoaded (\<lambda>_. Inr None),
                        DocumentsLoaded (Inr (Some [Some (mk_doc 1 w2_data)])), ClickAutoFill] = Some s
     \<and> forms s F1040 = Map.empty(''wages'' \<mapsto> JNum 50000, ''federal_withholding'' \<mapsto> JNum 5000,
                                 ''state_withholding'' \<mapsto> JNum 1000)
     \<and> forms s ScheduleA ''state_local_taxes'' = Some (JNum 1000)
     \<and> forms s F1040 ''business_income'' = None"
  by (simp add: tf_init_def tf_handler_defs template_forms_def fill_doc_def mapping_defs
                example_defs field_or_zero_def empty_forms_def)

section \<open>Summary reconciliation across the two screens\<close>

text \<open>C5. The payment screen does not compute its summary from the forms: its
  request to \<open>/tax/calculate\<close> equals the one the forms screen sends only when
  Form 1040, Schedule A and Schedule C are all empty.\<close>

theorem payment_request_ignores_forms:
  "calcPending (calculateTax_start s) = Some payment_calc_request
   \<longleftrightarrow> forms s F1040 = Map.empty \<and> forms s ScheduleA = Map.empty \<and> forms s ScheduleC = Map.empty"
  by (auto simp: calculateTax_start_def payment_calc_request_def calc_request_of_def)

text \<open>C6. For a calculation that reports a refund and a positive amount
  (\<open>amount_due\<close>, or else \<open>tax_owed\<close>), the forms screen labels the panel a
  refund and the payment screen labels it an expected refund, yet pre-fills that
  amount as a payment.\<close>

theorem screens_disagree_on_refund:
  assumes "taxCalcPending s" "js_gt (js_get d ''refund_amount'') 0"
    and "amount_due_of d = JNum t" "0 < t"
  shows "refund_label d = ''Refund'' \<and> pp_refund_label d = ''Refund Expected''
       \<and> (\<exists>s'. pp_step s (TaxCalcLoaded (Inr (Some d))) = Some s' \<and> paymentData s' ''amount'' = toFixed2 t)"
  using assms prefill_amount [OF assms(1,3,4)] by (simp add: refund_label_def pp_refund_label_def)

text \<open>Each figure of the result card shows \<open>0.00\<close> for a missing or
  \<open>null\<close> field and the amount with two decimals for a number, but a field
  the service sends as a string or a boolean makes the render throw.\<close>

lemma summary_figure_text:
  "figure_text JUndefined = Some ''0.00'' \<and> figure_text JNull = Some ''0.00''
   \<and> figure_text (JNum r) = Some (toFixed2 r)
   \<and> figure_text (JStr str) = None \<and> figure_text (JBool b) = None"
  by (simp add: figure_text_def opt_fixed2_def toFixed2_ne)

section \<open>Witnesses\<close>

theorem map_w2_to_1040_witness:
  "js_get w2_data ''document_type'' = JStr ''W-2''
   \<and> mapDocumentToForm (Some w2_data) ''1040'' ''wages'' = Some (JNum 50000)"
  using FormMapping.map_w2_to_1040 [of w2_data] by (simp add: w2_data_def field_or_zero_def)

theorem map_nec_to_schedule_c_witness:
  "js_get nec_data ''document_type'' = JStr ''1099-NEC''
   \<and> mapDocumentToForm (Some nec_data) ''schedule_c'' ''gross_receipts'' = Some (JNum 12000)"
  using FormMapping.map_nec_to_schedule_c [of nec_data] by (simp add: nec_data_def field_or_zero_def)

theorem mapping_in_schema_witness:
  "js_get w9_data ''document_type'' = JStr ''W-9''
   \<and> \<not> in_schema W9 (mapDocumentToForm (Some w9_data) ''w9'')"
  using FormMapping.mapping_in_schema [of None w9_data] by (simp add: w9_data_def)

theorem fill_docs_last_document_wins_witness:
  "fill_docs empty_forms (map Some ([mk_doc 1 w2_data] @ [mk_doc 2 nec_data]))
     = Some (\<lambda>ft. foldl (++) (empty_forms ft) (partials ft [mk_doc 1 w2_data, mk_doc 2 nec_data]))
   \<and> mapDocumentToForm (extracted_data (mk_doc 2 nec_data)) (form_key F1040) ''federal_withholding''
       = Some (JNum 800)
   \<and> foldl (++) Map.empty (partials F1040 [mk_doc 1 w2_data, mk_doc 2 nec_data]) ''federal_withholding''
       = Some (JNum 800)"
proof -
  have run: "fill_docs empty_forms (map Some ([mk_doc 1 w2_data] @ [mk_doc 2 nec_data]))
     = Some (\<lambda>ft. foldl (++) (empty_forms ft) (partials ft [mk_doc 1 w2_data, mk_doc 2 nec_data]))"
    using fill_docs_map_Some [of empty_forms "[mk_doc 1 w2_data, mk_doc 2 nec_data]"] by simp
  have sup: "mapDocumentToForm (extracted_data (mk_doc 2 nec_data)) (form_key F1040) ''federal_withholding''
       = Some (JNum 800)"
    by (simp add: example_defs map1040Data_def field_or_zero_def)
  have "(\<lambda>ft. foldl (++) (empty_forms ft) (partials ft [mk_doc 1 w2_data, mk_doc 2 nec_data]))
          F1040 ''federal_withholding'' = Some (JNum 800)"
    using TaxForms.fill_docs_last_document_wins [OF run sup] .
  with run sup show ?thesis by (simp add: empty_forms_def)
qed

theorem fill_docs_keeps_untouched_witness:
  "fill_docs (empty_forms(F1040 := Map.empty(''interest_income'' \<mapsto> JNum 250))) [Some (mk_doc 1 w2_data)]
     = Some (fill_doc (empty_forms(F1040 := Map.empty(''interest_income'' \<mapsto> JNum 250))) (mk_doc 1 w2_data))
   \<and> fill_doc (empty_forms(F1040 := Map.empty(''interest_income'' \<mapsto> JNum 250))) (mk_doc 1 w2_data)
       F1040 ''interest_income'' = Some (JNum 250)"
proof -
  let ?fs = "empty_forms(F1040 := Map.empty(''interest_income'' \<mapsto> JNum 250))"
  have run: "fill_docs ?fs [Some (mk_doc 1 w2_data)] = Some (fill_doc ?fs (mk_doc 1 w2_data))"
    by simp
  have none: "\<forall>d. Some d \<in> set [Some (mk_doc 1 w2_data)] \<longrightarrow>
      mapDocumentToForm (extracted_data d) (form_key F1040) ''interest_income'' = None"
    by (simp add: example_defs map1040Data_def)
  have "fill_doc ?fs (mk_doc 1 w2_data) F1040 ''interest_income'' = ?fs F1040 ''interest_income''"
    using TaxForms.fill_docs_keeps_untouched [OF run, of F1040 "''interest_income''"] none by blast
  with run show ?thesis by simp
qed

theorem schedule_a_overwritten_witness:
  "fill_docs (empty_forms(ScheduleA := Map.empty(''medical_expenses'' \<mapsto> JNum 900)))
      (map Some ([mk_doc 1 w2_data] @ [mk_doc 2 w9_data]))
     = Some (fill_doc (fill_doc (empty_forms(ScheduleA := Map.empty(''medical_expenses'' \<mapsto> JNum 900)))
                                (mk_doc 1 w2_data)) (mk_doc 2 w9_data))
   \<and> extracted_data (mk_doc 2 w9_data) = Some w9_data
   \<and> fill_doc (fill_doc (empty_forms(ScheduleA := Map.empty(''medical_expenses'' \<mapsto> JNum 900)))
                        (mk_doc 1 w2_data)) (mk_doc 2 w9_data) ScheduleA ''medical_expenses'' = Some (JNum 0)
   \<and> fill_doc (fill_doc (empty_forms(ScheduleA := Map.empty(''medical_expenses'' \<mapsto> JNum 900)))
                        (mk_doc 1 w2_data)) (mk_doc 2 w9_data) ScheduleA ''state_local_taxes'' = Some (JNum 0)"
proof -
  let ?fs = "empty_forms(ScheduleA := Map.empty(''medical_expenses'' \<mapsto> JNum 900))"
  let ?r = "fill_doc (fill_doc ?fs (mk_doc 1 w2_data)) (mk_doc 2 w9_data)"
  have run: "fill_docs ?fs (map Some ([mk_doc 1 w2_data] @ [mk_doc 2 w9_data])) = Some ?r"
    by simp
  have ed: "extracted_data (mk_doc 2 w9_data) = Some w9_data"
    by (simp add: mk_doc_def)
  have "?r ScheduleA ''medical_expenses'' = Some (JNum 0)
      \<and> ?r ScheduleA ''state_local_taxes'' = Some (field_or_zero w9_data ''state_withholding'')"
    by (rule TaxForms.schedule_a_overwritten [OF run ed])
  moreover have "field_or_zero w9_data ''state_withholding'' = JNum 0"
    by (simp add: w9_data_def field_or_zero_def)
  ultimately show ?thesis using run ed by simp
qed

theorem tf_reachable_loading_witness:
  "tf_reachable (calculateTax_start tf_init) \<and> loading (calculateTax_start tf_init)
   \<and> calcPending (calculateTax_start tf_init) \<noteq> None \<and> savePending (calculateTax_start tf_init) = None"
proof -
  have r: "tf_reachable (calculateTax_start tf_init)"
    by (rule tf_reachable.step [OF tf_reachable.init, of ClickCalculate]) (simp add: tf_init_def)
  show ?thesis
    using TaxForms.tf_reachable_loading [OF r] r by (simp add: calculateTax_start_def)
qed

theorem tf_step_forms_wf_witness:
  "forms_wf (forms tf_init) \<and> event_wf (EditField F1040 ''wages'' ''100'')
   \<and> tf_step tf_init (EditField F1040 ''wages'' ''100'')
       = Some (handleFormChange F1040 ''wages'' (field_input F1040 ''100'') tf_init)
   \<and> forms_wf (forms (handleFormChange F1040 ''wages'' (field_input F1040 ''100'') tf_init))"
proof -
  have wf: "forms_wf (forms tf_init)"
    by (simp add: forms_wf_def obj_defined_def tf_init_def empty_forms_def)
  have st: "tf_step tf_init (EditField F1040 ''wages'' ''100'')
       = Some (handleFormChange F1040 ''wages'' (field_input F1040 ''100'') tf_init)"
    by (simp add: tf_init_def)
  show ?thesis
    using TaxForms.tf_step_forms_wf [OF wf _ st] wf st by simp
qed

theorem calculate_failure_isolated_witness:
  "calcPending (calculateTax_start tf_init) \<noteq> None
   \<and> (\<exists>s'. tf_step (calculateTax_start tf_init) (CalculateResponse (Inl \<lparr>status = Some 500, detail = JUndefined\<rparr>)) = Some s'
        \<and> forms s' = empty_forms \<and> calculation s' = None
        \<and> error s' = JStr ''Tax calculation failed'')"
proof -
  have p: "calcPending (calculateTax_start tf_init) \<noteq> None"
    by (simp add: calculateTax_start_def)
  show ?thesis
    using TaxForms.calculate_failure_isolated [OF p, of "\<lparr>status = Some 500, detail = JUndefined\<rparr>"] p
    by (auto simp: calculateTax_start_def tf_init_def error_text_def)
qed

theorem templates_overwrite_forms_witness:
  "tf_step tf_init (EditField F1040 ''wages'' ''100'')
     = Some (handleFormChange F1040 ''wages'' (JNum 100) tf_init)
   \<and> forms (handleFormChange F1040 ''wages'' (JNum 100) tf_init) F1040 ''wages'' = Some (JNum 100)
   \<and> (\<exists>s'. tf_step (handleFormChange F1040 ''wages'' (JNum 100) tf_init) (TemplatesLoaded (\<lambda>_. Inr None)) = Some s'
        \<and> forms s' F1040 ''wages'' = None)"
proof -
  let ?s1 = "handleFormChange F1040 ''wages'' (JNum 100) tf_init"
  have in100: "field_input F1040 ''100'' = JNum 100"
    by (simp add: field_input_def number_input_def parse_eval_defs)
  have e: "tf_step tf_init (EditField F1040 ''wages'' ''100'') = Some ?s1"
    using in100 by (simp add: tf_init_def)
  have p: "templatesPending ?s1"
    by (simp add: handleFormChange_def tf_init_def)
  show ?thesis
    using TaxForms.templates_overwrite_forms [OF p, of "\<lambda>_. Inr None"] e
    by (auto simp: handleFormChange_def template_forms_def tf_init_def)
qed

theorem toFixed2_rounding_bound_witness:
  "parseFloat (toFixed2 1234.565) = JNum 1234.57 \<and> \<bar>1234.57 - 1234.565\<bar> \<le> (1 / 200 :: real)"
proof -
  have p: "parseFloat (toFixed2 1234.565) = JNum 1234.57"
    by (simp add: toFixed2_def parseFloat_fixed2_abs cents_of_def)
  show ?thesis using JsNumber.toFixed2_rounding_bound [OF p] p by simp
qed

theorem number_input_is_number_witness:
  "\<not> js_truthy (parseFloat ''abc'') \<and> number_input ''abc'' = JNum 0"
proof -
  have "\<not> js_truthy (parseFloat ''abc'')"
    by (simp add: parse_eval_defs)
  then show ?thesis using JsNumber.number_input_is_number [of "''abc''"] by simp
qed

theorem screens_disagree_on_refund_witness:
  "taxCalcPending pp_init
   \<and> js_gt (js_get (Map.empty(''refund_amount'' \<mapsto> JNum 200, ''amount_due'' \<mapsto> JNum 0,
                              ''tax_owed'' \<mapsto> JNum 500)) ''refund_amount'') 0
   \<and> amount_due_of (Map.empty(''refund_amount'' \<mapsto> JNum 200, ''amount_due'' \<mapsto> JNum 0,
                              ''tax_owed'' \<mapsto> JNum 500)) = JNum 500
   \<and> (\<exists>s'. pp_step pp_init (TaxCalcLoaded (Inr (Some (Map.empty(''refund_amount'' \<mapsto> JNum 200,
              ''amount_due'' \<mapsto> JNum 0, ''tax_owed'' \<mapsto> JNum 500))))) = Some s'
         \<and> paymentData s' ''amount'' = toFixed2 500)"
proof -
  let ?d = "Map.empty(''refund_amount'' \<mapsto> JNum 200, ''amount_due'' \<mapsto> JNum 0, ''tax_owed'' \<mapsto> JNum 500)"
  have p: "taxCalcPending pp_init" by (simp add: pp_init_def)
  have r: "js_gt (js_get ?d ''refund_amount'') 0" by (simp add: js_gt_def)
  have a: "amount_due_of ?d = JNum 500" by (simp add: amount_due_of_def)
  show ?thesis
    using screens_disagree_on_refund [OF p r a] p r a by simp
qed

text \<open>A payment session used by the witnesses below: the user types an amount
  of 10 and presses Pay.\<close>

lemma pp_amount_typed:
  "pp_step pp_init (InputChange ''amount'' ''10'') = Some (handleInputChange ''amount'' ''10'' pp_init)"
  by (simp add: pp_init_def max_length_def)

lemma pp_charge_sent:
  "pp_step (handleInputChange ''amount'' ''10'' pp_init) ClickPay
     = Some (processPayment_start (handleInputChange ''amount'' ''10'' pp_init))"
  by (simp add: pp_init_def handleInputChange_def empty_payment_data_def)

lemma pp_charge_sent_reachable:
  "pp_reachable (processPayment_start (handleInputChange ''amount'' ''10'' pp_init))"
  by (rule pp_reachable.step [OF pp_reachable.step [OF pp_reachable.init pp_amount_typed] pp_charge_sent])

theorem no_double_charge_witness:
  "pp_reachable (processPayment_start (handleInputChange ''amount'' ''10'' pp_init))
   \<and> chargePending (processPayment_start (handleInputChange ''amount'' ''10'' pp_init)) \<noteq> None
   \<and> pp_step (processPayment_start (handleInputChange ''amount'' ''10'' pp_init)) ClickPay = None"
  using PaymentPage.no_double_charge [OF pp_charge_sent_reachable] pp_charge_sent_reachable
  by (simp add: processPayment_start_def)

theorem payment_input_bounds_witness:
  "pp_reachable (handleInputChange ''cvv'' ''123'' pp_init)
   \<and> length (paymentData (handleInputChange ''cvv'' ''123'' pp_init) ''cvv'') \<le> 4"
proof -
  have r: "pp_reachable (handleInputChange ''cvv'' ''123'' pp_init)"
    by (rule pp_reachable.step [OF pp_reachable.init, of "InputChange ''cvv'' ''123''"])
       (simp add: pp_init_def max_length_def)
  show ?thesis using PaymentPage.payment_input_bounds [OF r] r by simp
qed

theorem charge_response_effects_witness:
  "chargePending (processPayment_start (handleInputChange ''amount'' ''10'' pp_init)) \<noteq> None
   \<and> (\<exists>s'. pp_step (processPayment_start (handleInputChange ''amount'' ''10'' pp_init))
              (ChargeResponse (Inl \<lparr>status = Some 402, detail = JStr ''Card declined''\<rparr>)) = Some s'
         \<and> paymentData s' ''amount'' = ''10'' \<and> pp_error s' = JStr ''Card declined'')"
proof -
  let ?s = "processPayment_start (handleInputChange ''amount'' ''10'' pp_init)"
  have p: "chargePending ?s \<noteq> None" by (simp add: processPayment_start_def)
  show ?thesis
    using PaymentPage.charge_response_effects [OF p, of "\<lparr>status = Some 402, detail = JStr ''Card declined''\<rparr>"] p
    by (auto simp: processPayment_start_def handleInputChange_def error_text_def)
qed

theorem tax_calculation_failure_default_witness:
  "taxCalcPending pp_init
   \<and> (\<exists>s'. pp_step pp_init (TaxCalcLoaded (Inl \<lparr>status = None, detail = JUndefined\<rparr>)) = Some s'
         \<and> taxCalculation s' = Some default_calculation \<and> pp_error s' = JStr [])"
proof -
  have p: "taxCalcPending pp_init" by (simp add: pp_init_def)
  show ?thesis
    using PaymentPage.tax_calculation_failure_default [OF p, of "\<lparr>status = None, detail = JUndefined\<rparr>"] p
    by (auto simp: pp_init_def)
qed

theorem prefill_then_pay_amount_witness:
  "taxCalcPending pp_init \<and> \<not> pp_loading pp_init
   \<and> amount_due_of (Map.empty(''amount_due'' \<mapsto> JNum 1234.565)) = JNum 1234.565
   \<and> (\<exists>s1 s2 p. pp_step pp_init (TaxCalcLoaded (Inr (Some (Map.empty(''amount_due'' \<mapsto> JNum 1234.565))))) = Some s1
        \<and> pp_step s1 ClickPay = Some s2 \<and> chargePending s2 = Some p \<and> amount p = JNum 1234.57)"
proof -
  have p: "taxCalcPending pp_init" and l: "\<not> pp_loading pp_init" by (simp_all add: pp_init_def)
  have a: "amount_due_of (Map.empty(''amount_due'' \<mapsto> JNum 1234.565)) = JNum 1234.565"
    by (simp add: amount_due_of_def)
  have c: "real (cents_of 1234.565) / 100 = 1234.57"
    by (simp add: cents_of_def)
  show ?thesis
    using PaymentPage.prefill_then_pay_amount [OF p l a] p l a c by simp
qed

lemmas du_witness_defs = du_init_def onDrop_def uploadFiles_start_def uploadResponse_def
  uploadFiles_all_done_def uploadFiles_failed_def slots_done_def slot_results_def

lemma one_file_upload_reachable: "du_reachable (uploadFiles_start (onDrop [file1] du_init))"
proof -
  have r1: "du_reachable (onDrop [file1] du_init)"
    by (rule du_reachable.step [OF du_reachable.init, where e = "DropFiles [file1]"]) simp
  show ?thesis
    by (rule du_reachable.step [OF r1, where e = ClickUpload]) (simp add: du_witness_defs)
qed

theorem du_reachable_uploading_witness:
  "du_reachable (uploadFiles_start (onDrop [file1] du_init))
   \<and> uploading (uploadFiles_start (onDrop [file1] du_init))
   \<and> du_step (uploadFiles_start (onDrop [file1] du_init)) ClickUpload = None"
  using DocumentUpload.du_reachable_uploading [OF one_file_upload_reachable] one_file_upload_reachable
  by (simp add: du_witness_defs)

theorem upload_results_in_file_order_witness:
  "\<exists>s'. du_run (uploadFiles_start (onDrop [file1, file2] du_init))
              [UploadResponse 1 (Inr (Some (mk_doc 1 nec_data))), UploadResponse 0 (Inr (Some (mk_doc 0 w2_data)))]
            = Some s'
        \<and> du_docs s' = [Some (mk_doc 0 w2_data), Some (mk_doc 1 nec_data)] \<and> files s' = []"
proof -
  have "set [1, 0 :: nat] = {..<length [file1, file2]}" by auto
  then show ?thesis
    using DocumentUpload.upload_results_in_file_order
            [of "uploadFiles_start (onDrop [file1, file2] du_init)" "[file1, file2]" "[1, 0]"
                "\<lambda>i. Some (mk_doc i (if i = 0 then w2_data else nec_data))"]
    by (simp add: du_witness_defs)
qed


theorem upload_batch_settles_witness:
  "upload_work (uploadFiles_start (onDrop [file1] du_init)) = 2
   \<and> (\<exists>s'. du_run (uploadFiles_start (onDrop [file1] du_init))
              [UploadResponse 0 (Inr (Some (mk_doc 0 w2_data))), ReloadDocsLoaded (Inr None)] = Some s'
         \<and> \<not> uploading s' \<and> \<not> (\<exists>e s''. upload_answer e \<and> du_step s' e = Some s''))"
proof -
  obtain s' where r: "du_run (uploadFiles_start (onDrop [file1] du_init))
                        [UploadResponse 0 (Inr (Some (mk_doc 0 w2_data))), ReloadDocsLoaded (Inr None)] = Some s'"
    and u: "\<not> uploading s'"
    by (simp add: du_witness_defs du_loadUserDocuments_done_def)
  have a: "list_all upload_answer [UploadResponse 0 (Inr (Some (mk_doc 0 w2_data))), ReloadDocsLoaded (Inr None)]"
    by (simp add: upload_answer_def)
  have "upload_work (uploadFiles_start (onDrop [file1] du_init)) = 2"
    by (simp add: upload_work_def open_slots_def du_witness_defs)
  then show ?thesis
    using DocumentUpload.upload_batch_settles [OF one_file_upload_reachable r a] r u by blast
qed

theorem upload_success_drops_new_selection_witness:
  "uploadPending (onDrop [file2] (uploadFiles_start (onDrop [file1] du_init))) = Some [(file1, None)]
   \<and> file2 \<in> set (files (onDrop [file2] (uploadFiles_start (onDrop [file1] du_init))))
   \<and> files (uploadResponse 0 (Inr (Some (mk_doc 0 w2_data))) (onDrop [file2] (uploadFiles_start (onDrop [file1] du_init)))) = []"
  using DocumentUpload.upload_success_drops_new_selection
          [of "uploadFiles_start (onDrop [file1] du_init)" "[(file1, None)]" "[file2]"
              "onDrop [file2] (uploadFiles_start (onDrop [file1] du_init))" 0 "Some (mk_doc 0 w2_data)"
              "uploadResponse 0 (Inr (Some (mk_doc 0 w2_data))) (onDrop [file2] (uploadFiles_start (onDrop [file1] du_init)))"]
  by (simp add: du_witness_defs)

theorem upload_failure_keeps_selection_witness:
  "du_error (uploadResponse 1 (Inl server_error) (uploadResponse 0 (Inr (Some (mk_doc 0 w2_data)))
              (uploadFiles_start (onDrop [file1, file2] du_init)))) = JStr ''Upload failed''
   \<and> uploadPending (uploadFiles_start (uploadResponse 1 (Inl server_error) (uploadResponse 0 (Inr (Some (mk_doc 0 w2_data)))
              (uploadFiles_start (onDrop [file1, file2] du_init))))) = Some [(file1, None), (file2, None)]"
  using DocumentUpload.upload_failure_keeps_selection
          [of "uploadResponse 0 (Inr (Some (mk_doc 0 w2_data))) (uploadFiles_start (onDrop [file1, file2] du_init))"
              1 server_error
              "uploadResponse 1 (Inl server_error) (uploadResponse 0 (Inr (Some (mk_doc 0 w2_data)))
                 (uploadFiles_start (onDrop [file1, file2] du_init)))"]
  by (simp add: du_witness_defs error_text_def server_error_def)

theorem null_upload_result_breaks_render_witness:
  "\<not> du_render_ok (uploadResponse 0 (Inr None) (uploadFiles_start (onDrop [file1] du_init)))"
  using DocumentUpload.null_upload_result_breaks_render
          [of "uploadFiles_start (onDrop [file1] du_init)" 0
              "uploadResponse 0 (Inr None) (uploadFiles_start (onDrop [file1] du_init))"]
  by (simp add: du_witness_defs)

theorem login_without_token_authenticates_witness:
  "\<exists>s'. lg_step login_sent (LoginResponse (Inr (Some (Map.empty(''token_type'' \<mapsto> JStr ''bearer''))))) = Some s'
        \<and> access_token (lg_session s') = Some ''undefined'' \<and> isAuthenticated (lg_session s')"
  using Session.login_without_token_authenticates [of login_sent "Map.empty(''token_type'' \<mapsto> JStr ''bearer'')"]
  by (auto simp: login_sent_def handleLogin_start_def)

theorem unauthorized_logs_out_witness:
  "access_token (api_on_error unauthorized logged_in) = None
   \<and> route (api_on_error unauthorized logged_in) (location (api_on_error unauthorized logged_in)) = LoginPage
   \<and> (\<forall>url. route (api_on_error unauthorized logged_in) url = LoginPage
            \<or> route (api_on_error unauthorized logged_in) url = RegisterPage)"
  by (rule Session.unauthorized_logs_out) (simp add: unauthorized_def)

theorem login_401_hides_error_witness:
  "\<exists>s'. lg_step login_sent (LoginResponse (Inl unauthorized)) = Some s' \<and> lg_error s' = JStr []"
  using Session.login_401_hides_error [of login_sent unauthorized]
  by (auto simp: login_sent_def handleLogin_start_def unauthorized_def)

theorem admin_user_paths_differ_witness:
  "(\<exists>s1. ap_step (loadData_done 0 (Inr (DataArray [admin_user])) ap_init) (ApClickDelete 0 True) = Some s1
         \<and> last (requests s1) = ApDelete ''/admin/users/7'')
   \<and> (\<exists>s2 s3. ap_step (loadData_done 0 (Inr (DataArray [admin_user])) ap_init) (ApClickEdit 0) = Some s2
         \<and> ap_step s2 ApClickSave = Some s3 \<and> last (requests s3) = ApPut ''/admin/user/7'' admin_user)"
  using AdminPanel.admin_user_paths_differ
          [of "loadData_done 0 (Inr (DataArray [admin_user])) ap_init" "[admin_user]" 0 "''7''"]
  by (simp add: ap_init_def loadData_start_def tab_path_def loadData_done_def loader_done_def data_list_def
                remove_nth_def admin_user_def int_string_def nat_digits.simps)

theorem delete_reloads_click_tab_witness:
  "\<exists>s1 s2 s3. ap_step (loadData_done 0 (Inr (DataArray [admin_user])) ap_init) (ApClickDelete 0 True) = Some s1
        \<and> ap_step s1 (ApSelectTab 2) = Some s2 \<and> ap_step s2 (ApMutationResponse 0 (Inr ())) = Some s3
        \<and> ap_tab s3 = 2 \<and> last (requests s3) = ApGet ''/admin/users'' \<and> ap_panel s3 = PanelSpinner"
proof -
  let ?s = "loadData_done 0 (Inr (DataArray [admin_user])) ap_init"
  have h: "ap_tab ?s = 0" "\<not> ap_loading ?s" "users ?s = Some [admin_user]"
    "js_to_string (js_get ([admin_user] ! 0) ''id'') = Some ''7''" "mutationsPending ?s = []"
    by (simp_all add: ap_init_def loadData_start_def tab_path_def loadData_done_def loader_done_def data_list_def
                      remove_nth_def admin_user_def int_string_def nat_digits.simps)
  obtain s1 s2 s3 where "ap_step ?s (ApClickDelete 0 True) = Some s1" "ap_step s1 (ApSelectTab 2) = Some s2"
      "ap_step s2 (ApMutationResponse (length (mutationsPending ?s)) (Inr ())) = Some s3"
      "ap_tab s3 = 2" "last (requests s3) = ApGet ''/admin/users''" "ap_panel s3 = PanelSpinner"
    using AdminPanel.delete_reloads_click_tab [of ?s "[admin_user]" 0 "''7''" 2, OF h(1-3) _ h(4)] by auto
  then show ?thesis unfolding h(5) by auto
qed

theorem register_resubmit_before_redirect_witness:
  "\<exists>s1 s2. rg_step (rg_submit_start ((rg_init logged_in)\<lparr>reg_form := (\<lambda>_. [])(''email'' := ''ada@example.com'', ''password'' := ''pw''),
                                                         rg_loading := True\<rparr>)) (RgResponse (Inr ())) = Some s1
            \<and> rg_step s1 RgSubmit = Some s2 \<and> redirectTimers s1 = 1"
  using Pages.register_resubmit_before_redirect
          [of "rg_submit_start ((rg_init logged_in)\<lparr>reg_form := (\<lambda>_. [])(''email'' := ''ada@example.com'', ''password'' := ''pw''),
                                                 rg_loading := True\<rparr>)"]
  by (auto simp: rg_submit_start_def rg_init_def)

theorem admin_loads_settle_witness:
  "\<exists>s'. ap_run ap_init [ApLoadResponse 0 (Inl server_error)] = Some s' \<and> loadsPending s' = [] \<and> \<not> ap_loading s'"
  using AdminPanel.admin_loads_settle [OF ap_reachable.init, of "[Inl server_error]"]
  by (simp add: ap_init_def loadData_start_def tab_path_def)

end
